theory Spec2Isabelle
  imports Main
begin

section \<open>JavaScript strings\<close>

text \<open>
  A JavaScript string is a sequence of UTF-16 code units.  The currency symbols the
  program looks for are outside ASCII, so a string is modelled as the list of its code
  units (natural numbers below 65536) rather than as a list of bytes.  \<open>js\<close> embeds an
  ASCII literal.
\<close>

type_synonym jschar = nat
type_synonym jstring = "jschar list"

definition js :: "string \<Rightarrow> jstring" where
  "js s = map of_char s"

text \<open>\<open>CONFIG.SELECTORS.DEPOSITS.CURRENCY_SYMBOLS\<close>: the euro sign U+20AC, the dollar
  sign U+0024 and the pound sign U+00A3, in this order (the same list in both files).\<close>

definition euro :: jschar where "euro = 8364"
definition dollar :: jschar where "dollar = 36"
definition pound :: jschar where "pound = 163"

definition CURRENCY_SYMBOLS :: "jstring list" where
  "CURRENCY_SYMBOLS = [[euro], [dollar], [pound]]"

definition dquote :: jschar where "dquote = 34"
definition comma :: jschar where "comma = 44"
definition dot :: jschar where "dot = 46"
definition newline :: jschar where "newline = 10"
definition backslash :: jschar where "backslash = 92"

text \<open>
  The characters removed by \<open>String.prototype.trim\<close> (WhiteSpace and LineTerminator of
  ECMAScript); the class \<open>\s\<close> of a regular expression is the same set.
\<close>

definition isWhiteSpace :: "jschar \<Rightarrow> bool" where
  "isWhiteSpace c \<longleftrightarrow>
     c = 9 \<or> c = 10 \<or> c = 11 \<or> c = 12 \<or> c = 13 \<or> c = 32 \<or> c = 160 \<or> c = 5760 \<or>
     (8192 \<le> c \<and> c \<le> 8202) \<or> c = 8232 \<or> c = 8233 \<or> c = 8239 \<or> c = 8287 \<or>
     c = 12288 \<or> c = 65279"

definition trim :: "jstring \<Rightarrow> jstring" where
  "trim s = rev (dropWhile isWhiteSpace (rev (dropWhile isWhiteSpace s)))"

fun startsWith :: "jstring \<Rightarrow> jstring \<Rightarrow> bool" where
  "startsWith s [] = True"
| "startsWith [] (n # ns) = False"
| "startsWith (c # cs) (n # ns) = (c = n \<and> startsWith cs ns)"

text \<open>\<open>hay.includes(needle)\<close>: the needle occurs at some position of the string.\<close>

fun str_includes :: "jstring \<Rightarrow> jstring \<Rightarrow> bool" where
  "str_includes [] needle = (needle = [])"
| "str_includes (c # cs) needle = (startsWith (c # cs) needle \<or> str_includes cs needle)"

text \<open>The class \<open>\d\<close> (which is \<open>[0-9]\<close>) and the class \<open>[\d,.]\<close> (written \<open>[0-9,.]\<close> in
  return-detector.js).\<close>

definition isDigit :: "jschar \<Rightarrow> bool" where
  "isDigit c \<longleftrightarrow> 48 \<le> c \<and> c \<le> 57"

definition isAmountChar :: "jschar \<Rightarrow> bool" where
  "isAmountChar c \<longleftrightarrow> isDigit c \<or> c = comma \<or> c = dot"

text \<open>\<open>.\<close> of a regular expression without the \<open>s\<close> flag: any code unit but a line
  terminator.\<close>

definition isLineTerminator :: "jschar \<Rightarrow> bool" where
  "isLineTerminator c \<longleftrightarrow> c = 10 \<or> c = 13 \<or> c = 8232 \<or> c = 8233"

text \<open>\<open>String(n)\<close> for a non-negative integer: its decimal digits.\<close>

fun decimal :: "nat \<Rightarrow> jstring" where
  "decimal n = (if n < 10 then [48 + n] else decimal (n div 10) @ [48 + n mod 10])"

declare decimal.simps [simp del]

text \<open>\<open>parts.join(sep)\<close>.\<close>

fun join :: "jstring \<Rightarrow> jstring list \<Rightarrow> jstring" where
  "join sep [] = []"
| "join sep [x] = x"
| "join sep (x # y # ys) = x @ sep @ join sep (y # ys)"

section \<open>The rendered page\<close>

text \<open>
  The page is a tree of elements and text nodes.  An element carries its lower-case tag
  name, its attributes and its child nodes.  A reference to an element is the path of
  child indices that leads to it from the document element, so that two references are
  the same object (\<open>===\<close>) exactly when the paths are equal.
\<close>

datatype node =
    Element (tagOf: jstring) (attrsOf: "(jstring \<times> jstring) list") (childNodes: "node list")
  | TextNode jstring

type_synonym path = "nat list"

fun isElement :: "node \<Rightarrow> bool" where
  "isElement (Element t a cs) = True"
| "isElement (TextNode s) = False"

text \<open>\<open>node.textContent\<close>: the text of all descendant text nodes, in document order.\<close>

fun textContent :: "node \<Rightarrow> jstring" where
  "textContent (TextNode s) = s"
| "textContent (Element t a cs) = concat (map textContent cs)"

fun nodeAt :: "node \<Rightarrow> path \<Rightarrow> node option" where
  "nodeAt n [] = Some n"
| "nodeAt (TextNode s) (i # p) = None"
| "nodeAt (Element t a cs) (i # p) = (if i < length cs then nodeAt (cs ! i) p else None)"

definition textAt :: "node \<Rightarrow> path \<Rightarrow> jstring" where
  "textAt doc p = (case nodeAt doc p of Some n \<Rightarrow> textContent n | None \<Rightarrow> [])"

text \<open>\<open>element.parentElement\<close>: \<open>null\<close> for the document element, whose parent is the
  document itself and not an element.\<close>

definition parentElement :: "path \<Rightarrow> path option" where
  "parentElement p = (if p = [] then None else Some (butlast p))"

definition getAttribute :: "node \<Rightarrow> jstring \<Rightarrow> jstring option" where
  "getAttribute n name = (case n of Element t a cs \<Rightarrow> map_of a name | TextNode s \<Rightarrow> None)"

text \<open>The tokens of a \<open>class\<close> attribute, separated by ASCII white space.\<close>

definition isAsciiSpace :: "jschar \<Rightarrow> bool" where
  "isAsciiSpace c \<longleftrightarrow> c = 9 \<or> c = 10 \<or> c = 12 \<or> c = 13 \<or> c = 32"

fun tokens :: "jstring \<Rightarrow> jstring \<Rightarrow> jstring list" where
  "tokens cur [] = (if cur = [] then [] else [cur])"
| "tokens cur (c # cs) =
     (if isAsciiSpace c then (if cur = [] then tokens [] cs else cur # tokens [] cs)
      else tokens (cur @ [c]) cs)"

definition classList :: "node \<Rightarrow> jstring list" where
  "classList n = (case getAttribute n (js ''class'') of Some v \<Rightarrow> tokens [] v | None \<Rightarrow> [])"

text \<open>All elements below (and including) a node, in document order, each with its path.\<close>

fun walk :: "path \<Rightarrow> node \<Rightarrow> (path \<times> node) list"
  and walkList :: "path \<Rightarrow> nat \<Rightarrow> node list \<Rightarrow> (path \<times> node) list" where
  "walk p (TextNode s) = []"
| "walk p (Element t a cs) = (p, Element t a cs) # walkList p 0 cs"
| "walkList p i [] = []"
| "walkList p i (c # cs) = walk (p @ [i]) c @ walkList p (Suc i) cs"

subsection \<open>Selectors\<close>

text \<open>
  The selector engine belongs to the browser.  A selector string is represented by what
  the engine parses it to: a comma-separated group of compound selectors, or text that
  the parser rejects (such as \<open>button:contains("Close")\<close>, which is not CSS).  A query with
  a group that is empty or has a rejected member throws a \<open>SyntaxError\<close>.
\<close>

datatype simple_selector =
    Universal
  | TypeSel jstring
  | ClassSel jstring
  | IdSel jstring
  | AttrEquals jstring jstring
  | AttrContains jstring jstring

datatype selector = Compound "simple_selector list" | Unparsable

type_synonym selector_group = "selector list"

datatype dom_exception = SyntaxError | TypeError

fun matchesSimple :: "node \<Rightarrow> simple_selector \<Rightarrow> bool" where
  "matchesSimple n Universal = True"
| "matchesSimple n (TypeSel t) = (tagOf n = t)"
| "matchesSimple n (ClassSel c) = (c \<in> set (classList n))"
| "matchesSimple n (IdSel i) = (getAttribute n (js ''id'') = Some i)"
| "matchesSimple n (AttrEquals a v) = (getAttribute n a = Some v)"
| "matchesSimple n (AttrContains a v) =
     (v \<noteq> [] \<and> (case getAttribute n a of Some w \<Rightarrow> str_includes w v | None \<Rightarrow> False))"

fun matchesSelector :: "node \<Rightarrow> selector \<Rightarrow> bool" where
  "matchesSelector n (Compound ss) = list_all (matchesSimple n) ss"
| "matchesSelector n Unparsable = False"

definition validGroup :: "selector_group \<Rightarrow> bool" where
  "validGroup g \<longleftrightarrow> g \<noteq> [] \<and> Unparsable \<notin> set g"

text \<open>The root of a query: the document (the default \<open>root = document\<close>) or an element,
  whose descendants are searched, the element itself excluded.\<close>

datatype query_root = Document | Within path

fun scope :: "node \<Rightarrow> query_root \<Rightarrow> (path \<times> node) list" where
  "scope doc Document = walk [] doc"
| "scope doc (Within p) =
     (case nodeAt doc p of
        Some (Element t a cs) \<Rightarrow> walkList p 0 cs
      | _ \<Rightarrow> [])"

definition native_querySelectorAll ::
  "node \<Rightarrow> selector_group \<Rightarrow> query_root \<Rightarrow> dom_exception + path list" where
  "native_querySelectorAll doc g root =
     (if validGroup g
      then Inr (map fst (filter (\<lambda>(p, n). list_ex (matchesSelector n) g) (scope doc root)))
      else Inl SyntaxError)"

definition native_querySelector ::
  "node \<Rightarrow> selector_group \<Rightarrow> query_root \<Rightarrow> dom_exception + path option" where
  "native_querySelector doc g root =
     (case native_querySelectorAll doc g root of
        Inl e \<Rightarrow> Inl e
      | Inr [] \<Rightarrow> Inr None
      | Inr (p # ps) \<Rightarrow> Inr (Some p))"

section \<open>DOMUtils\<close>

text \<open>\<open>DOMUtils.querySelector\<close> and \<open>DOMUtils.querySelectorAll\<close>: the native query inside
  \<open>try\<close>; the \<open>catch\<close> logs and returns \<open>null\<close>, respectively \<open>[]\<close>.\<close>

definition querySelector :: "node \<Rightarrow> selector_group \<Rightarrow> query_root \<Rightarrow> path option" where
  "querySelector doc g root =
     (case native_querySelector doc g root of Inr r \<Rightarrow> r | Inl e \<Rightarrow> None)"

definition querySelectorAll :: "node \<Rightarrow> selector_group \<Rightarrow> query_root \<Rightarrow> path list" where
  "querySelectorAll doc g root =
     (case native_querySelectorAll doc g root of Inr r \<Rightarrow> r | Inl e \<Rightarrow> [])"

definition elementContainsText :: "node \<Rightarrow> path \<Rightarrow> jstring \<Rightarrow> bool" where
  "elementContainsText doc el text = str_includes (trim (textAt doc el)) text"

definition findElementsByText ::
  "node \<Rightarrow> selector_group \<Rightarrow> jstring \<Rightarrow> query_root \<Rightarrow> path list" where
  "findElementsByText doc tagName text root =
     filter (\<lambda>el. trim (textAt doc el) = text) (querySelectorAll doc tagName root)"

text \<open>
  \<open>findAncestor(element, predicate, maxDepth)\<close>: the loop
  \<open>while (current && depth < maxDepth)\<close>, with the number of iterations that remain as
  the recursion argument.  The walk starts at the element itself.
\<close>

fun findAncestor_loop :: "(path \<Rightarrow> bool) \<Rightarrow> nat \<Rightarrow> path option \<Rightarrow> path option" where
  "findAncestor_loop predicate 0 current = None"
| "findAncestor_loop predicate (Suc k) None = None"
| "findAncestor_loop predicate (Suc k) (Some c) =
     (if predicate c then Some c else findAncestor_loop predicate k (parentElement c))"

definition findAncestor :: "path \<Rightarrow> (path \<Rightarrow> bool) \<Rightarrow> nat \<Rightarrow> path option" where
  "findAncestor element predicate maxDepth = findAncestor_loop predicate maxDepth (Some element)"

section \<open>Finding the deposit containers\<close>

text \<open>\<open>CONFIG.SELECTORS.DEPOSITS.CONTAINERS\<close> of script-demo.js (two selectors) and of
  return-detector.js (four); \<open>CONTAINERS.join(', ')\<close> is the group of all of them.\<close>

definition CONTAINERS :: selector_group where
  "CONTAINERS =
     [Compound [ClassSel (js ''sc-beqWaB''), ClassSel (js ''sc-eIoBCF''),
                ClassSel (js ''bUiODS''), ClassSel (js ''iDrAoK'')],
      Compound [AttrContains (js ''class'') (js ''sc-beqWaB''),
                AttrContains (js ''class'') (js ''sc-eIoBCF'')]]"

definition CONTAINERS_rd :: selector_group where
  "CONTAINERS_rd =
     [Compound [ClassSel (js ''sc-beqWaB''), ClassSel (js ''sc-eIoBCF''),
                ClassSel (js ''bUiODS''), ClassSel (js ''iDrAoK'')],
      Compound [AttrContains (js ''class'') (js ''sc-beqWaB''),
                AttrContains (js ''class'') (js ''sc-eIoBCF'')],
      Compound [ClassSel (js ''sc-dxnOzg'')],
      Compound [ClassSel (js ''sc-beqWaB''), ClassSel (js ''sc-eKNumk''),
                ClassSel (js ''sc-hbpqLB'')]]"

definition tagP :: selector_group where "tagP = [Compound [TypeSel (js ''p'')]]"
definition tagSmall :: selector_group where "tagSmall = [Compound [TypeSel (js ''small'')]]"

text \<open>
  script-demo.js tests \<open>/\d+\.\d+|\d+,\d+/\<close> on the text of an element.  The pattern is
  not anchored and \<open>\d+\<close> needs one digit only, so it matches exactly when a digit, a dot
  or comma, and a digit follow each other somewhere in the text.
\<close>

fun hasNumbers :: "jstring \<Rightarrow> bool" where
  "hasNumbers (a # b # c # r) =
     ((isDigit a \<and> (b = dot \<or> b = comma) \<and> isDigit c) \<or> hasNumbers (b # c # r))"
| "hasNumbers r = False"

text \<open>
  return-detector.js writes the pattern with doubled backslashes,
  \<open>/\\d+\\.\\d+|\\d+,\\d+/\<close>.  In a regular expression literal \<open>\\\<close> is a literal
  backslash, \<open>d+\<close> a run of the letter d and \<open>.\<close> any code unit but a line terminator.
  The first alternative is: backslash, run of d, backslash, any, backslash, run of d; the
  second: backslash, run of d, comma, backslash, run of d.  A run of d is followed by a
  code unit other than d in both, so the run is the longest one.
\<close>

definition letter_d :: jschar where "letter_d = 100"

fun afterRun_dot :: "jstring \<Rightarrow> bool" where
  "afterRun_dot (b # x # b2 # d # r) =
     (b = backslash \<and> \<not> isLineTerminator x \<and> b2 = backslash \<and> d = letter_d)"
| "afterRun_dot r = False"

fun afterRun_comma :: "jstring \<Rightarrow> bool" where
  "afterRun_comma (c # b # d # r) = (c = comma \<and> b = backslash \<and> d = letter_d)"
| "afterRun_comma r = False"

fun matchesAt_rd :: "jstring \<Rightarrow> bool" where
  "matchesAt_rd (b # d # r) =
     (b = backslash \<and> d = letter_d \<and>
      (let rest = dropWhile (\<lambda>x. x = letter_d) r in afterRun_dot rest \<or> afterRun_comma rest))"
| "matchesAt_rd r = False"

fun hasNumbers_rd :: "jstring \<Rightarrow> bool" where
  "hasNumbers_rd [] = False"
| "hasNumbers_rd (c # cs) = (matchesAt_rd (c # cs) \<or> hasNumbers_rd cs)"

text \<open>The predicate handed to \<open>findAncestor\<close>; \<open>numbers\<close> is the numeric test of the file
  (\<open>hasNumbers\<close> or \<open>hasNumbers_rd\<close>), applied to the untrimmed text.\<close>

definition containerPredicate :: "(jstring \<Rightarrow> bool) \<Rightarrow> node \<Rightarrow> path \<Rightarrow> bool" where
  "containerPredicate numbers doc el =
     (let hasDeposit = elementContainsText doc el (js ''Deposit'');
          hasAmount = list_ex (\<lambda>symbol. elementContainsText doc el symbol) CURRENCY_SYMBOLS;
          hasNums = numbers (textAt doc el)
      in hasDeposit \<and> (hasAmount \<or> hasNums))"

text \<open>The loop over the "Deposit" paragraphs: a container is pushed unless
  \<open>containers.includes(container)\<close>.\<close>

fun collectContainers :: "(path \<Rightarrow> path option) \<Rightarrow> path list \<Rightarrow> path list \<Rightarrow> path list" where
  "collectContainers f [] containers = containers"
| "collectContainers f (depositText # rest) containers =
     (case f depositText of
        Some container \<Rightarrow>
          (if container \<in> set containers then collectContainers f rest containers
           else collectContainers f rest (containers @ [container]))
      | None \<Rightarrow> collectContainers f rest containers)"

definition genericContainers :: "(jstring \<Rightarrow> bool) \<Rightarrow> node \<Rightarrow> path list" where
  "genericContainers numbers doc =
     (let depositTexts = findElementsByText doc tagP (js ''Deposit'') Document
      in collectContainers
           (\<lambda>depositText. findAncestor depositText (containerPredicate numbers doc) 8)
           depositTexts [])"

definition findDepositContainersGeneric :: "node \<Rightarrow> path list" where
  "findDepositContainersGeneric doc = genericContainers hasNumbers doc"

definition findDepositContainersGeneric_rd :: "node \<Rightarrow> path list" where
  "findDepositContainersGeneric_rd doc = genericContainers hasNumbers_rd doc"

text \<open>\<open>findDepositContainers\<close>, with the selector list of the configuration as a
  parameter.\<close>

definition depositContainers :: "selector_group \<Rightarrow> (jstring \<Rightarrow> bool) \<Rightarrow> node \<Rightarrow> path list" where
  "depositContainers containerSelectors numbers doc =
     (let containers = filter (\<lambda>container. elementContainsText doc container (js ''Deposit''))
                         (querySelectorAll doc containerSelectors Document)
      in if length containers = 0 then genericContainers numbers doc else containers)"

definition findDepositContainers :: "node \<Rightarrow> path list" where
  "findDepositContainers doc = depositContainers CONTAINERS hasNumbers doc"

definition findDepositContainers_rd :: "node \<Rightarrow> path list" where
  "findDepositContainers_rd doc = depositContainers CONTAINERS_rd hasNumbers_rd doc"

section \<open>Extracting a deposit record\<close>

text \<open>
  The fields that \<open>getDepositDetails\<close> copies into \<open>listInfo\<close> come first; a deposit record
  adds \<open>index\<close> and \<open>type\<close>, then script-demo.js adds \<open>element\<close> and return-detector.js
  adds \<open>xpath\<close> and \<open>outerHTML\<close>.
\<close>

record list_info =
  amount :: jstring
  currency :: jstring
  depositStatus :: jstring
  hasBeenReturned :: bool
  returnStatus :: jstring

record deposit_record = list_info +
  index :: nat
  type :: jstring

record deposit_demo = deposit_record +
  element :: path

record deposit_rd = deposit_record +
  xpath :: "jstring option"
  outerHTML :: jstring

text \<open>\<open>p.textContent.trim()\<close>.\<close>

definition trimmedText :: "node \<Rightarrow> path \<Rightarrow> jstring" where
  "trimmedText doc p = trim (textAt doc p)"

text \<open>\<open>a || b\<close> on strings: the empty string is falsy.\<close>

definition orElse :: "jstring \<Rightarrow> jstring \<Rightarrow> jstring" where
  "orElse a b = (if a = [] then b else a)"

text \<open>\<open>array.indexOf(x)\<close>: the first index that holds \<open>x\<close>, or \<open>-1\<close>.\<close>

fun indexOf :: "'a list \<Rightarrow> 'a \<Rightarrow> int" where
  "indexOf [] x = - 1"
| "indexOf (y # ys) x =
     (if y = x then 0 else (let i = indexOf ys x in if i < 0 then - 1 else i + 1))"

text \<open>\<open>array[i]\<close> is \<open>undefined\<close> out of range.\<close>

definition at :: "'a list \<Rightarrow> int \<Rightarrow> 'a option" where
  "at xs i = (if 0 \<le> i \<and> i < int (length xs) then Some (xs ! nat i) else None)"

text \<open>\<open>/[\d,.]+/.test(t)\<close> (\<open>/[0-9,.]+/\<close> in return-detector.js), not anchored: some code
  unit of the text is a digit, a comma or a dot.\<close>

definition testAmount :: "jstring \<Rightarrow> bool" where
  "testAmount t = list_ex isAmountChar t"

text \<open>
  The loop \<open>for (const symbol of CURRENCY_SYMBOLS)\<close> with its \<open>break\<close>.  The result is
  the pair of \<open>currency\<close> and \<open>amount\<close> after the loop; \<open>cur\<close> is \<open>currency\<close> so far.
  Reading \<open>textContent\<close> of \<open>paragraphs[currencyIndex + 1]\<close> throws a \<open>TypeError\<close> if that
  entry is \<open>undefined\<close>.
\<close>

fun standaloneLoop ::
  "node \<Rightarrow> path list \<Rightarrow> jstring list \<Rightarrow> jstring \<Rightarrow> dom_exception + (jstring \<times> jstring)" where
  "standaloneLoop doc paragraphs [] cur = Inr (cur, [])"
| "standaloneLoop doc paragraphs (symbol # symbols) cur =
     (case find (\<lambda>p. trimmedText doc p = symbol) paragraphs of
        None \<Rightarrow> standaloneLoop doc paragraphs symbols cur
      | Some currencyParagraph \<Rightarrow>
          (let currencyIndex = indexOf paragraphs currencyParagraph in
           if currencyIndex \<ge> 0 \<and> currencyIndex < int (length paragraphs) - 1 then
             (case at paragraphs (currencyIndex + 1) of
                None \<Rightarrow> Inl TypeError
              | Some nextParagraph \<Rightarrow>
                  if testAmount (trimmedText doc nextParagraph)
                  then Inr (symbol, trimmedText doc nextParagraph)
                  else standaloneLoop doc paragraphs symbols symbol)
           else standaloneLoop doc paragraphs symbols symbol))"

text \<open>
  \<open>text.match(/^([\<euro>$\<pounds>]?)\s*([\d,.]+)$/)\<close>: the two capture groups, or \<open>null\<close>.  The three
  classes are disjoint, so the match is unique: the symbol is taken if the text starts
  with one, then all white space, and the rest must be a non-empty run of digits, commas
  and dots up to the end.  The test \<open>/^[\<euro>$\<pounds>]?\s*[\d,.]+$/\<close> of \<open>find\<close> is the same pattern
  without the groups.
\<close>

definition isCurrencyChar :: "jschar \<Rightarrow> bool" where
  "isCurrencyChar c \<longleftrightarrow> c = euro \<or> c = dollar \<or> c = pound"

definition matchCombined :: "jstring \<Rightarrow> (jstring \<times> jstring) option" where
  "matchCombined text =
     (let (symbol, rest) =
            (case text of
               [] \<Rightarrow> ([], [])
             | c # cs \<Rightarrow> if isCurrencyChar c then ([c], cs) else ([], c # cs));
          digits = dropWhile isWhiteSpace rest
      in if digits \<noteq> [] \<and> list_all isAmountChar digits then Some (symbol, digits) else None)"

definition testCombined :: "jstring \<Rightarrow> bool" where
  "testCombined text = (matchCombined text \<noteq> None)"

text \<open>The block \<open>if (!amount) { ... }\<close>, from the pair the loop left.\<close>

definition combinedFormat :: "node \<Rightarrow> path list \<Rightarrow> jstring \<times> jstring \<Rightarrow> jstring \<times> jstring" where
  "combinedFormat doc paragraphs ca =
     (case ca of (cur, amt) \<Rightarrow>
        if amt = [] then
          (case find (\<lambda>p. testCombined (trimmedText doc p)) paragraphs of
             None \<Rightarrow> (cur, amt)
           | Some amountParagraph \<Rightarrow>
               (let text = trimmedText doc amountParagraph in
                case matchCombined text of
                  Some (g1, g2) \<Rightarrow> (orElse g1 [], orElse g2 text)
                | None \<Rightarrow> (cur, text)))
        else (cur, amt))"

text \<open>The status under a label paragraph ("Deposit" or "Return"): the first \<open>small\<close>
  inside the parent of the first paragraph whose trimmed text is the label, read through
  \<open>DOMUtils.querySelector\<close>.\<close>

definition labelStatus :: "node \<Rightarrow> path list \<Rightarrow> jstring \<Rightarrow> jstring" where
  "labelStatus doc paragraphs label =
     (case find (\<lambda>p. trimmedText doc p = label) paragraphs of
        None \<Rightarrow> []
      | Some labelParagraph \<Rightarrow>
          (case parentElement labelParagraph of
             None \<Rightarrow> []
           | Some parent \<Rightarrow>
               (case querySelector doc tagSmall (Within parent) of
                  None \<Rightarrow> []
                | Some smallInParent \<Rightarrow> trimmedText doc smallInParent)))"

subsection \<open>script-demo.js\<close>

definition extractDepositInfo :: "node \<Rightarrow> path \<Rightarrow> nat \<Rightarrow> dom_exception + deposit_demo" where
  "extractDepositInfo doc container idx =
     (let paragraphs = querySelectorAll doc tagP (Within container);
          returned = (list_ex (\<lambda>p. trimmedText doc p = js ''Return'') paragraphs \<or>
                      elementContainsText doc container (js ''Return''))
      in case standaloneLoop doc paragraphs CURRENCY_SYMBOLS [] of
           Inl e \<Rightarrow> Inl e
         | Inr ca \<Rightarrow>
             (case combinedFormat doc paragraphs ca of (cur, amt) \<Rightarrow>
                Inr \<lparr> amount = amt, currency = cur,
                      depositStatus = labelStatus doc paragraphs (js ''Deposit''),
                      hasBeenReturned = returned,
                      returnStatus =
                        (if returned then labelStatus doc paragraphs (js ''Return'') else []),
                      index = idx, type = js ''Deposit'', element = container \<rparr>))"

subsection \<open>return-detector.js\<close>

text \<open>The block marked \<open>FIXED RETURN DETECTION\<close>.  It calls \<open>parent.querySelector\<close>
  directly, outside any \<open>try\<close>.\<close>

definition returnDetection :: "node \<Rightarrow> path list \<Rightarrow> dom_exception + (bool \<times> jstring)" where
  "returnDetection doc paragraphs =
     (case find (\<lambda>p. trimmedText doc p = js ''Return'') paragraphs of
        None \<Rightarrow> Inr (False, [])
      | Some returnParagraph \<Rightarrow>
          (case parentElement returnParagraph of
             None \<Rightarrow> Inr (False, [])
           | Some parent \<Rightarrow>
               (case native_querySelector doc tagSmall (Within parent) of
                  Inl e \<Rightarrow> Inl e
                | Inr None \<Rightarrow> Inr (False, [])
                | Inr (Some small) \<Rightarrow>
                    (let status = trimmedText doc small in
                     if status = js ''Invoiced'' then Inr (True, status)
                     else if status = js ''Pending invoice'' then Inr (False, status)
                     else Inr (False, status)))))"

text \<open>\<open>element.id\<close> (\<open>''\<close> without the attribute), \<open>element.tagName.toLowerCase()\<close>,
  \<open>element.childNodes\<close> and \<open>document.body\<close>.\<close>

definition elementId :: "node \<Rightarrow> path \<Rightarrow> jstring" where
  "elementId doc p =
     (case nodeAt doc p of
        Some n \<Rightarrow> (case getAttribute n (js ''id'') of Some v \<Rightarrow> v | None \<Rightarrow> [])
      | None \<Rightarrow> [])"

definition tagAt :: "node \<Rightarrow> path \<Rightarrow> jstring" where
  "tagAt doc p = (case nodeAt doc p of Some (Element t a cs) \<Rightarrow> t | _ \<Rightarrow> [])"

definition childNodesAt :: "node \<Rightarrow> path \<Rightarrow> node list" where
  "childNodesAt doc p = (case nodeAt doc p of Some (Element t a cs) \<Rightarrow> cs | _ \<Rightarrow> [])"

fun firstBody :: "nat \<Rightarrow> node list \<Rightarrow> path option" where
  "firstBody i [] = None"
| "firstBody i (TextNode s # cs) = firstBody (Suc i) cs"
| "firstBody i (Element t a ds # cs) =
     (if t = js ''body'' \<or> t = js ''frameset'' then Some [i] else firstBody (Suc i) cs)"

definition documentBody :: "node \<Rightarrow> path option" where
  "documentBody doc =
     (case doc of
        Element t a cs \<Rightarrow> if t = js ''html'' then firstBody 0 cs else None
      | TextNode s \<Rightarrow> None)"

text \<open>The loop of \<open>getXPath\<close> over \<open>siblings\<close>: the value of \<open>ix\<close> when the element (the
  sibling at position \<open>k\<close>) is reached, or nothing if the loop runs out.\<close>

fun siblingLoop :: "node list \<Rightarrow> nat \<Rightarrow> jstring \<Rightarrow> nat \<Rightarrow> nat \<Rightarrow> nat option" where
  "siblingLoop [] k tag i ix = None"
| "siblingLoop (sibling # rest) k tag i ix =
     (if i = k then Some ix
      else siblingLoop rest k tag (Suc i)
             (case sibling of
                Element t a cs \<Rightarrow> if t = tag then Suc ix else ix
              | TextNode s \<Rightarrow> ix))"

text \<open>A string concatenated with \<open>undefined\<close> shows it as the text \<open>undefined\<close>.\<close>

definition shown :: "jstring option \<Rightarrow> jstring" where
  "shown v = (case v of Some s \<Rightarrow> s | None \<Rightarrow> js ''undefined'')"

text \<open>
  \<open>getXPath(element)\<close>.  The parent of the document element is the document, whose \<open>id\<close>
  is \<open>undefined\<close> and so differs from \<open>''\<close>: the recursion ends there with the text
  \<open>//*[@id="undefined"]\<close>.  The function returns \<open>undefined\<close> when its loop ends without
  meeting the element.
\<close>

definition idXPath :: "jstring \<Rightarrow> jstring" where
  "idXPath i = js ''//*[@id='' @ [dquote] @ i @ [dquote] @ js '']''"

definition xpathStep :: "jstring \<Rightarrow> jstring \<Rightarrow> nat \<Rightarrow> jstring" where
  "xpathStep parentPath tag ix = parentPath @ js ''/'' @ tag @ js ''['' @ decimal (ix + 1) @ js '']''"

function getXPath :: "node \<Rightarrow> path \<Rightarrow> jstring option" where
  "getXPath doc p =
     (if elementId doc p \<noteq> [] then Some (idXPath (elementId doc p))
      else if documentBody doc = Some p then Some (js ''/html/body'')
      else if p = [] then
        (case siblingLoop [doc] 0 (tagAt doc p) 0 0 of
           None \<Rightarrow> None
         | Some ix \<Rightarrow> Some (xpathStep (idXPath (js ''undefined'')) (tagAt doc p) ix))
      else
        (case siblingLoop (childNodesAt doc (butlast p)) (last p) (tagAt doc p) 0 0 of
           None \<Rightarrow> None
         | Some ix \<Rightarrow> Some (xpathStep (shown (getXPath doc (butlast p))) (tagAt doc p) ix)))"
  by pat_completeness auto
termination
  by (relation "measure (\<lambda>(doc, p). length p)") auto

declare getXPath.simps [simp del]

text \<open>\<open>extractDepositInfo\<close> of return-detector.js.  \<open>serialize\<close> stands for the browser's
  \<open>outerHTML\<close> serialisation of an element.\<close>

definition extractDepositInfo_rd ::
  "(node \<Rightarrow> jstring) \<Rightarrow> node \<Rightarrow> path \<Rightarrow> nat \<Rightarrow> dom_exception + deposit_rd" where
  "extractDepositInfo_rd serialize doc container idx =
     (let paragraphs = querySelectorAll doc tagP (Within container)
      in case standaloneLoop doc paragraphs CURRENCY_SYMBOLS [] of
           Inl e \<Rightarrow> Inl e
         | Inr ca \<Rightarrow>
             (case combinedFormat doc paragraphs ca of (cur, amt) \<Rightarrow>
                (case returnDetection doc paragraphs of
                   Inl e \<Rightarrow> Inl e
                 | Inr (returned, status) \<Rightarrow>
                     Inr \<lparr> amount = amt, currency = cur,
                           depositStatus = labelStatus doc paragraphs (js ''Deposit''),
                           hasBeenReturned = returned,
                           returnStatus = status,
                           index = idx, type = js ''Deposit'',
                           xpath = getXPath doc container,
                           outerHTML =
                             (case nodeAt doc container of
                                Some n \<Rightarrow> take 500 (serialize n)
                              | None \<Rightarrow> []) \<rparr>)))"

text \<open>\<open>findAllDeposits\<close>: \<open>containers.map((container, index) => extractDepositInfo(container,
  index + 1))\<close>; an exception of one call ends the whole map.\<close>

fun mapIndexed :: "(path \<Rightarrow> nat \<Rightarrow> dom_exception + 'r) \<Rightarrow> nat \<Rightarrow> path list \<Rightarrow> dom_exception + 'r list" where
  "mapIndexed f i [] = Inr []"
| "mapIndexed f i (c # cs) =
     (case f c (i + 1) of
        Inl e \<Rightarrow> Inl e
      | Inr r \<Rightarrow> (case mapIndexed f (Suc i) cs of Inl e \<Rightarrow> Inl e | Inr rs \<Rightarrow> Inr (r # rs)))"

definition findAllDeposits :: "node \<Rightarrow> dom_exception + deposit_demo list" where
  "findAllDeposits doc = mapIndexed (extractDepositInfo doc) 0 (findDepositContainers doc)"

definition findAllDeposits_rd :: "(node \<Rightarrow> jstring) \<Rightarrow> node \<Rightarrow> dom_exception + deposit_rd list" where
  "findAllDeposits_rd serialize doc =
     mapIndexed (extractDepositInfo_rd serialize doc) 0 (findDepositContainers_rd doc)"

section \<open>Reading the detail view\<close>

definition USER :: jstring where "USER = js ''wolketich''"
definition TIMESTAMP_current :: jstring where "TIMESTAMP_current = js ''2025-04-28 14:25:07''"

text \<open>The object \<open>extractModalDetails\<close> resolves to.  Its \<open>amount\<close> is the value of the
  form's input; it is called \<open>modalAmount\<close> here to keep it apart from the list amount.\<close>

record modal_info =
  billPayer :: jstring
  modalAmount :: jstring
  depositDate :: jstring
  noteText :: jstring
  alreadyPaid :: bool

text \<open>
  A value caught by \<open>catch (error)\<close>: \<open>null\<close> or \<open>undefined\<close>, or any other value with
  what reading its \<open>message\<close> property gives.  The exceptions of the browser and those
  made by \<open>new Error\<close> are objects whose message is a string; the property is \<open>undefined\<close>
  for a thrown value without a message.
\<close>

datatype nullish = JsNull | JsUndefined

datatype thrown = Nullish nullish | ErrorObject "jstring option"

text \<open>
  What the browser and the page do when the script drives them is outside the program.
  For every deposit, \<open>readDetails\<close> is the outcome of the statements in the \<open>try\<close> block of
  \<open>getDepositDetails\<close> (finding and clicking the element, waiting for the modal,
  \<open>extractModalDetails\<close>): the form's values, or the value thrown out of them.
  \<open>typeErrorMessage v name\<close> is the message the browser gives to the \<open>TypeError\<close> it raises
  when the property \<open>name\<close> of \<open>v\<close> is accessed (the program accesses \<open>message\<close> and
  \<open>appendChild\<close> by reading and \<open>textContent\<close> by assignment), and \<open>exceptionMessage\<close> is
  the message of an exception raised while the deposits are extracted.
\<close>

record page =
  readDetails :: "deposit_demo \<Rightarrow> thrown + modal_info"
  typeErrorMessage :: "nullish \<Rightarrow> jstring \<Rightarrow> jstring"
  exceptionMessage :: "dom_exception \<Rightarrow> jstring"

definition typeError :: "page \<Rightarrow> nullish \<Rightarrow> jstring \<Rightarrow> thrown" where
  "typeError pg v name = ErrorObject (Some (typeErrorMessage pg v name))"

text \<open>\<open>error.message\<close> inside a \<open>catch\<close>: reading the property of \<open>null\<close> or \<open>undefined\<close>
  throws a \<open>TypeError\<close>.\<close>

definition messageOf :: "page \<Rightarrow> thrown \<Rightarrow> thrown + jstring option" where
  "messageOf pg err =
     (case err of
        Nullish v \<Rightarrow> Inl (typeError pg v (js ''message''))
      | ErrorObject m \<Rightarrow> Inr m)"

text \<open>The objects built by \<open>getDepositDetails\<close> and by the \<open>catch\<close> of the export loop;
  a property the object literal does not set is \<open>None\<close>.\<close>

record deposit_details =
  detailsIndex :: nat
  listInfo :: "list_info option"
  modalInfo :: "modal_info option"
  error :: "jstring option"
  timestamp :: "jstring option"
  extractedBy :: "jstring option"

definition listInfoOf :: "deposit_demo \<Rightarrow> list_info" where
  "listInfoOf deposit =
     \<lparr> amount = amount deposit, currency = currency deposit,
       depositStatus = depositStatus deposit, hasBeenReturned = hasBeenReturned deposit,
       returnStatus = returnStatus deposit \<rparr>"

text \<open>The object \<open>fullDetails\<close>, and the object both \<open>catch\<close> blocks build from the list
  fields and the value of \<open>error.message\<close>.\<close>

definition fullDetails :: "deposit_demo \<Rightarrow> modal_info \<Rightarrow> deposit_details" where
  "fullDetails deposit modal =
     \<lparr> detailsIndex = index deposit, listInfo = Some (listInfoOf deposit),
       modalInfo = Some modal, error = None,
       timestamp = Some TIMESTAMP_current, extractedBy = Some USER \<rparr>"

definition partialDetails :: "deposit_demo \<Rightarrow> jstring option \<Rightarrow> deposit_details" where
  "partialDetails deposit msg =
     \<lparr> detailsIndex = index deposit, listInfo = Some (listInfoOf deposit), modalInfo = None,
       error = msg, timestamp = Some TIMESTAMP_current, extractedBy = Some USER \<rparr>"

text \<open>
  \<open>getDepositDetails\<close>: the object it resolves to, or the value it rejects with.  Its
  \<open>catch\<close> reads \<open>error.message\<close> while it builds the partial record, so the call rejects
  with a \<open>TypeError\<close> when \<open>null\<close> or \<open>undefined\<close> was thrown.
\<close>

definition getDepositDetails :: "page \<Rightarrow> deposit_demo \<Rightarrow> thrown + deposit_details" where
  "getDepositDetails pg deposit =
     (case readDetails pg deposit of
        Inr modal \<Rightarrow> Inr (fullDetails deposit modal)
      | Inl err \<Rightarrow>
          (case messageOf pg err of
             Inl e \<Rightarrow> Inl e
           | Inr msg \<Rightarrow> Inr (partialDetails deposit msg)))"

text \<open>
  \<open>CONFIG.SELECTORS.MODAL.CLOSE_BUTTON\<close> and the loop of \<open>closeModal\<close> over it.  The fourth
  selector, \<open>button:contains("Close")\<close>, is not a CSS selector.  The loop ends at the first
  selector for which \<open>DOMUtils.querySelector\<close> finds a button, which is clicked;
  \<open>closeModal\<close> returns whether there was one (otherwise it sends the Escape key).
\<close>

definition CLOSE_BUTTON :: "selector_group list" where
  "CLOSE_BUTTON =
     [[Compound [IdSel (js ''closeModalButton'')]],
      [Compound [ClassSel (js ''LEGACY_MODAL_closeButton'')]],
      [Compound [TypeSel (js ''button''), AttrEquals (js ''role'') (js ''button'')]],
      [Unparsable],
      [Compound [AttrEquals (js ''aria-label'') (js ''Close'')]]]"

fun closeButton :: "node \<Rightarrow> selector_group list \<Rightarrow> path option" where
  "closeButton doc [] = None"
| "closeButton doc (selector # rest) =
     (case querySelector doc selector Document of
        Some button \<Rightarrow> Some button
      | None \<Rightarrow> closeButton doc rest)"

definition closeModal :: "node \<Rightarrow> bool" where
  "closeModal doc = (closeButton doc CLOSE_BUTTON \<noteq> None)"

section \<open>Export\<close>

text \<open>
  The values an export row can hold.  An object is kept as the text \<open>JSON.stringify\<close>
  gives for it.  A row is the list of its properties in insertion order, which is the
  order of \<open>Object.keys\<close> for the property names used here.
\<close>

datatype jsvalue =
    JUndefined | JNull | JBoolean bool | JNumber nat | JString jstring | JObject jstring

type_synonym jsobject = "(jstring \<times> jsvalue) list"

text \<open>\<open>item[header]\<close>.\<close>

definition property :: "jsobject \<Rightarrow> jstring \<Rightarrow> jsvalue" where
  "property item header = (case map_of item header of Some v \<Rightarrow> v | None \<Rightarrow> JUndefined)"

text \<open>\<open>value.replace(/,/g, '')\<close> and \<open>value.replace(/"/g, '""')\<close>.\<close>

definition removeCommas :: "jstring \<Rightarrow> jstring" where
  "removeCommas s = filter (\<lambda>c. c \<noteq> comma) s"

definition doubleQuotes :: "jstring \<Rightarrow> jstring" where
  "doubleQuotes s = concat (map (\<lambda>c. if c = dquote then [dquote, dquote] else [c]) s)"

text \<open>\<open>x || d\<close> for a string property that may be missing.\<close>

definition orDefault :: "jstring option \<Rightarrow> jstring \<Rightarrow> jstring" where
  "orDefault v d = (case v of None \<Rightarrow> d | Some s \<Rightarrow> if s = [] then d else s)"

text \<open>The object literal of \<open>formatForExport\<close> for one deposit.\<close>

definition exportRow :: "deposit_details \<Rightarrow> jsobject" where
  "exportRow deposit =
     [(js ''index'', JNumber (detailsIndex deposit)),
      (js ''amount'',
         JString (case listInfo deposit of
                    None \<Rightarrow> []
                  | Some li \<Rightarrow> if amount li \<noteq> [] then removeCommas (amount li) else [])),
      (js ''currency'', JString (orDefault (map_option currency (listInfo deposit)) [])),
      (js ''depositStatus'', JString (orDefault (map_option depositStatus (listInfo deposit)) [])),
      (js ''hasBeenReturned'',
         JBoolean (case listInfo deposit of None \<Rightarrow> False | Some li \<Rightarrow> hasBeenReturned li)),
      (js ''returnStatus'', JString (orDefault (map_option returnStatus (listInfo deposit)) [])),
      (js ''billPayer'', JString (orDefault (map_option billPayer (modalInfo deposit)) [])),
      (js ''formAmount'', JString (orDefault (map_option modalAmount (modalInfo deposit)) [])),
      (js ''depositDate'', JString (orDefault (map_option depositDate (modalInfo deposit)) [])),
      (js ''note'', JString (orDefault (map_option noteText (modalInfo deposit)) [])),
      (js ''alreadyPaid'',
         JBoolean (case modalInfo deposit of None \<Rightarrow> False | Some m \<Rightarrow> alreadyPaid m)),
      (js ''extractedBy'', JString (orDefault (extractedBy deposit) USER)),
      (js ''extractedAt'', JString (orDefault (timestamp deposit) TIMESTAMP_current)),
      (js ''errorMessage'', JString (orDefault (error deposit) []))]"

definition formatForExport :: "deposit_details list \<Rightarrow> jsobject list" where
  "formatForExport deposits = map exportRow deposits"

text \<open>One cell of \<open>toCSV\<close>: the chain of \<open>if\<close>s on the type of the value.\<close>

fun csvCell :: "jsvalue \<Rightarrow> jstring" where
  "csvCell JUndefined = []"
| "csvCell JNull = []"
| "csvCell (JBoolean b) = (if b then js ''true'' else js ''false'')"
| "csvCell (JString s) = [dquote] @ doubleQuotes s @ [dquote]"
| "csvCell (JObject json) = [dquote] @ doubleQuotes json @ [dquote]"
| "csvCell (JNumber n) = [dquote] @ decimal n @ [dquote]"

definition csvLine :: "jstring list \<Rightarrow> jsobject \<Rightarrow> jstring" where
  "csvLine headers item = join [comma] (map (\<lambda>header. csvCell (property item header)) headers) @ [newline]"

definition toCSV :: "jsobject list \<Rightarrow> jstring" where
  "toCSV data =
     (case data of
        [] \<Rightarrow> []
      | first # rest \<Rightarrow>
          (let headers = map fst first
           in join [comma] headers @ [newline] @ concat (map (csvLine headers) data)))"

text \<open>
  A reader of one field of delimited text, after RFC 4180: a field that opens with a
  double quote runs to the first double quote that is not doubled, and a doubled one
  stands for a single double quote; another field runs to the next comma or line break.
  The result is the value of the field and the input that follows it.  The reader is not
  part of the program; the round trip of \<open>toCSV\<close> is stated against it.
\<close>

fun readQuoted :: "jstring \<Rightarrow> (jstring \<times> jstring) option" where
  "readQuoted [] = None"
| "readQuoted [c] = (if c = dquote then Some ([], []) else None)"
| "readQuoted (c # d # r) =
     (if c = dquote then
        (if d = dquote then map_option (\<lambda>(v, rest). (dquote # v, rest)) (readQuoted r)
         else Some ([], d # r))
      else map_option (\<lambda>(v, rest). (c # v, rest)) (readQuoted (d # r)))"

definition readField :: "jstring \<Rightarrow> (jstring \<times> jstring) option" where
  "readField s =
     (case s of
        [] \<Rightarrow> Some ([], [])
      | c # cs \<Rightarrow>
          if c = dquote then readQuoted cs
          else Some (takeWhile (\<lambda>x. x \<noteq> comma \<and> x \<noteq> newline) s,
                     dropWhile (\<lambda>x. x \<noteq> comma \<and> x \<noteq> newline) s))"

text \<open>
  A record of the reader is a line of fields separated by commas, up to the line break
  or the end of the input; the whole text is read record by record until nothing is
  left.  A record that does not use up any input is refused.
\<close>

function readRecord :: "jstring \<Rightarrow> (jstring list \<times> jstring) option" where
  "readRecord s =
     (case readField s of
        None \<Rightarrow> None
      | Some (v, rest) \<Rightarrow>
          (case rest of
             [] \<Rightarrow> Some ([v], [])
           | c # cs \<Rightarrow>
               if c = newline then Some ([v], cs)
               else if c = comma then map_option (\<lambda>(vs, r). (v # vs, r)) (readRecord cs)
               else None))"
  by pat_completeness auto
termination
proof (relation "measure length")
  show "wf (measure length)" by simp
next
  fix s :: jstring and x2 v rest c cs
  assume a: "readField s = Some x2" "(v, rest) = x2" "rest = c # cs"
  have q: "readQuoted t = Some (w, u) \<Longrightarrow> length u \<le> length t" for t w u
  proof (induction t arbitrary: w u rule: readQuoted.induct)
    case 1
    then show ?case by simp
  next
    case (2 c)
    then show ?case by (simp split: if_splits)
  next
    case (3 c d r)
    show ?case
    proof (cases "c = dquote")
      case True
      show ?thesis
      proof (cases "d = dquote")
        case dd: True
        with True "3.prems" obtain w' where "readQuoted r = Some (w', u)" by auto
        from "3.IH"(1)[OF True dd this] show ?thesis by simp
      next
        case False
        with True "3.prems" show ?thesis by simp
      qed
    next
      case False
      with "3.prems" obtain w' where "readQuoted (d # r) = Some (w', u)" by auto
      from "3.IH"(2)[OF False this] show ?thesis by simp
    qed
  qed
  have "length rest \<le> length s"
  proof (cases s)
    case Nil
    with a show ?thesis by (auto simp: readField_def)
  next
    case (Cons d ds)
    show ?thesis
    proof (cases "d = dquote")
      case True
      with a Cons have "readQuoted ds = Some (v, rest)" by (auto simp: readField_def)
      from q[OF this] Cons show ?thesis by simp
    next
      case False
      with a Cons have "rest = dropWhile (\<lambda>x. x \<noteq> comma \<and> x \<noteq> newline) s"
        by (auto simp: readField_def)
      then show ?thesis by (simp add: length_dropWhile_le)
    qed
  qed
  with a show "(cs, s) \<in> measure length" by simp
qed

declare readRecord.simps [simp del]

function readAll :: "jstring \<Rightarrow> jstring list list option" where
  "readAll s =
     (if s = [] then Some []
      else (case readRecord s of
              None \<Rightarrow> None
            | Some (vals, rest) \<Rightarrow>
                if length rest < length s then map_option ((#) vals) (readAll rest)
                else None))"
  by pat_completeness auto
termination
  by (relation "measure length") auto

declare readAll.simps [simp del]

text \<open>\<open>generateFilename\<close>: the colons and spaces of the time stamp become underscores.\<close>

definition FILE_PREFIX :: jstring where "FILE_PREFIX = js ''deposits_export_''"

definition generateFilename :: "jstring \<Rightarrow> jstring" where
  "generateFilename extension =
     FILE_PREFIX @ map (\<lambda>c. if c = 58 \<or> c = 32 then 95 else c) TIMESTAMP_current @ js ''.'' @ extension"

section \<open>The export run\<close>

text \<open>\<open>document.head\<close>: the first \<open>head\<close> element among the children of the \<open>html\<close>
  element, or \<open>null\<close>.\<close>

fun firstHead :: "nat \<Rightarrow> node list \<Rightarrow> path option" where
  "firstHead i [] = None"
| "firstHead i (TextNode s # cs) = firstHead (Suc i) cs"
| "firstHead i (Element t a ds # cs) =
     (if t = js ''head'' then Some [i] else firstHead (Suc i) cs)"

definition documentHead :: "node \<Rightarrow> path option" where
  "documentHead doc =
     (case doc of
        Element t a cs \<Rightarrow> if t = js ''html'' then firstHead 0 cs else None
      | TextNode s \<Rightarrow> None)"

text \<open>\<open>document.head.appendChild(x)\<close> and \<open>document.body.appendChild(x)\<close> for a new element
  \<open>x\<close>: the exception thrown, if any.  Calling the method on \<open>null\<close> throws a \<open>TypeError\<close>.\<close>

definition appendChild :: "page \<Rightarrow> path option \<Rightarrow> thrown option" where
  "appendChild pg parent =
     (case parent of
        None \<Rightarrow> Some (typeError pg JsNull (js ''appendChild''))
      | Some p \<Rightarrow> None)"

text \<open>
  The variable \<open>loadingOverlay\<close> of \<open>UIUtils\<close>, which lives on from one run to the next:
  \<open>null\<close>; the \<open>div\<close> without children that a call of \<open>showLoading\<close> leaves behind when
  \<open>document.head.appendChild\<close> throws; or the \<open>div\<close> with its three children (the spinner,
  the message and the counter).
\<close>

datatype overlay = NoOverlay | EmptyOverlay | CompleteOverlay

text \<open>
  \<open>UIUtils.showLoading\<close>: the value of \<open>loadingOverlay\<close> when it returns, or the exception.
  Without an overlay it creates one, appends the style sheet to \<open>document.head\<close> and then
  the overlay to \<open>document.body\<close>.  With one, it only writes the message into
  \<open>loadingOverlay.querySelector('div:nth-child(2)')\<close>, which is \<open>null\<close> for an overlay
  without children.
\<close>

definition showLoading :: "page \<Rightarrow> overlay \<Rightarrow> node \<Rightarrow> thrown + overlay" where
  "showLoading pg ov doc =
     (case ov of
        NoOverlay \<Rightarrow>
          (case appendChild pg (documentHead doc) of
             Some e \<Rightarrow> Inl e
           | None \<Rightarrow>
               (case appendChild pg (documentBody doc) of
                  Some e \<Rightarrow> Inl e
                | None \<Rightarrow> Inr CompleteOverlay))
      | EmptyOverlay \<Rightarrow> Inl (typeError pg JsNull (js ''textContent''))
      | CompleteOverlay \<Rightarrow> Inr CompleteOverlay)"

text \<open>\<open>UIUtils.updateProgress\<close> writes into \<open>loadingOverlay.querySelector('div:nth-child(3)')\<close>
  if there is an overlay.\<close>

definition updateProgress :: "page \<Rightarrow> overlay \<Rightarrow> thrown option" where
  "updateProgress pg ov =
     (case ov of
        NoOverlay \<Rightarrow> None
      | EmptyOverlay \<Rightarrow> Some (typeError pg JsNull (js ''textContent''))
      | CompleteOverlay \<Rightarrow> None)"

text \<open>\<open>UIUtils.showAlert\<close> and \<open>DataExport.downloadFile\<close> build an element and append it to
  \<open>document.body\<close>; \<open>UIUtils.hideLoading\<close> only sets a style and throws nothing.\<close>

definition showAlert :: "page \<Rightarrow> node \<Rightarrow> thrown option" where
  "showAlert pg doc = appendChild pg (documentBody doc)"

definition downloadFile :: "page \<Rightarrow> node \<Rightarrow> thrown option" where
  "downloadFile pg doc = appendChild pg (documentBody doc)"

text \<open>
  One turn of the loop of \<open>exportAllDepositData\<close>, on the array \<open>depositDetails\<close>: inside
  \<open>try\<close>, the progress update, \<open>getDepositDetails\<close>, the push, \<open>closeModal\<close> and the wait
  (\<open>closeModal\<close> catches what its queries and its click throw, and the wait throws
  nothing); the \<open>catch\<close> pushes a record with \<open>error.message\<close>, and reading that property
  can throw in turn.
\<close>

definition processDeposit ::
  "page \<Rightarrow> overlay \<Rightarrow> deposit_details list \<Rightarrow> deposit_demo \<Rightarrow> thrown + deposit_details list" where
  "processDeposit pg ov depositDetails deposit =
     (case (case updateProgress pg ov of
              Some e \<Rightarrow> Inl e
            | None \<Rightarrow>
                (case getDepositDetails pg deposit of
                   Inl e \<Rightarrow> Inl e
                 | Inr details \<Rightarrow> Inr (depositDetails @ [details]))) of
        Inr pushed \<Rightarrow> Inr pushed
      | Inl err \<Rightarrow>
          (case messageOf pg err of
             Inl e \<Rightarrow> Inl e
           | Inr msg \<Rightarrow> Inr (depositDetails @ [partialDetails deposit msg])))"

text \<open>The loop \<open>for (let i = 0; i < deposits.length; i++)\<close>; an exception that escapes a
  turn ends it.\<close>

fun collectDetails ::
  "page \<Rightarrow> overlay \<Rightarrow> deposit_details list \<Rightarrow> deposit_demo list \<Rightarrow> thrown + deposit_details list" where
  "collectDetails pg ov depositDetails [] = Inr depositDetails"
| "collectDetails pg ov depositDetails (deposit # rest) =
     (case processDeposit pg ov depositDetails deposit of
        Inl e \<Rightarrow> Inl e
      | Inr pushed \<Rightarrow> collectDetails pg ov pushed rest)"

text \<open>
  What the promise of \<open>exportAllDepositData\<close> settles to: the success object, with the
  content of the CSV file that is handed to the download (the JSON file is not modelled);
  the object \<open>{ success: false, error: ... }\<close>; or a rejection, when the outer \<open>catch\<close>
  itself throws.
\<close>

datatype export_result =
    Exported (count: nat) (csvFilename: jstring) (jsonFilename: jstring)
             (exportData: "jsobject list") (csvContent: jstring)
  | Failure "jstring option"
  | Rejected thrown

text \<open>The \<open>try\<close> block of \<open>exportAllDepositData\<close>: its return value, or the exception that
  reaches the outer \<open>catch\<close>.\<close>

definition exportDeposits :: "page \<Rightarrow> overlay \<Rightarrow> node \<Rightarrow> thrown + export_result" where
  "exportDeposits pg ov doc =
     (case findAllDeposits doc of
        Inl e \<Rightarrow> Inl (ErrorObject (Some (exceptionMessage pg e)))
      | Inr deposits \<Rightarrow>
          if length deposits = 0 then
            (case showAlert pg doc of
               Some e \<Rightarrow> Inl e
             | None \<Rightarrow> Inr (Failure (Some (js ''No deposits found''))))
          else
            (case showLoading pg ov doc of
               Inl e \<Rightarrow> Inl e
             | Inr ov' \<Rightarrow>
                 (case collectDetails pg ov' [] deposits of
                    Inl e \<Rightarrow> Inl e
                  | Inr depositDetails \<Rightarrow>
                      (let exportData = formatForExport depositDetails;
                           csvContent = toCSV exportData
                       in case downloadFile pg doc of
                            Some e \<Rightarrow> Inl e
                          | None \<Rightarrow>
                              (case downloadFile pg doc of
                                 Some e \<Rightarrow> Inl e
                               | None \<Rightarrow>
                                   (case showAlert pg doc of
                                      Some e \<Rightarrow> Inl e
                                    | None \<Rightarrow>
                                        Inr (Exported (length deposits)
                                               (generateFilename (js ''csv''))
                                               (generateFilename (js ''json''))
                                               exportData csvContent)))))))"

text \<open>\<open>exportAllDepositData\<close>, for the value \<open>ov\<close> of \<open>loadingOverlay\<close> at the start of the
  run.  The outer \<open>catch\<close> hides the overlay, shows the alert with \<open>error.message\<close> and
  returns the failure object.\<close>

definition exportAllDepositData :: "page \<Rightarrow> overlay \<Rightarrow> node \<Rightarrow> export_result" where
  "exportAllDepositData pg ov doc =
     (case exportDeposits pg ov doc of
        Inr result \<Rightarrow> result
      | Inl err \<Rightarrow>
          (case messageOf pg err of
             Inl e \<Rightarrow> Rejected e
           | Inr msg \<Rightarrow>
               (case showAlert pg doc of
                  Some e \<Rightarrow> Rejected e
                | None \<Rightarrow> Failure msg)))"

section \<open>Notions used in the statements\<close>

text \<open>The paragraphs of a container, as \<open>extractDepositInfo\<close> lists them: the \<open>p\<close> elements
  below the container, in document order.\<close>

definition paragraphsOf :: "node \<Rightarrow> path \<Rightarrow> path list" where
  "paragraphsOf doc container = querySelectorAll doc tagP (Within container)"

text \<open>
  \<open>amountAfter doc ps symbol\<close> is the amount that a stand-alone \<open>symbol\<close> supplies: the
  first paragraph of \<open>ps\<close> whose trimmed text is \<open>symbol\<close> is immediately followed in \<open>ps\<close>
  by a paragraph whose trimmed text \<open>t\<close> has a digit, a comma or a dot; the value is \<open>t\<close>.
\<close>

definition amountAfter :: "node \<Rightarrow> path list \<Rightarrow> jstring \<Rightarrow> jstring option" where
  "amountAfter doc ps symbol =
     (case dropWhile (\<lambda>p. trimmedText doc p \<noteq> symbol) ps of
        currencyParagraph # nextParagraph # rest \<Rightarrow>
          if testAmount (trimmedText doc nextParagraph)
          then Some (trimmedText doc nextParagraph) else None
      | _ \<Rightarrow> None)"

text \<open>A label paragraph without a status beside it: it has no parent element, or its
  parent has no \<open>small\<close> element inside.\<close>

definition noSmallBeside :: "node \<Rightarrow> path \<Rightarrow> bool" where
  "noSmallBeside doc p =
     (case parentElement p of
        None \<Rightarrow> True
      | Some parent \<Rightarrow> querySelector doc tagSmall (Within parent) = None)"

text \<open>The field names of an export row, in the order of the object literal of
  \<open>formatForExport\<close>.\<close>

definition EXPORT_FIELDS :: "jstring list" where
  "EXPORT_FIELDS =
     map js [''index'', ''amount'', ''currency'', ''depositStatus'', ''hasBeenReturned'',
             ''returnStatus'', ''billPayer'', ''formAmount'', ''depositDate'', ''note'',
             ''alreadyPaid'', ''extractedBy'', ''extractedAt'', ''errorMessage'']"

text \<open>The text a reader should get back from the cell of a value: the string itself,
  the digits of a number, \<open>true\<close> or \<open>false\<close>, the JSON text of an object, and nothing for
  \<open>undefined\<close> and \<open>null\<close>.\<close>

fun cellText :: "jsvalue \<Rightarrow> jstring" where
  "cellText JUndefined = []"
| "cellText JNull = []"
| "cellText (JBoolean b) = (if b then js ''true'' else js ''false'')"
| "cellText (JString s) = s"
| "cellText (JObject json) = json"
| "cellText (JNumber n) = decimal n"

text \<open>The header line is written without quotes.  A field name can be read back from it
  if it has no comma and no line break and does not open with a double quote.\<close>

definition plainName :: "jstring \<Rightarrow> bool" where
  "plainName h \<longleftrightarrow> list_all (\<lambda>c. c \<noteq> comma \<and> c \<noteq> newline) h \<and> take 1 h \<noteq> [dquote]"

definition separator :: "jschar \<Rightarrow> bool" where
  "separator c \<longleftrightarrow> c = comma \<or> c = newline"

text \<open>The message that ends up in the record of a deposit, given the outcome of its
  detail read: none after a successful read, the thrown value's message, or the message
  of the \<open>TypeError\<close> that reading the message of \<open>null\<close> or \<open>undefined\<close> raises.\<close>

definition recordedDetails :: "page \<Rightarrow> deposit_demo \<Rightarrow> deposit_details" where
  "recordedDetails pg deposit =
     (case readDetails pg deposit of
        Inr modal \<Rightarrow> fullDetails deposit modal
      | Inl (ErrorObject msg) \<Rightarrow> partialDetails deposit msg
      | Inl (Nullish v) \<Rightarrow> partialDetails deposit (Some (typeErrorMessage pg v (js ''message''))))"

section \<open>Example pages and records\<close>

definition el :: "string \<Rightarrow> node list \<Rightarrow> node" where
  "el t cs = Element (js t) [] cs"

definition tx :: "string \<Rightarrow> node" where
  "tx s = TextNode (js s)"

text \<open>A list entry with a deposit of 1,250.00 euros whose return is still pending:
  the container is the \<open>div\<close> at path \<open>[0, 0]\<close>.\<close>

definition returnPage :: node where
  "returnPage =
     el ''html'' [el ''body'' [
       el ''div'' [
         el ''div'' [el ''p'' [tx ''Deposit''], el ''small'' [tx ''Paid'']],
         el ''p'' [TextNode [euro]],
         el ''p'' [tx ''1,250.00''],
         el ''div'' [el ''p'' [tx ''Return''], el ''small'' [tx ''Pending invoice'']]]]]"

text \<open>Three deposits as \<open>findAllDeposits\<close> returns them, and the form values of a detail
  view.\<close>

definition quotedNote :: jstring where
  \<open>quotedNote = js ''He said "hi"''\<close>

definition deposit1 :: deposit_demo where
  "deposit1 = \<lparr> amount = js ''1,250.00'', currency = [euro], depositStatus = js ''Paid'',
                hasBeenReturned = False, returnStatus = [],
                index = 1, type = js ''Deposit'', element = [1, 0] \<rparr>"

definition deposit2 :: deposit_demo where
  "deposit2 = \<lparr> amount = js ''300'', currency = [dollar], depositStatus = js ''Paid'',
                hasBeenReturned = False, returnStatus = [],
                index = 2, type = js ''Deposit'', element = [1, 1] \<rparr>"

definition deposit3 :: deposit_demo where
  "deposit3 = \<lparr> amount = js ''450'', currency = [], depositStatus = [],
                hasBeenReturned = False, returnStatus = [],
                index = 3, type = js ''Deposit'', element = [1, 2] \<rparr>"

definition modal1 :: modal_info where
  "modal1 = \<lparr> billPayer = js ''Jane Doe'', modalAmount = js ''1250'',
              depositDate = js ''01/02/2025'', noteText = quotedNote, alreadyPaid = True \<rparr>"

text \<open>The message of the \<open>TypeError\<close> for a property of \<open>null\<close> or \<open>undefined\<close>, as one
  browser words it.\<close>

definition exampleTypeErrorMessage :: "nullish \<Rightarrow> jstring \<Rightarrow> jstring" where
  "exampleTypeErrorMessage v name =
     js ''Cannot read properties of '' @
     (case v of JsNull \<Rightarrow> js ''null'' | JsUndefined \<Rightarrow> js ''undefined'') @
     js '' (reading '' @ [39] @ name @ [39] @ js '')''"

definition exampleExceptionMessage :: "dom_exception \<Rightarrow> jstring" where
  "exampleExceptionMessage e =
     (case e of SyntaxError \<Rightarrow> js ''The string did not match the expected pattern.''
      | TypeError \<Rightarrow> js ''undefined is not an object'')"

definition nullMessage :: jstring where
  "nullMessage = js ''Cannot read properties of null (reading '' @ [39] @ js ''message'' @ [39] @ js '')''"

text \<open>A page on which the detail view of the second deposit throws \<open>new Error('boom')\<close> and
  that of the third throws \<open>null\<close>, and a page on which the detail view of the second
  deposit throws \<open>new Error()\<close>, whose message is empty.\<close>

definition failingPage :: page where
  "failingPage =
     \<lparr> readDetails = (\<lambda>d. if index d = 2 then Inl (ErrorObject (Some (js ''boom'')))
                          else if index d = 3 then Inl (Nullish JsNull)
                          else Inr modal1),
       typeErrorMessage = exampleTypeErrorMessage,
       exceptionMessage = exampleExceptionMessage \<rparr>"

definition silentPage :: page where
  "silentPage =
     \<lparr> readDetails = (\<lambda>d. if index d = 2 then Inl (ErrorObject (Some [])) else Inr modal1),
       typeErrorMessage = exampleTypeErrorMessage,
       exceptionMessage = exampleExceptionMessage \<rparr>"

text \<open>An entry that shows two amounts, the deposit and the part already returned.\<close>

definition twoAmountsPage :: node where
  "twoAmountsPage =
     el ''html'' [el ''body'' [
       el ''div'' [
         el ''div'' [el ''p'' [tx ''Deposit''], el ''small'' [tx ''Paid'']],
         el ''p'' [TextNode [euro]],
         el ''p'' [tx ''1,250.00''],
         el ''div'' [el ''p'' [tx ''Return''], el ''small'' [tx ''Invoiced'']],
         el ''p'' [TextNode [euro]],
         el ''p'' [tx ''500.00'']]]]"

text \<open>Two entries whose amount is a single paragraph: \<open>$300\<close> in the container at
  \<open>[0, 0]\<close> and \<open>450\<close> in the one at \<open>[0, 1]\<close>.\<close>

definition combinedPage :: node where
  "combinedPage =
     el ''html'' [el ''body'' [
       el ''div'' [el ''p'' [tx ''Deposit''], el ''p'' [tx ''$300'']],
       el ''div'' [el ''p'' [tx ''Deposit''], el ''p'' [tx ''450'']]]]"

text \<open>A page without the class names of the fixed selectors and without a currency
  symbol: one "Deposit" paragraph, whose third ancestor (the \<open>div\<close> at \<open>[0, 0]\<close>) also
  holds the number \<open>12.50\<close>.\<close>

definition numbersPage :: node where
  "numbersPage =
     el ''html'' [el ''body'' [
       el ''div'' [
         el ''div'' [el ''div'' [el ''p'' [tx ''Deposit'']]],
         el ''span'' [tx ''12.50'']]]]"

text \<open>A page with an open dialog whose close button carries \<open>aria-label="Close"\<close>, the
  last selector of \<open>CLOSE_BUTTON\<close>.\<close>

definition closePage :: node where
  "closePage =
     el ''html'' [el ''body'' [
       el ''div'' [Element (js ''button'') [(js ''aria-label'', js ''Close'')] [tx ''x'']]]]"

text \<open>The CSV file for the first example deposit with the example form values.\<close>

definition exampleHeader :: jstring where
  \<open>exampleHeader = js ''index,amount,currency,depositStatus,hasBeenReturned,returnStatus,billPayer,formAmount,depositDate,note,alreadyPaid,extractedBy,extractedAt,errorMessage''\<close>

definition exampleLine :: jstring where
  \<open>exampleLine = js ''"1","1250.00","'' @ [euro] @ js ''","Paid",false,"","Jane Doe","1250","01/02/2025","He said ""hi""",true,"wolketich","2025-04-28 14:25:07",""''\<close>

text \<open>An entry in dollars, with the symbol and the number in paragraphs of their own.\<close>

definition dollarPage :: node where
  "dollarPage =
     el ''html'' [el ''body'' [
       el ''div'' [el ''p'' [tx ''Deposit''], el ''p'' [tx ''$''], el ''p'' [tx ''300.00'']]]]"

text \<open>A list of three entries with the class names of the first fixed selector; the
  records extracted from it are the three example deposits.\<close>

definition entry :: "node list \<Rightarrow> node" where
  "entry cs = Element (js ''div'') [(js ''class'', js ''sc-beqWaB sc-eIoBCF bUiODS iDrAoK'')] cs"

definition batchPage :: node where
  "batchPage =
     el ''html'' [el ''head'' [], el ''body'' [
       entry [el ''div'' [el ''p'' [tx ''Deposit''], el ''small'' [tx ''Paid'']],
              el ''p'' [TextNode [euro]], el ''p'' [tx ''1,250.00'']],
       entry [el ''div'' [el ''p'' [tx ''Deposit''], el ''small'' [tx ''Paid'']],
              el ''p'' [tx ''$300'']],
       entry [el ''p'' [tx ''Deposit''], el ''p'' [tx ''450'']]]]"

text \<open>The record that \<open>getDepositDetails\<close> resolves to for the first example deposit with
  the example form values, and the fields of its line in the CSV file.\<close>

definition details1 :: deposit_details where
  "details1 = fullDetails deposit1 modal1"

definition exampleRecord :: "jstring list" where
  "exampleRecord =
     [js ''1'', js ''1250.00'', [euro], js ''Paid'', js ''false'', [], js ''Jane Doe'',
      js ''1250'', js ''01/02/2025'', quotedNote, js ''true'', js ''wolketich'',
      js ''2025-04-28 14:25:07'', []]"

text \<open>An entry whose status is \<open>Non-Returnable\<close>, without a "Return" label: the container
  is the \<open>div\<close> at path \<open>[1, 0]\<close>.\<close>

definition nonReturnablePage :: node where
  "nonReturnablePage =
     el ''html'' [el ''head'' [], el ''body'' [
       el ''div'' [el ''p'' [tx ''Deposit''], el ''small'' [tx ''Non-Returnable''],
                   el ''p'' [tx ''$20'']]]]"

section \<open>Lemmas\<close>

subsection \<open>Strings and lists\<close>

lemma js_inject [simp]: "js a = js b \<longleftrightarrow> a = b"
  unfolding js_def by (simp add: inj_on_def)

lemma js_eq_Nil [simp]: "js s = [] \<longleftrightarrow> s = []" "[] = js s \<longleftrightarrow> s = []"
  by (auto simp: js_def)

lemma decimal_digit: "n < 10 \<Longrightarrow> decimal n = [48 + n]"
  by (simp add: decimal.simps)

lemma find_split:
  "find P xs = Some x \<Longrightarrow> \<exists>pre post. xs = pre @ x # post \<and> P x \<and> (\<forall>y\<in>set pre. \<not> P y)"
proof (induction xs)
  case Nil
  then show ?case by simp
next
  case (Cons a xs)
  show ?case
  proof (cases "P a")
    case True
    with Cons.prems have "a = x" by simp
    with True show ?thesis by (intro exI[of _ "[]"] exI[of _ xs]) simp
  next
    case False
    with Cons.prems have "find P xs = Some x" by simp
    from Cons.IH[OF this] obtain pre post where
      "xs = pre @ x # post" "P x" "\<forall>y\<in>set pre. \<not> P y" by blast
    with False show ?thesis by (intro exI[of _ "a # pre"] exI[of _ post]) simp
  qed
qed

lemma find_in_set: "find P xs = Some x \<Longrightarrow> x \<in> set xs \<and> P x"
  using find_split[of P xs x] by auto

lemma indexOf_first: "x \<notin> set pre \<Longrightarrow> indexOf (pre @ x # post) x = int (length pre)"
  by (induction pre) (auto simp: Let_def)

lemma at_after:
  "at (pre @ x # post) (int (length pre) + 1) = (case post of [] \<Rightarrow> None | y # ys \<Rightarrow> Some y)"
  by (cases post) (auto simp: at_def nth_append nat_add_distrib)

subsection \<open>What the tests on strings mean\<close>

text \<open>The executable tests agree with their reading as patterns: \<open>includes\<close> is
  containment of a substring, the numeric pattern of script-demo.js is a digit, a dot or
  comma and a digit in a row, the pattern of return-detector.js needs a backslash in the
  text, and the combined pattern matches exactly the texts made of an optional currency
  symbol, white space and a non-empty run of digits, commas and dots.\<close>

lemma startsWith_iff: "startsWith s n \<longleftrightarrow> (\<exists>post. s = n @ post)"
  by (induction s n rule: startsWith.induct) auto

lemma str_includes_iff: "str_includes hay needle \<longleftrightarrow> (\<exists>pre post. hay = pre @ needle @ post)"
proof (induction hay)
  case Nil
  then show ?case by auto
next
  case (Cons c cs)
  have "(\<exists>pre post. c # cs = pre @ needle @ post) \<longleftrightarrow>
        (\<exists>post. c # cs = needle @ post) \<or> (\<exists>pre post. cs = pre @ needle @ post)"
  proof
    assume "\<exists>pre post. c # cs = pre @ needle @ post"
    then obtain pre post where e: "c # cs = pre @ needle @ post" by blast
    show "(\<exists>post. c # cs = needle @ post) \<or> (\<exists>pre post. cs = pre @ needle @ post)"
    proof (cases pre)
      case Nil
      with e show ?thesis by auto
    next
      case (Cons x xs)
      with e have "cs = xs @ needle @ post" by simp
      then show ?thesis by blast
    qed
  next
    assume "(\<exists>post. c # cs = needle @ post) \<or> (\<exists>pre post. cs = pre @ needle @ post)"
    then show "\<exists>pre post. c # cs = pre @ needle @ post"
    proof
      assume "\<exists>post. c # cs = needle @ post"
      then obtain post where "c # cs = [] @ needle @ post" by auto
      then show ?thesis by blast
    next
      assume "\<exists>pre post. cs = pre @ needle @ post"
      then obtain pre post where "cs = pre @ needle @ post" by blast
      then have "c # cs = (c # pre) @ needle @ post" by simp
      then show ?thesis by blast
    qed
  qed
  with Cons show ?case by (simp add: startsWith_iff)
qed

lemma matchesAt_rd_backslash: "matchesAt_rd s \<Longrightarrow> \<exists>r. s = backslash # r"
  by (cases s rule: matchesAt_rd.cases) auto

lemma hasNumbers_rd_needs_backslash: "hasNumbers_rd s \<Longrightarrow> backslash \<in> set s"
  by (induction s) (auto dest: matchesAt_rd_backslash)

lemma hasNumbers_intro:
  "isDigit a \<Longrightarrow> b = dot \<or> b = comma \<Longrightarrow> isDigit c \<Longrightarrow> hasNumbers (pre @ a # b # c # post)"
proof (induction pre)
  case Nil
  then show ?case by simp
next
  case (Cons x pre)
  obtain y z r where "pre @ a # b # c # post = y # z # r"
    by (cases pre; cases "tl pre") auto
  with Cons show ?case by simp
qed

lemma hasNumbers_elim:
  "hasNumbers s \<Longrightarrow> \<exists>pre a b c post. s = pre @ a # b # c # post \<and> isDigit a \<and> (b = dot \<or> b = comma) \<and> isDigit c"
proof (induction s rule: hasNumbers.induct)
  case (1 a b c r)
  show ?case
  proof (cases "isDigit a \<and> (b = dot \<or> b = comma) \<and> isDigit c")
    case True
    then show ?thesis by (intro exI[of _ "[]"] exI[of _ a] exI[of _ b] exI[of _ c] exI[of _ r]) simp
  next
    case False
    with 1 obtain pre a' b' c' post where
      "b # c # r = pre @ a' # b' # c' # post" "isDigit a'" "b' = dot \<or> b' = comma" "isDigit c'"
      by auto
    then have "a # b # c # r = (a # pre) @ a' # b' # c' # post \<and> isDigit a' \<and> (b' = dot \<or> b' = comma) \<and> isDigit c'"
      by simp
    then show ?thesis by blast
  qed
qed simp_all

lemma hasNumbers_iff:
  "hasNumbers s \<longleftrightarrow>
     (\<exists>pre a b c post. s = pre @ a # b # c # post \<and> isDigit a \<and> (b = dot \<or> b = comma) \<and> isDigit c)"
  using hasNumbers_elim hasNumbers_intro by blast

lemma testAmount_iff: "testAmount t \<longleftrightarrow> (\<exists>c\<in>set t. isAmountChar c)"
  by (simp add: testAmount_def list_ex_iff)

lemma amountChar_not_space: "isAmountChar c \<Longrightarrow> \<not> isWhiteSpace c"
  by (auto simp: isAmountChar_def isWhiteSpace_def isDigit_def comma_def dot_def)

lemma amountChar_not_currency: "isAmountChar c \<Longrightarrow> \<not> isCurrencyChar c"
  by (auto simp: isAmountChar_def isCurrencyChar_def isDigit_def comma_def dot_def euro_def
        dollar_def pound_def)

lemma space_not_currency: "isWhiteSpace c \<Longrightarrow> \<not> isCurrencyChar c"
  by (auto simp: isWhiteSpace_def isCurrencyChar_def euro_def dollar_def pound_def)

lemma dropWhile_spaces:
  "list_all isWhiteSpace sp \<Longrightarrow> g2 \<noteq> [] \<Longrightarrow> list_all isAmountChar g2 \<Longrightarrow>
   dropWhile isWhiteSpace (sp @ g2) = g2"
  by (cases g2) (auto simp: list_all_iff amountChar_not_space)

lemma matchCombined_plain:
  "\<not> isCurrencyChar c \<Longrightarrow> dropWhile isWhiteSpace (c # cs) = d \<Longrightarrow> d \<noteq> [] \<Longrightarrow>
   list_all isAmountChar d \<Longrightarrow> matchCombined (c # cs) = Some ([], d)"
  by (auto simp: matchCombined_def)

lemma matchCombined_symbol:
  "isCurrencyChar c \<Longrightarrow> dropWhile isWhiteSpace cs = d \<Longrightarrow> d \<noteq> [] \<Longrightarrow>
   list_all isAmountChar d \<Longrightarrow> matchCombined (c # cs) = Some ([c], d)"
  by (auto simp: matchCombined_def)

lemma matchCombined_complete:
  assumes "g1 = [] \<or> (\<exists>c. g1 = [c] \<and> isCurrencyChar c)"
    and "list_all isWhiteSpace sp" and "g2 \<noteq> []" and "list_all isAmountChar g2"
  shows "matchCombined (g1 @ sp @ g2) = Some (g1, g2)"
proof -
  note dw = dropWhile_spaces[OF assms(2-4)]
  from assms(1) show ?thesis
  proof
    assume s: "g1 = []"
    obtain x xs where x: "sp @ g2 = x # xs" using assms(3) by (cases "sp @ g2") auto
    have "isWhiteSpace x \<or> isAmountChar x"
      using x assms(2,4) by (cases sp; cases g2) (auto simp: list_all_iff)
    then have nc: "\<not> isCurrencyChar x" using space_not_currency amountChar_not_currency by blast
    have "matchCombined (x # xs) = Some ([], g2)"
      by (rule matchCombined_plain[OF nc dw[unfolded x] assms(3,4)])
    then show ?thesis unfolding s x[symmetric] by simp
  next
    assume "\<exists>c. g1 = [c] \<and> isCurrencyChar c"
    then obtain c where c: "g1 = [c]" "isCurrencyChar c" by blast
    have "matchCombined (c # (sp @ g2)) = Some ([c], g2)"
      by (rule matchCombined_symbol[OF c(2) dw assms(3,4)])
    then show ?thesis unfolding c(1) by simp
  qed
qed

subsection \<open>Queries\<close>

lemma native_throws_iff:
  "native_querySelectorAll doc g root = Inl e \<longleftrightarrow> \<not> validGroup g \<and> e = SyntaxError"
  by (auto simp: native_querySelectorAll_def)

lemma invalid_querySelectorAll: "\<not> validGroup g \<Longrightarrow> querySelectorAll doc g root = []"
  by (simp add: querySelectorAll_def native_querySelectorAll_def)

lemma invalid_querySelector: "\<not> validGroup g \<Longrightarrow> querySelector doc g root = None"
  by (simp add: querySelector_def native_querySelector_def native_querySelectorAll_def)

lemma closeButton_skip:
  "\<not> validGroup g \<Longrightarrow> closeButton doc (before @ g # after) = closeButton doc (before @ after)"
  by (induction before) (auto simp: invalid_querySelector split: option.splits)

lemma depositContainers_no_match:
  "querySelectorAll doc g Document = [] \<Longrightarrow>
   depositContainers g numbers doc = genericContainers numbers doc"
  by (simp add: depositContainers_def)

lemma valid_tagSmall: "validGroup tagSmall"
  by (simp add: validGroup_def tagSmall_def)

lemma native_tagSmall:
  "native_querySelector doc tagSmall root = Inr (querySelector doc tagSmall root)"
  by (simp add: querySelector_def native_querySelector_def native_querySelectorAll_def
      valid_tagSmall split: list.splits)

subsection \<open>The walk to the container\<close>

text \<open>\<open>findAncestor\<close> returns the nearest of the element and its ancestors that satisfies
  the predicate, among the first \<open>maxDepth\<close> of them.\<close>

lemma findAncestor_loop_None [simp]: "findAncestor_loop P n None = None"
  by (cases n) simp_all

lemma findAncestor_loop_nearest:
  "findAncestor_loop P n (Some p) = Some c \<Longrightarrow>
   \<exists>k<n. c = (butlast ^^ k) p \<and> P c \<and> (\<forall>j<k. \<not> P ((butlast ^^ j) p))"
proof (induction n arbitrary: p)
  case 0
  then show ?case by simp
next
  case (Suc n)
  show ?case
  proof (cases "P p")
    case True
    with Suc.prems have "c = p" by simp
    with True show ?thesis by (intro exI[of _ 0]) simp
  next
    case False
    with Suc.prems have ne: "p \<noteq> []" and rec: "findAncestor_loop P n (Some (butlast p)) = Some c"
      by (auto simp: parentElement_def split: if_splits)
    from Suc.IH[OF rec] obtain k where k: "k < n" "c = (butlast ^^ k) (butlast p)" "P c"
      "\<forall>j<k. \<not> P ((butlast ^^ j) (butlast p))" by blast
    have "\<forall>j<Suc k. \<not> P ((butlast ^^ j) p)"
    proof (intro allI impI)
      fix j assume "j < Suc k"
      then show "\<not> P ((butlast ^^ j) p)"
        using False k(4) by (cases j) (auto simp: funpow_swap1)
    qed
    with k show ?thesis by (intro exI[of _ "Suc k"]) (simp add: funpow_swap1)
  qed
qed

lemma findAncestor_nearest:
  "findAncestor p P n = Some c \<Longrightarrow>
   \<exists>k<n. c = (butlast ^^ k) p \<and> P c \<and> (\<forall>j<k. \<not> P ((butlast ^^ j) p))"
  unfolding findAncestor_def by (rule findAncestor_loop_nearest)

lemma findAncestor_third:
  assumes "\<not> P p" "\<not> P (butlast p)" "\<not> P (butlast (butlast p))"
    and "P (butlast (butlast (butlast p)))" and "3 \<le> length p"
  shows "findAncestor p P 8 = Some (butlast (butlast (butlast p)))"
proof -
  have ne: "p \<noteq> []" "butlast p \<noteq> []" "butlast (butlast p) \<noteq> []"
    using assms(5) by (auto simp: butlast_conv_take)
  show ?thesis using assms(1-4) ne
    by (simp add: findAncestor_def parentElement_def eval_nat_numeral)
qed

text \<open>The containers collected are those found for some "Deposit" paragraph, each once.\<close>

lemma collectContainers_set:
  "set (collectContainers f ds acc) = set acc \<union> {c. \<exists>d\<in>set ds. f d = Some c}"
  by (induction ds arbitrary: acc) (auto split: option.splits)

lemma collectContainers_distinct:
  "distinct acc \<Longrightarrow> distinct (collectContainers f ds acc)"
  by (induction ds arbitrary: acc) (auto split: option.splits)

lemma genericContainers_third:
  assumes "findElementsByText doc tagP (js ''Deposit'') Document = [p]"
    and "\<not> containerPredicate numbers doc p"
    and "\<not> containerPredicate numbers doc (butlast p)"
    and "\<not> containerPredicate numbers doc (butlast (butlast p))"
    and "containerPredicate numbers doc (butlast (butlast (butlast p)))"
    and "3 \<le> length p"
  shows "genericContainers numbers doc = [butlast (butlast (butlast p))]"
  by (simp add: genericContainers_def assms(1) findAncestor_third[OF assms(2-6)])

lemma set_dropWhile_keep: "x \<in> set xs \<Longrightarrow> \<not> P x \<Longrightarrow> x \<in> set (dropWhile P xs)"
  by (induction xs) auto

lemma trim_keeps: "c \<in> set s \<Longrightarrow> \<not> isWhiteSpace c \<Longrightarrow> c \<in> set (trim s)"
  by (simp add: trim_def set_dropWhile_keep)

lemma digit_not_space: "isDigit c \<Longrightarrow> \<not> isWhiteSpace c"
  by (auto simp: isDigit_def isWhiteSpace_def)

lemma hasNumbers_digit: "hasNumbers s \<Longrightarrow> \<exists>c\<in>set s. isDigit c"
  using hasNumbers_elim[of s] by auto

lemma Deposit_plain:
  "\<forall>c\<in>set (js ''Deposit''). \<not> isDigit c"
  "\<not> str_includes (js ''Deposit'') [euro]" "\<not> str_includes (js ''Deposit'') [dollar]"
  "\<not> str_includes (js ''Deposit'') [pound]"
  by (simp_all add: js_def isDigit_def euro_def dollar_def pound_def)

text \<open>A paragraph whose trimmed text is exactly "Deposit" is never its own container in
  script-demo.js: the container found is a proper ancestor.\<close>

lemma deposit_paragraph_is_no_container:
  assumes "trim (textAt doc p) = js ''Deposit''"
  shows "\<not> containerPredicate hasNumbers doc p"
proof -
  have "\<not> hasNumbers (textAt doc p)"
  proof
    assume "hasNumbers (textAt doc p)"
    then obtain c where c: "c \<in> set (textAt doc p)" "isDigit c" using hasNumbers_digit by blast
    then have "c \<in> set (trim (textAt doc p))" by (simp add: trim_keeps digit_not_space)
    with c(2) Deposit_plain(1) show False unfolding assms by blast
  qed
  then show ?thesis
    by (simp add: containerPredicate_def elementContainsText_def assms CURRENCY_SYMBOLS_def
          Deposit_plain)
qed

lemma genericContainers_char:
  "set (genericContainers numbers doc) =
     {c. \<exists>p\<in>set (findElementsByText doc tagP (js ''Deposit'') Document).
           findAncestor p (containerPredicate numbers doc) 8 = Some c} \<and>
   distinct (genericContainers numbers doc)"
  by (simp add: genericContainers_def collectContainers_set collectContainers_distinct)

lemma findElementsByText_text:
  "p \<in> set (findElementsByText doc sel t root) \<Longrightarrow> trim (textAt doc p) = t"
  by (simp add: findElementsByText_def)

subsection \<open>The amount and the currency\<close>

lemma amountAfter_absent:
  "find (\<lambda>p. trimmedText doc p = symbol) ps = None \<Longrightarrow> amountAfter doc ps symbol = None"
proof -
  assume "find (\<lambda>p. trimmedText doc p = symbol) ps = None"
  then have "\<forall>p\<in>set ps. trimmedText doc p \<noteq> symbol" by (simp add: find_None_iff)
  then have "dropWhile (\<lambda>p. trimmedText doc p \<noteq> symbol) ps = []" by simp
  then show ?thesis by (simp only: amountAfter_def list.case)
qed

lemma no_symbol_no_amountAfter:
  "\<forall>p\<in>set ps. trimmedText doc p \<noteq> s \<Longrightarrow> amountAfter doc ps s = None"
  by (rule amountAfter_absent) (simp add: find_None_iff)

lemma amountAfter_nonempty: "amountAfter doc ps s = Some t \<Longrightarrow> t \<noteq> []"
  by (auto simp: amountAfter_def testAmount_def split: list.splits if_splits)

text \<open>One turn of the loop over the currency symbols.\<close>

lemma standaloneLoop_step:
  "standaloneLoop doc ps (symbol # symbols) cur =
     (case amountAfter doc ps symbol of
        Some t \<Rightarrow> Inr (symbol, t)
      | None \<Rightarrow> standaloneLoop doc ps symbols
                  (if find (\<lambda>p. trimmedText doc p = symbol) ps = None then cur else symbol))"
proof (cases "find (\<lambda>p. trimmedText doc p = symbol) ps")
  case None
  then show ?thesis by (simp add: amountAfter_absent)
next
  case (Some cp)
  from find_split[OF Some] obtain pre post where
    ps: "ps = pre @ cp # post" and cp: "trimmedText doc cp = symbol"
    and pre: "\<forall>y\<in>set pre. trimmedText doc y \<noteq> symbol" by blast
  from cp pre have notin: "cp \<notin> set pre" by auto
  have idx: "indexOf ps cp = int (length pre)" unfolding ps by (rule indexOf_first[OF notin])
  have dw: "dropWhile (\<lambda>p. trimmedText doc p \<noteq> symbol) ps = cp # post"
    unfolding ps using pre cp by (simp add: dropWhile_append3)
  show ?thesis
  proof (cases post)
    case Nil
    then show ?thesis using Some idx dw ps by (simp add: amountAfter_def)
  next
    case (Cons nx rest)
    have nxt: "at ps (int (length pre) + 1) = Some nx"
      unfolding ps using Cons by (simp add: at_after)
    have guard: "int (length pre) < int (length ps) - 1" unfolding ps using Cons by simp
    show ?thesis using Some idx dw nxt guard Cons by (simp add: amountAfter_def)
  qed
qed

lemma standaloneLoop_total: "\<exists>ca. standaloneLoop doc ps symbols cur = Inr ca"
proof (induction symbols arbitrary: cur)
  case Nil
  then show ?case by simp
next
  case (Cons symbol symbols)
  show ?case unfolding standaloneLoop_step using Cons
    by (cases "amountAfter doc ps symbol") auto
qed

lemma standaloneLoop_none:
  "\<forall>s\<in>set symbols. amountAfter doc ps s = None \<Longrightarrow>
   \<exists>c. standaloneLoop doc ps symbols cur = Inr (c, []) \<and>
       (c = cur \<or> (c \<in> set symbols \<and> (\<exists>p\<in>set ps. trimmedText doc p = c)))"
proof (induction symbols arbitrary: cur)
  case Nil
  then show ?case by simp
next
  case (Cons symbol symbols)
  then have none: "amountAfter doc ps symbol = None"
    and rest: "\<forall>s\<in>set symbols. amountAfter doc ps s = None"
    by simp_all
  let ?cur = "if find (\<lambda>p. trimmedText doc p = symbol) ps = None then cur else symbol"
  from Cons.IH[OF rest, of ?cur] obtain c where
    c: "standaloneLoop doc ps symbols ?cur = Inr (c, [])"
       "c = ?cur \<or> (c \<in> set symbols \<and> (\<exists>p\<in>set ps. trimmedText doc p = c))" by blast
  have "standaloneLoop doc ps (symbol # symbols) cur = Inr (c, [])"
    unfolding standaloneLoop_step using none c(1) by simp
  moreover have "c = cur \<or> (c \<in> set (symbol # symbols) \<and> (\<exists>p\<in>set ps. trimmedText doc p = c))"
    using c(2) by (auto simp: find_None_iff split: if_splits)
  ultimately show ?case by blast
qed

lemma standaloneLoop_first:
  "s \<in> set symbols \<Longrightarrow> amountAfter doc ps s = Some t \<Longrightarrow>
   \<forall>s'\<in>set (takeWhile (\<lambda>x. x \<noteq> s) symbols). amountAfter doc ps s' = None \<Longrightarrow>
   standaloneLoop doc ps symbols cur = Inr (s, t)"
proof (induction symbols arbitrary: cur)
  case Nil
  then show ?case by simp
next
  case (Cons symbol symbols)
  show ?case
  proof (cases "symbol = s")
    case True
    then show ?thesis unfolding standaloneLoop_step using Cons.prems(2) by simp
  next
    case False
    with Cons.prems have "s \<in> set symbols" "amountAfter doc ps symbol = None"
      "\<forall>s'\<in>set (takeWhile (\<lambda>x. x \<noteq> s) symbols). amountAfter doc ps s' = None" by auto
    then show ?thesis unfolding standaloneLoop_step using Cons.IH Cons.prems(2) by simp
  qed
qed

lemma combinedFormat_keep: "t \<noteq> [] \<Longrightarrow> combinedFormat doc ps (c, t) = (c, t)"
  by (simp add: combinedFormat_def)

lemma combinedFormat_absent:
  "find (\<lambda>p. testCombined (trimmedText doc p)) ps = None \<Longrightarrow>
   combinedFormat doc ps (c, []) = (c, [])"
  by (simp add: combinedFormat_def)

text \<open>What a match of the combined pattern looks like.\<close>

lemma matchCombined_shape:
  "matchCombined s = Some (g1, g2) \<Longrightarrow>
   \<exists>sp. s = g1 @ sp @ g2 \<and> (g1 = [] \<or> (\<exists>c. g1 = [c] \<and> isCurrencyChar c)) \<and>
        list_all isWhiteSpace sp \<and> g2 \<noteq> [] \<and> list_all isAmountChar g2"
proof -
  assume m: "matchCombined s = Some (g1, g2)"
  have tw: "\<And>r. r = takeWhile isWhiteSpace r @ dropWhile isWhiteSpace r" by simp
  have ws: "\<And>r. list_all isWhiteSpace (takeWhile isWhiteSpace r)"
    by (simp add: list_all_iff) (meson set_takeWhileD)
  show ?thesis
  proof (cases s)
    case Nil
    with m show ?thesis by (simp add: matchCombined_def)
  next
    case (Cons c cs)
    show ?thesis
    proof (cases "isCurrencyChar c")
      case True
      with m Cons have "g1 = [c]" "g2 = dropWhile isWhiteSpace cs" "g2 \<noteq> []"
        "list_all isAmountChar g2"
        by (auto simp: matchCombined_def Let_def split: if_splits)
      with True Cons tw[of cs] ws[of cs] show ?thesis
        by (intro exI[of _ "takeWhile isWhiteSpace cs"]) auto
    next
      case False
      with m Cons have "g1 = []" "g2 = dropWhile isWhiteSpace s" "g2 \<noteq> []"
        "list_all isAmountChar g2"
        by (auto simp: matchCombined_def Let_def split: if_splits)
      with tw[of s] ws[of s] show ?thesis
        by (intro exI[of _ "takeWhile isWhiteSpace s"]) auto
    qed
  qed
qed

lemma matchCombined_examples:
  "matchCombined ([dollar] @ js ''300'') = Some ([dollar], js ''300'')"
  "matchCombined (js ''450'') = Some ([], js ''450'')"
  by (simp_all add: matchCombined_def js_def isCurrencyChar_def dollar_def euro_def pound_def
       isWhiteSpace_def isAmountChar_def isDigit_def comma_def dot_def)

lemma combinedFormat_split:
  "find (\<lambda>p. testCombined (trimmedText doc p)) ps = Some ap \<Longrightarrow>
   \<exists>g1 g2. matchCombined (trimmedText doc ap) = Some (g1, g2) \<and>
           combinedFormat doc ps (c, []) = (g1, g2)"
proof -
  assume f: "find (\<lambda>p. testCombined (trimmedText doc p)) ps = Some ap"
  from find_split[OF f] have "testCombined (trimmedText doc ap)" by blast
  then obtain g1 g2 where m: "matchCombined (trimmedText doc ap) = Some (g1, g2)"
    by (auto simp: testCombined_def)
  from matchCombined_shape[OF m] have "g2 \<noteq> []" by blast
  with f m have "combinedFormat doc ps (c, []) = (g1, g2)"
    by (simp add: combinedFormat_def orElse_def)
  with m show ?thesis by blast
qed

text \<open>Without an amount, and without a currency.\<close>

lemma amount_absent:
  assumes "\<forall>s\<in>set CURRENCY_SYMBOLS. amountAfter doc ps s = None"
    and "\<forall>p\<in>set ps. \<not> testCombined (trimmedText doc p)"
  shows "\<exists>ca c. standaloneLoop doc ps CURRENCY_SYMBOLS [] = Inr ca \<and>
                combinedFormat doc ps ca = (c, [])"
proof -
  from standaloneLoop_none[OF assms(1), of "[]"] obtain c where
    c: "standaloneLoop doc ps CURRENCY_SYMBOLS [] = Inr (c, [])" by blast
  have "find (\<lambda>p. testCombined (trimmedText doc p)) ps = None"
    using assms(2) by (simp add: find_None_iff)
  then have "combinedFormat doc ps (c, []) = (c, [])" by (rule combinedFormat_absent)
  with c show ?thesis by blast
qed

lemma currency_absent:
  assumes "\<forall>p\<in>set ps. trimmedText doc p \<notin> set CURRENCY_SYMBOLS \<and>
             (\<forall>g1 g2. matchCombined (trimmedText doc p) = Some (g1, g2) \<longrightarrow> g1 = [])"
  shows "\<exists>ca a. standaloneLoop doc ps CURRENCY_SYMBOLS [] = Inr ca \<and>
                combinedFormat doc ps ca = ([], a)"
proof -
  have none: "\<forall>s\<in>set CURRENCY_SYMBOLS. amountAfter doc ps s = None"
    using assms by (auto intro!: no_symbol_no_amountAfter)
  from standaloneLoop_none[OF none, of "[]"] obtain c where
    c: "standaloneLoop doc ps CURRENCY_SYMBOLS [] = Inr (c, [])"
       "c = [] \<or> (c \<in> set CURRENCY_SYMBOLS \<and> (\<exists>p\<in>set ps. trimmedText doc p = c))" by blast
  from c(2) assms have empty: "c = []" by auto
  show ?thesis
  proof (cases "find (\<lambda>p. testCombined (trimmedText doc p)) ps")
    case None
    then have "combinedFormat doc ps (c, []) = (c, [])" by (rule combinedFormat_absent)
    with c(1) empty show ?thesis by blast
  next
    case (Some ap)
    from combinedFormat_split[OF Some, of c] obtain g1 g2 where
      m: "matchCombined (trimmedText doc ap) = Some (g1, g2)"
      and comb: "combinedFormat doc ps (c, []) = (g1, g2)" by blast
    from find_in_set[OF Some] have "ap \<in> set ps" by blast
    with assms m have "g1 = []" by blast
    with c(1) comb show ?thesis by blast
  qed
qed

subsection \<open>The status labels\<close>

lemma labelStatus_absent:
  "\<forall>p\<in>set ps. trimmedText doc p = label \<longrightarrow> noSmallBeside doc p \<Longrightarrow>
   labelStatus doc ps label = []"
proof (cases "find (\<lambda>p. trimmedText doc p = label) ps")
  case None
  then show ?thesis by (simp add: labelStatus_def)
next
  case (Some lp)
  assume a: "\<forall>p\<in>set ps. trimmedText doc p = label \<longrightarrow> noSmallBeside doc p"
  from find_in_set[OF Some] a have "noSmallBeside doc lp" by blast
  then show ?thesis using Some
    by (auto simp: labelStatus_def noSmallBeside_def split: option.splits)
qed

lemma returnDetection_result:
  "\<exists>b st. returnDetection doc ps = Inr (b, st) \<and> (b \<longleftrightarrow> st = js ''Invoiced'') \<and>
          st = labelStatus doc ps (js ''Return'')"
  by (auto simp: returnDetection_def labelStatus_def native_tagSmall Let_def split: option.splits)

subsection \<open>The record\<close>

lemma extractDepositInfo_eq:
  assumes "standaloneLoop doc (paragraphsOf doc container) CURRENCY_SYMBOLS [] = Inr ca"
    and "combinedFormat doc (paragraphsOf doc container) ca = (cur, amt)"
  shows "extractDepositInfo doc container idx =
      Inr \<lparr> amount = amt, currency = cur,
            depositStatus = labelStatus doc (paragraphsOf doc container) (js ''Deposit''),
            hasBeenReturned =
              (list_ex (\<lambda>p. trimmedText doc p = js ''Return'') (paragraphsOf doc container) \<or>
               elementContainsText doc container (js ''Return'')),
            returnStatus =
              (if (list_ex (\<lambda>p. trimmedText doc p = js ''Return'') (paragraphsOf doc container) \<or>
                   elementContainsText doc container (js ''Return''))
               then labelStatus doc (paragraphsOf doc container) (js ''Return'') else []),
            index = idx, type = js ''Deposit'', element = container \<rparr>"
  using assms by (simp add: extractDepositInfo_def paragraphsOf_def Let_def)

lemma extractDepositInfo_rd_eq:
  assumes "standaloneLoop doc (paragraphsOf doc container) CURRENCY_SYMBOLS [] = Inr ca"
    and "combinedFormat doc (paragraphsOf doc container) ca = (cur, amt)"
    and "returnDetection doc (paragraphsOf doc container) = Inr (b, st)"
  shows "extractDepositInfo_rd serialize doc container idx =
      Inr \<lparr> amount = amt, currency = cur,
            depositStatus = labelStatus doc (paragraphsOf doc container) (js ''Deposit''),
            hasBeenReturned = b, returnStatus = st,
            index = idx, type = js ''Deposit'',
            xpath = getXPath doc container,
            outerHTML =
              (case nodeAt doc container of Some n \<Rightarrow> take 500 (serialize n) | None \<Rightarrow> []) \<rparr>"
  using assms by (simp add: extractDepositInfo_rd_def paragraphsOf_def Let_def)

lemma amounts_both:
  assumes "standaloneLoop doc (paragraphsOf doc container) CURRENCY_SYMBOLS [] = Inr ca"
    and "combinedFormat doc (paragraphsOf doc container) ca = (cur, amt)"
  shows "(\<exists>r. extractDepositInfo doc container idx = Inr r \<and> currency r = cur \<and> amount r = amt) \<and>
         (\<exists>r. extractDepositInfo_rd serialize doc container idx = Inr r \<and>
              currency r = cur \<and> amount r = amt)"
proof -
  obtain b st where ret: "returnDetection doc (paragraphsOf doc container) = Inr (b, st)"
    using returnDetection_result[of doc "paragraphsOf doc container"] by blast
  show ?thesis
    by (simp add: extractDepositInfo_eq[OF assms] extractDepositInfo_rd_eq[OF assms ret])
qed

text \<open>In return-detector.js the flag follows the status text: this is the property that
  claim C1 states, on the file that keeps it.\<close>

lemma return_detector_flag_iff_Invoiced:
  "\<exists>r. extractDepositInfo_rd serialize doc container idx = Inr r \<and>
       (hasBeenReturned r \<longleftrightarrow> returnStatus r = js ''Invoiced'')"
proof -
  obtain ca where loop: "standaloneLoop doc (paragraphsOf doc container) CURRENCY_SYMBOLS [] = Inr ca"
    using standaloneLoop_total by blast
  obtain cur amt where comb: "combinedFormat doc (paragraphsOf doc container) ca = (cur, amt)"
    by (cases "combinedFormat doc (paragraphsOf doc container) ca") auto
  obtain b st where ret: "returnDetection doc (paragraphsOf doc container) = Inr (b, st)"
     "b \<longleftrightarrow> st = js ''Invoiced''"
    using returnDetection_result[of doc "paragraphsOf doc container"] by blast
  show ?thesis by (simp add: extractDepositInfo_rd_eq[OF loop comb ret(1)] ret(2))
qed

text \<open>
  For every page, container and index, \<open>extractDepositInfo\<close> returns a record and raises
  nothing, in script-demo.js and in return-detector.js.  In the record, \<open>amount\<close> is empty
  when no currency symbol in a paragraph of its own is followed by an amount and no
  paragraph is an amount with or without its symbol (so also when a symbol paragraph is
  there without an amount after it); \<open>currency\<close> is empty when no paragraph is a currency
  symbol and no paragraph is an amount that opens with one; \<open>depositStatus\<close> is empty when
  no "Deposit" paragraph has a \<open>small\<close> element beside it (there is no such paragraph, or
  it has no parent element, or the parent has no \<open>small\<close> inside); \<open>returnStatus\<close> is empty
  in the same way for "Return", and \<open>hasBeenReturned\<close> is then false in
  return-detector.js.  In script-demo.js \<open>hasBeenReturned\<close> is false only if, besides,
  the text of the container does not contain "Return".
\<close>

lemma extraction_returns_record:
  "(\<exists>r. extractDepositInfo doc container idx = Inr r \<and>
      ((\<forall>s\<in>set CURRENCY_SYMBOLS. amountAfter doc (paragraphsOf doc container) s = None) \<and>
       (\<forall>p\<in>set (paragraphsOf doc container). \<not> testCombined (trimmedText doc p)) \<longrightarrow>
       amount r = []) \<and>
      ((\<forall>p\<in>set (paragraphsOf doc container).
          trimmedText doc p \<notin> set CURRENCY_SYMBOLS \<and>
          (\<forall>g1 g2. matchCombined (trimmedText doc p) = Some (g1, g2) \<longrightarrow> g1 = [])) \<longrightarrow>
       currency r = []) \<and>
      ((\<forall>p\<in>set (paragraphsOf doc container).
          trimmedText doc p = js ''Deposit'' \<longrightarrow> noSmallBeside doc p) \<longrightarrow> depositStatus r = []) \<and>
      ((\<forall>p\<in>set (paragraphsOf doc container).
          trimmedText doc p = js ''Return'' \<longrightarrow> noSmallBeside doc p) \<longrightarrow> returnStatus r = []) \<and>
      ((\<forall>p\<in>set (paragraphsOf doc container). trimmedText doc p \<noteq> js ''Return'') \<and>
       \<not> elementContainsText doc container (js ''Return'') \<longrightarrow> \<not> hasBeenReturned r)) \<and>
   (\<exists>r. extractDepositInfo_rd serialize doc container idx = Inr r \<and>
      ((\<forall>s\<in>set CURRENCY_SYMBOLS. amountAfter doc (paragraphsOf doc container) s = None) \<and>
       (\<forall>p\<in>set (paragraphsOf doc container). \<not> testCombined (trimmedText doc p)) \<longrightarrow>
       amount r = []) \<and>
      ((\<forall>p\<in>set (paragraphsOf doc container).
          trimmedText doc p \<notin> set CURRENCY_SYMBOLS \<and>
          (\<forall>g1 g2. matchCombined (trimmedText doc p) = Some (g1, g2) \<longrightarrow> g1 = [])) \<longrightarrow>
       currency r = []) \<and>
      ((\<forall>p\<in>set (paragraphsOf doc container).
          trimmedText doc p = js ''Deposit'' \<longrightarrow> noSmallBeside doc p) \<longrightarrow> depositStatus r = []) \<and>
      ((\<forall>p\<in>set (paragraphsOf doc container).
          trimmedText doc p = js ''Return'' \<longrightarrow> noSmallBeside doc p) \<longrightarrow>
       returnStatus r = [] \<and> \<not> hasBeenReturned r))"
proof -
  let ?ps = "paragraphsOf doc container"
  obtain cur0 amt0 where loop: "standaloneLoop doc ?ps CURRENCY_SYMBOLS [] = Inr (cur0, amt0)"
    using standaloneLoop_total[of doc ?ps CURRENCY_SYMBOLS "[]"] by auto
  obtain cur amt where comb: "combinedFormat doc ?ps (cur0, amt0) = (cur, amt)"
    by (cases "combinedFormat doc ?ps (cur0, amt0)") auto
  obtain b st where ret: "returnDetection doc ?ps = Inr (b, st)" "b \<longleftrightarrow> st = js ''Invoiced''"
      "st = labelStatus doc ?ps (js ''Return'')"
    using returnDetection_result[of doc ?ps] by blast
  have noamt: "amt = []"
    if "(\<forall>s\<in>set CURRENCY_SYMBOLS. amountAfter doc ?ps s = None) \<and>
        (\<forall>p\<in>set ?ps. \<not> testCombined (trimmedText doc p))"
    using amount_absent[of doc ?ps] that loop comb by auto
  have nocur: "cur = []"
    if "\<forall>p\<in>set ?ps. trimmedText doc p \<notin> set CURRENCY_SYMBOLS \<and>
          (\<forall>g1 g2. matchCombined (trimmedText doc p) = Some (g1, g2) \<longrightarrow> g1 = [])"
    using currency_absent[OF that] loop comb by auto
  have retabs: "st = [] \<and> \<not> b"
    if "\<forall>p\<in>set ?ps. trimmedText doc p = js ''Return'' \<longrightarrow> noSmallBeside doc p"
    using labelStatus_absent[OF that] ret(2,3) by simp
  have demo: "\<exists>r. extractDepositInfo doc container idx = Inr r \<and>
      ((\<forall>s\<in>set CURRENCY_SYMBOLS. amountAfter doc ?ps s = None) \<and>
       (\<forall>p\<in>set ?ps. \<not> testCombined (trimmedText doc p)) \<longrightarrow> amount r = []) \<and>
      ((\<forall>p\<in>set ?ps. trimmedText doc p \<notin> set CURRENCY_SYMBOLS \<and>
          (\<forall>g1 g2. matchCombined (trimmedText doc p) = Some (g1, g2) \<longrightarrow> g1 = [])) \<longrightarrow>
       currency r = []) \<and>
      ((\<forall>p\<in>set ?ps. trimmedText doc p = js ''Deposit'' \<longrightarrow> noSmallBeside doc p) \<longrightarrow>
       depositStatus r = []) \<and>
      ((\<forall>p\<in>set ?ps. trimmedText doc p = js ''Return'' \<longrightarrow> noSmallBeside doc p) \<longrightarrow>
       returnStatus r = []) \<and>
      ((\<forall>p\<in>set ?ps. trimmedText doc p \<noteq> js ''Return'') \<and>
       \<not> elementContainsText doc container (js ''Return'') \<longrightarrow> \<not> hasBeenReturned r)"
    unfolding extractDepositInfo_eq[OF loop comb]
    using noamt nocur labelStatus_absent[of ?ps doc]
    by (simp add: list_ex_iff)
  have rd: "\<exists>r. extractDepositInfo_rd serialize doc container idx = Inr r \<and>
      ((\<forall>s\<in>set CURRENCY_SYMBOLS. amountAfter doc ?ps s = None) \<and>
       (\<forall>p\<in>set ?ps. \<not> testCombined (trimmedText doc p)) \<longrightarrow> amount r = []) \<and>
      ((\<forall>p\<in>set ?ps. trimmedText doc p \<notin> set CURRENCY_SYMBOLS \<and>
          (\<forall>g1 g2. matchCombined (trimmedText doc p) = Some (g1, g2) \<longrightarrow> g1 = [])) \<longrightarrow>
       currency r = []) \<and>
      ((\<forall>p\<in>set ?ps. trimmedText doc p = js ''Deposit'' \<longrightarrow> noSmallBeside doc p) \<longrightarrow>
       depositStatus r = []) \<and>
      ((\<forall>p\<in>set ?ps. trimmedText doc p = js ''Return'' \<longrightarrow> noSmallBeside doc p) \<longrightarrow>
       returnStatus r = [] \<and> \<not> hasBeenReturned r)"
    unfolding extractDepositInfo_rd_eq[OF loop comb ret(1)]
    using noamt nocur retabs labelStatus_absent[of ?ps doc]
    by simp
  from demo rd show ?thesis by (rule conjI)
qed

text \<open>\<open>findAllDeposits\<close> returns one record for each container.\<close>

lemma mapIndexed_total:
  "\<forall>c i. \<exists>r. f c i = Inr r \<Longrightarrow> \<exists>rs. mapIndexed f i cs = Inr rs \<and> length rs = length cs"
proof (induction cs arbitrary: i)
  case Nil
  then show ?case by simp
next
  case (Cons c cs)
  from Cons.prems obtain r where r: "f c (i + 1) = Inr r" by blast
  from Cons.IH[OF Cons.prems, of "Suc i"] obtain rs where
    rs: "mapIndexed f (Suc i) cs = Inr rs" "length rs = length cs" by blast
  show ?case using r rs by simp
qed

lemma extractDepositInfo_total: "\<exists>r. extractDepositInfo doc container idx = Inr r"
proof -
  obtain ca where loop: "standaloneLoop doc (paragraphsOf doc container) CURRENCY_SYMBOLS [] = Inr ca"
    using standaloneLoop_total by blast
  obtain cur amt where comb: "combinedFormat doc (paragraphsOf doc container) ca = (cur, amt)"
    by (cases "combinedFormat doc (paragraphsOf doc container) ca") auto
  show ?thesis by (simp add: extractDepositInfo_eq[OF loop comb])
qed

lemma findAllDeposits_total:
  "\<exists>deposits. findAllDeposits doc = Inr deposits \<and>
              length deposits = length (findDepositContainers doc)"
  unfolding findAllDeposits_def
  by (rule mapIndexed_total) (simp add: extractDepositInfo_total)

subsection \<open>The export\<close>

lemma getDepositDetails_recorded:
  "getDepositDetails pg d = Inr details \<Longrightarrow> details = recordedDetails pg d"
  by (auto simp: getDepositDetails_def messageOf_def recordedDetails_def
      split: sum.splits thrown.splits)

lemma processDeposit_complete:
  "processDeposit pg CompleteOverlay acc d = Inr (acc @ [recordedDetails pg d])"
  by (simp add: processDeposit_def updateProgress_def getDepositDetails_def messageOf_def
        typeError_def recordedDetails_def split: sum.splits thrown.splits)

lemma collectDetails_complete:
  "collectDetails pg CompleteOverlay acc ds = Inr (acc @ map (recordedDetails pg) ds)"
  by (induction ds arbitrary: acc) (simp_all add: processDeposit_complete)

lemma errorMessage_row:
  "property (exportRow (recordedDetails pg d)) (js ''errorMessage'') =
     JString (case readDetails pg d of
                Inr modal \<Rightarrow> []
              | Inl (Nullish v) \<Rightarrow> typeErrorMessage pg v (js ''message'')
              | Inl (ErrorObject msg) \<Rightarrow> (case msg of Some m \<Rightarrow> m | None \<Rightarrow> []))"
  by (simp add: property_def exportRow_def recordedDetails_def fullDetails_def partialDetails_def
        orDefault_def split: sum.splits thrown.splits option.splits)

lemma index_row: "property (exportRow (recordedDetails pg d)) (js ''index'') = JNumber (index d)"
  by (simp add: property_def exportRow_def recordedDetails_def fullDetails_def partialDetails_def
        split: sum.splits thrown.splits)

text \<open>With a body, and with a head or an overlay that is already complete, the calls of
  \<open>UIUtils\<close> and \<open>downloadFile\<close> throw nothing, and the run returns the success object.\<close>

lemma showLoading_complete:
  "documentBody doc \<noteq> None \<Longrightarrow>
   ov = CompleteOverlay \<or> (ov = NoOverlay \<and> documentHead doc \<noteq> None) \<Longrightarrow>
   showLoading pg ov doc = Inr CompleteOverlay"
  by (auto simp: showLoading_def appendChild_def)

lemma export_succeeds:
  assumes "findAllDeposits doc = Inr deposits" and "deposits \<noteq> []"
    and "documentBody doc \<noteq> None"
    and "ov = CompleteOverlay \<or> (ov = NoOverlay \<and> documentHead doc \<noteq> None)"
  shows "exportAllDepositData pg ov doc =
           Exported (length deposits) (generateFilename (js ''csv''))
             (generateFilename (js ''json''))
             (formatForExport (map (recordedDetails pg) deposits))
             (toCSV (formatForExport (map (recordedDetails pg) deposits)))"
proof -
  from assms(3) have ui: "showAlert pg doc = None" "downloadFile pg doc = None"
    by (auto simp: showAlert_def downloadFile_def appendChild_def)
  show ?thesis
    using assms(1,2)
    by (simp add: exportAllDepositData_def exportDeposits_def showLoading_complete[OF assms(3,4)]
          collectDetails_complete ui Let_def)
qed

text \<open>On a page without a \<open>head\<close> element the first run fails before the loop: the
  \<open>TypeError\<close> of \<open>document.head.appendChild\<close> reaches the outer \<open>catch\<close>.\<close>

lemma export_fails_without_head:
  assumes "findAllDeposits doc = Inr deposits" and "deposits \<noteq> []"
    and "documentHead doc = None" and "documentBody doc \<noteq> None"
  shows "exportAllDepositData pg NoOverlay doc =
           Failure (Some (typeErrorMessage pg JsNull (js ''appendChild'')))"
  using assms
  by (auto simp: exportAllDepositData_def exportDeposits_def showLoading_def appendChild_def
        showAlert_def messageOf_def typeError_def)

text \<open>Whatever is thrown, a record that reaches the export carries the list fields of its
  deposit.\<close>

lemma processDeposit_listInfo:
  "processDeposit pg ov acc d = Inr out \<Longrightarrow>
   \<exists>details. out = acc @ [details] \<and> listInfo details = Some (listInfoOf d)"
  by (auto simp: processDeposit_def getDepositDetails_def messageOf_def fullDetails_def
        partialDetails_def split: sum.splits option.splits thrown.splits)

lemma collectDetails_listInfo:
  "collectDetails pg ov acc ds = Inr out \<Longrightarrow>
   \<exists>new. out = acc @ new \<and> map listInfo new = map (\<lambda>d. Some (listInfoOf d)) ds"
proof (induction ds arbitrary: acc)
  case Nil
  then show ?case by simp
next
  case (Cons d ds)
  from Cons.prems obtain pushed where
    p: "processDeposit pg ov acc d = Inr pushed" and c: "collectDetails pg ov pushed ds = Inr out"
    by (auto split: sum.splits)
  from processDeposit_listInfo[OF p] obtain details where
    d: "pushed = acc @ [details]" "listInfo details = Some (listInfoOf d)" by blast
  from Cons.IH[OF c] obtain new where
    n: "out = pushed @ new" "map listInfo new = map (\<lambda>d. Some (listInfoOf d)) ds" by blast
  from d n show ?case by (intro exI[of _ "details # new"]) simp
qed

lemma exported_rows:
  assumes "exportAllDepositData pg ov doc = Exported n f1 f2 rows csv"
  shows "\<exists>deposits details. findAllDeposits doc = Inr deposits \<and> n = length deposits \<and>
           rows = formatForExport details \<and> csv = toCSV rows \<and>
           map listInfo details = map (\<lambda>d. Some (listInfoOf d)) deposits"
proof -
  from assms obtain deposits ov' details where
    f: "findAllDeposits doc = Inr deposits"
    and c: "collectDetails pg ov' [] deposits = Inr details"
    and r: "n = length deposits" "rows = formatForExport details" "csv = toCSV rows"
    by (auto simp: exportAllDepositData_def exportDeposits_def Let_def
          split: sum.splits option.splits if_splits)
  from collectDetails_listInfo[OF c] have
    "map listInfo details = map (\<lambda>d. Some (listInfoOf d)) deposits" by auto
  with f r show ?thesis by blast
qed

lemma removeCommas_no_comma: "comma \<notin> set (removeCommas s)"
  by (simp add: removeCommas_def)

lemma property_amount:
  "property (exportRow d) (js ''amount'') =
     JString (case listInfo d of None \<Rightarrow> [] | Some li \<Rightarrow> removeCommas (amount li))"
  by (simp add: property_def exportRow_def removeCommas_def split: option.splits)

lemma listInfo_getDepositDetails:
  "getDepositDetails pg d = Inr details \<Longrightarrow> listInfo details = Some (listInfoOf d)"
  by (auto simp: getDepositDetails_def messageOf_def fullDetails_def partialDetails_def
      split: sum.splits thrown.splits)

lemma amount_rows:
  "map listInfo details = map (\<lambda>d. Some (listInfoOf d)) deposits \<Longrightarrow>
   map (\<lambda>row. property row (js ''amount'')) (formatForExport details) =
     map (\<lambda>d. JString (removeCommas (amount d))) deposits"
proof (induction details arbitrary: deposits)
  case Nil
  then show ?case by (simp add: formatForExport_def)
next
  case (Cons x xs)
  then obtain d ds where ds: "deposits = d # ds" by (cases deposits) auto
  with Cons.prems have x: "listInfo x = Some (listInfoOf d)"
    and xs: "map listInfo xs = map (\<lambda>d. Some (listInfoOf d)) ds" by simp_all
  from Cons.IH[OF xs] x ds show ?case
    by (simp add: formatForExport_def property_amount listInfoOf_def)
qed

lemma keys_exportRow: "map fst (exportRow d) = EXPORT_FIELDS"
  by (simp add: exportRow_def EXPORT_FIELDS_def)

lemma cells_exportRow:
  "map (\<lambda>header. csvCell (property (exportRow d) header)) EXPORT_FIELDS =
   map (csvCell \<circ> snd) (exportRow d)"
  by (simp add: exportRow_def property_def EXPORT_FIELDS_def)

lemma property_exportRow:
  "(name, v) \<in> set (exportRow d) \<Longrightarrow> property (exportRow d) name = v"
proof -
  assume "(name, v) \<in> set (exportRow d)"
  moreover have "distinct (map fst (exportRow d))"
    by (simp add: keys_exportRow EXPORT_FIELDS_def)
  ultimately have "map_of (exportRow d) name = Some v" by (rule map_of_is_SomeI[rotated])
  then show ?thesis by (simp add: property_def)
qed

lemma doubleQuotes_Nil: "doubleQuotes [] = []"
  by (simp add: doubleQuotes_def)

lemma doubleQuotes_quote: "doubleQuotes (dquote # s) = dquote # dquote # doubleQuotes s"
  by (simp add: doubleQuotes_def)

lemma doubleQuotes_other: "c \<noteq> dquote \<Longrightarrow> doubleQuotes (c # s) = c # doubleQuotes s"
  by (simp add: doubleQuotes_def)

lemma readQuoted_doubleQuotes:
  "rest = [] \<or> hd rest \<noteq> dquote \<Longrightarrow>
   readQuoted (doubleQuotes s @ dquote # rest) = Some (s, rest)"
proof (induction s)
  case Nil
  then show ?case by (cases rest) (auto simp: doubleQuotes_Nil)
next
  case (Cons c s)
  obtain x xs where nonempty: "doubleQuotes s @ dquote # rest = x # xs"
    by (cases "doubleQuotes s @ dquote # rest") auto
  show ?case
  proof (cases "c = dquote")
    case True
    then show ?thesis using Cons by (simp add: doubleQuotes_quote)
  next
    case False
    have "readQuoted (c # x # xs) =
            map_option (\<lambda>(v, rest). (c # v, rest)) (readQuoted (x # xs))"
      using False by simp
    then show ?thesis using Cons False by (simp add: doubleQuotes_other nonempty[symmetric])
  qed
qed

lemma readField_string:
  "rest = [] \<or> hd rest \<noteq> dquote \<Longrightarrow> readField (csvCell (JString s) @ rest) = Some (s, rest)"
  by (simp add: readField_def readQuoted_doubleQuotes)

subsection \<open>Reading the CSV text back\<close>

lemma decimal_digits: "c \<in> set (decimal n) \<Longrightarrow> 48 \<le> c \<and> c \<le> 57"
proof (induction n arbitrary: c rule: decimal.induct)
  case (1 n)
  show ?case
  proof (cases "n < 10")
    case True
    with "1.prems" show ?thesis by (simp add: decimal_digit)
  next
    case False
    with "1.prems" have "c \<in> set (decimal (n div 10)) \<or> c = 48 + n mod 10"
      by (subst (asm) decimal.simps) auto
    with "1.IH"[OF False] show ?thesis by auto
  qed
qed

lemma doubleQuotes_id: "dquote \<notin> set s \<Longrightarrow> doubleQuotes s = s"
  by (induction s) (auto simp: doubleQuotes_def)

lemma doubleQuotes_decimal: "doubleQuotes (decimal n) = decimal n"
  by (rule doubleQuotes_id) (auto dest: decimal_digits simp: dquote_def)

lemma readField_plain:
  "plainName h \<Longrightarrow> separator c \<Longrightarrow> readField (h @ c # rest) = Some (h, c # rest)"
proof -
  assume p: "plainName h" and c: "separator c"
  let ?P = "\<lambda>x. x \<noteq> comma \<and> x \<noteq> newline"
  from p have all: "\<forall>x\<in>set h. ?P x" by (simp add: plainName_def list_all_iff)
  from c have stop: "\<not> ?P c" by (auto simp: separator_def)
  have tw: "takeWhile ?P (h @ c # rest) = h" using all stop by auto
  have "dropWhile ?P (h @ c # rest) = dropWhile ?P (c # rest)"
    using all by simp
  also have "\<dots> = c # rest" using stop by auto
  finally have dw: "dropWhile ?P (h @ c # rest) = c # rest" .
  show ?thesis
  proof (cases h)
    case Nil
    from c have "c \<noteq> dquote" by (auto simp: separator_def comma_def newline_def dquote_def)
    with Nil tw dw show ?thesis by (simp add: readField_def)
  next
    case (Cons x xs)
    with p have "x \<noteq> dquote" by (simp add: plainName_def)
    with Cons tw dw show ?thesis by (simp add: readField_def)
  qed
qed

text \<open>Every cell that \<open>toCSV\<close> writes is read back as the text of its value.\<close>

lemma readField_cell:
  "separator c \<Longrightarrow> readField (csvCell v @ c # rest) = Some (cellText v, c # rest)"
proof -
  assume c: "separator c"
  then have nq: "c # rest = [] \<or> hd (c # rest) \<noteq> dquote"
    by (auto simp: separator_def comma_def newline_def dquote_def)
  have plain: "plainName []" "plainName (js ''true'')" "plainName (js ''false'')"
    by (simp_all add: plainName_def js_def comma_def newline_def dquote_def)
  show ?thesis
  proof (cases v)
    case (JString s)
    then show ?thesis using readField_string[OF nq, of s] by simp
  next
    case (JObject j)
    then show ?thesis using readField_string[OF nq, of j] by simp
  next
    case (JNumber n)
    then show ?thesis using readField_string[OF nq, of "decimal n"]
      by (simp add: doubleQuotes_decimal)
  next
    case (JBoolean b)
    then show ?thesis using readField_plain[OF plain(2) c] readField_plain[OF plain(3) c] by simp
  next
    case JUndefined
    then show ?thesis using readField_plain[OF plain(1) c] by simp
  next
    case JNull
    then show ?thesis using readField_plain[OF plain(1) c] by simp
  qed
qed

lemma readRecord_join:
  "list_all2 (\<lambda>cell v. \<forall>c rest. separator c \<longrightarrow>
                 readField (cell @ c # rest) = Some (v, c # rest)) cells vs \<Longrightarrow>
   cells \<noteq> [] \<Longrightarrow> readRecord (join [comma] cells @ newline # rest) = Some (vs, rest)"
proof (induction cells vs rule: list_all2_induct)
  case Nil
  then show ?case by simp
next
  case (Cons cell cells v vs)
  have sep: "separator comma" "separator newline" by (simp_all add: separator_def)
  have ne: "comma \<noteq> newline" by (simp add: comma_def newline_def)
  show ?case
  proof (cases cells)
    case Nil
    with Cons.hyps have "vs = []" by simp
    with Nil Cons.hyps(1) sep show ?thesis
      by (subst readRecord.simps) simp
  next
    case (Cons cell' cells')
    then have j: "join [comma] (cell # cells) @ newline # rest =
                  cell @ comma # (join [comma] cells @ newline # rest)" by simp
    from Cons Cons.IH have "readRecord (join [comma] cells @ newline # rest) = Some (vs, rest)"
      by simp
    with Cons.hyps(1) sep ne show ?thesis unfolding j
      by (subst readRecord.simps) simp
  qed
qed

lemma readAll_lines:
  "list_all2 (\<lambda>line vals. line \<noteq> [] \<and> (\<forall>rest. readRecord (line @ rest) = Some (vals, rest)))
     lines records \<Longrightarrow>
   readAll (concat lines) = Some records"
proof (induction lines records rule: list_all2_induct)
  case Nil
  then show ?case by (simp add: readAll.simps)
next
  case (Cons line lines vals records)
  then show ?case by (subst readAll.simps) simp
qed

text \<open>The text that \<open>toCSV\<close> writes, read back: the header and, for every row, the texts
  of its values under the names of the header.\<close>

lemma readAll_toCSV:
  assumes "data = first # others" and "map fst first \<noteq> []"
    and "list_all plainName (map fst first)"
  shows "readAll (toCSV data) =
           Some (map fst first #
                 map (\<lambda>item. map (\<lambda>header. cellText (property item header)) (map fst first)) data)"
proof -
  let ?h = "map fst first"
  have header: "readRecord ((join [comma] ?h @ [newline]) @ rest) = Some (?h, rest)" for rest
    using readRecord_join[of ?h ?h rest] assms(2,3)
    by (simp add: list_all2_same list_all_iff readField_plain)
  have line: "readRecord (csvLine ?h item @ rest) =
                Some (map (\<lambda>header. cellText (property item header)) ?h, rest)" for item rest
    using readRecord_join[of "map (\<lambda>header. csvCell (property item header)) ?h"
            "map (\<lambda>header. cellText (property item header)) ?h" rest] assms(2)
    by (simp add: csvLine_def list_all2_map1 list_all2_map2 list_all2_same readField_cell)
  have eq: "toCSV data = concat ((join [comma] ?h @ [newline]) # map (csvLine ?h) data)"
    using assms(1) by (simp add: toCSV_def Let_def)
  have lines: "list_all2 (\<lambda>line vals. line \<noteq> [] \<and>
                   (\<forall>rest. readRecord (line @ rest) = Some (vals, rest)))
                 (map (csvLine ?h) data)
                 (map (\<lambda>item. map (\<lambda>header. cellText (property item header)) ?h) data)"
    by (simp add: list_all2_map1 list_all2_map2 list_all2_same line) (simp add: csvLine_def)
  have "list_all2 (\<lambda>line vals. line \<noteq> [] \<and>
            (\<forall>rest. readRecord (line @ rest) = Some (vals, rest)))
          ((join [comma] ?h @ [newline]) # map (csvLine ?h) data)
          (?h # map (\<lambda>item. map (\<lambda>header. cellText (property item header)) ?h) data)"
  proof (rule list_all2_Cons[THEN iffD2], intro conjI allI)
    show "join [comma] ?h @ [newline] \<noteq> []" by simp
    show "readRecord ((join [comma] ?h @ [newline]) @ rest) = Some (?h, rest)" for rest
      by (rule header)
    show "list_all2 (\<lambda>line vals. line \<noteq> [] \<and>
              (\<forall>rest. readRecord (line @ rest) = Some (vals, rest)))
            (map (csvLine ?h) data)
            (map (\<lambda>item. map (\<lambda>header. cellText (property item header)) ?h) data)"
      by (rule lines)
  qed
  from readAll_lines[OF this] show ?thesis unfolding eq .
qed

lemma plain_EXPORT_FIELDS: "list_all plainName EXPORT_FIELDS"
  by (simp add: EXPORT_FIELDS_def plainName_def js_def comma_def newline_def dquote_def)

lemma texts_exportRow:
  "map (\<lambda>header. cellText (property (exportRow d) header)) EXPORT_FIELDS =
   map (cellText \<circ> snd) (exportRow d)"
  by (simp add: exportRow_def property_def EXPORT_FIELDS_def)

lemma readAll_export:
  "readAll (toCSV (formatForExport (d # ds))) =
     Some (EXPORT_FIELDS # map (\<lambda>x. map (cellText \<circ> snd) (exportRow x)) (d # ds))"
proof -
  have ne: "map fst (exportRow d) \<noteq> []" by (simp add: keys_exportRow EXPORT_FIELDS_def)
  have pl: "list_all plainName (map fst (exportRow d))"
    by (simp add: keys_exportRow plain_EXPORT_FIELDS)
  have "formatForExport (d # ds) = exportRow d # formatForExport ds"
    by (simp add: formatForExport_def)
  from readAll_toCSV[OF this ne pl] show ?thesis
    by (simp add: keys_exportRow formatForExport_def texts_exportRow comp_def)
qed

subsection \<open>Evaluation of the example pages\<close>

lemmas page_ev = el_def tx_def js_def
lemmas query_ev = querySelectorAll_def native_querySelectorAll_def validGroup_def
   tagP_def tagSmall_def querySelector_def native_querySelector_def paragraphsOf_def
lemmas text_ev = trimmedText_def textAt_def trim_def isWhiteSpace_def
lemmas char_ev = euro_def dollar_def pound_def comma_def dot_def dquote_def newline_def
   backslash_def letter_d_def isDigit_def isAmountChar_def isCurrencyChar_def

lemma symbol_texts [simp]:
  "[euro] \<noteq> js ''Deposit''" "[euro] \<noteq> js ''Return''" "[euro] \<noteq> js ''1,250.00''"
  "[euro] \<noteq> js ''500.00''" "[euro] \<noteq> js ''$300''" "[euro] \<noteq> js ''450''"
  "[dollar] \<noteq> js ''Deposit''" "[dollar] \<noteq> js ''$300''" "[dollar] \<noteq> js ''450''"
  "[pound] \<noteq> js ''Deposit''" "[pound] \<noteq> js ''$300''" "[pound] \<noteq> js ''450''"
  "js ''Deposit'' \<noteq> [euro]" "js ''Return'' \<noteq> [euro]" "js ''1,250.00'' \<noteq> [euro]"
  "js ''500.00'' \<noteq> [euro]" "js ''$300'' \<noteq> [euro]" "js ''450'' \<noteq> [euro]"
  "js ''Deposit'' \<noteq> [dollar]" "js ''$300'' \<noteq> [dollar]" "js ''450'' \<noteq> [dollar]"
  "js ''Deposit'' \<noteq> [pound]" "js ''$300'' \<noteq> [pound]" "js ''450'' \<noteq> [pound]"
  "[euro] \<noteq> [dollar]" "[euro] \<noteq> [pound]" "[dollar] \<noteq> [euro]" "[pound] \<noteq> [euro]"
  "[dollar] \<noteq> [pound]" "[pound] \<noteq> [dollar]"
  by (simp_all add: js_def euro_def dollar_def pound_def)

lemma amount_texts:
  "testAmount (js ''1,250.00'')" "testAmount (js ''500.00'')" "\<not> testAmount (js ''Deposit'')"
  "\<not> testAmount (js ''Return'')" "\<not> testAmount [euro]"
  "\<not> testCombined (js ''Deposit'')" "testCombined (js ''$300'')" "testCombined (js ''450'')"
  by (simp_all add: testAmount_def testCombined_def matchCombined_def js_def char_ev isWhiteSpace_def)

lemma dollar_300: "js ''$300'' = [dollar] @ js ''300''"
  by (simp add: js_def dollar_def)

lemma returnPage_paragraphs:
  "paragraphsOf returnPage [0,0] = [[0,0,0,0],[0,0,Suc 0],[0,0,2],[0,0,3,0]]"
  by (simp add: returnPage_def page_ev query_ev)

lemma returnPage_texts:
  "trimmedText returnPage [0,0,0,0] = js ''Deposit''"
  "trimmedText returnPage [0,0,Suc 0] = [euro]"
  "trimmedText returnPage [0,0,2] = js ''1,250.00''"
  "trimmedText returnPage [0,0,3,0] = js ''Return''"
  by (simp_all add: returnPage_def page_ev text_ev euro_def)

lemma returnPage_small:
  "querySelector returnPage tagSmall (Within [0,0,3]) = Some [0,0,3,Suc 0]"
  "trimmedText returnPage [0,0,3,Suc 0] = js ''Pending invoice''"
  "querySelector returnPage tagSmall (Within [0,0,0]) = Some [0,0,0,Suc 0]"
  "trimmedText returnPage [0,0,0,Suc 0] = js ''Paid''"
  by (simp_all add: returnPage_def page_ev text_ev query_ev)

lemma returnPage_amountAfter:
  "amountAfter returnPage [[0,0,0,0],[0,0,Suc 0],[0,0,2],[0,0,3,0]] [euro] = Some (js ''1,250.00'')"
  by (simp add: amountAfter_def returnPage_texts amount_texts)

lemma returnPage_status:
  "labelStatus returnPage [[0,0,0,0],[0,0,Suc 0],[0,0,2],[0,0,3,0]] (js ''Return'') =
     js ''Pending invoice''"
  "labelStatus returnPage [[0,0,0,0],[0,0,Suc 0],[0,0,2],[0,0,3,0]] (js ''Deposit'') = js ''Paid''"
  by (simp_all add: labelStatus_def returnPage_texts parentElement_def returnPage_small)

lemma twoAmountsPage_paragraphs:
  "paragraphsOf twoAmountsPage [0,0] =
     [[0,0,0,0],[0,0,Suc 0],[0,0,2],[0,0,3,0],[0,0,4],[0,0,5]]"
  by (simp add: twoAmountsPage_def page_ev query_ev)

lemma twoAmountsPage_texts:
  "trimmedText twoAmountsPage [0,0,0,0] = js ''Deposit''"
  "trimmedText twoAmountsPage [0,0,Suc 0] = [euro]"
  "trimmedText twoAmountsPage [0,0,2] = js ''1,250.00''"
  "trimmedText twoAmountsPage [0,0,3,0] = js ''Return''"
  "trimmedText twoAmountsPage [0,0,4] = [euro]"
  "trimmedText twoAmountsPage [0,0,5] = js ''500.00''"
  by (simp_all add: twoAmountsPage_def page_ev text_ev euro_def)

lemma twoAmountsPage_amountAfter:
  "amountAfter twoAmountsPage [[0,0,0,0],[0,0,Suc 0],[0,0,2],[0,0,3,0],[0,0,4],[0,0,5]] [euro] =
     Some (js ''1,250.00'')"
  by (simp add: amountAfter_def twoAmountsPage_texts amount_texts)

lemma combinedPage_paragraphs:
  "paragraphsOf combinedPage [0,0] = [[0,0,0],[0,0,Suc 0]]"
  "paragraphsOf combinedPage [0,Suc 0] = [[0,Suc 0,0],[0,Suc 0,Suc 0]]"
  by (simp_all add: combinedPage_def page_ev query_ev)

lemma combinedPage_texts:
  "trimmedText combinedPage [0,0,0] = js ''Deposit''"
  "trimmedText combinedPage [0,0,Suc 0] = js ''$300''"
  "trimmedText combinedPage [0,Suc 0,0] = js ''Deposit''"
  "trimmedText combinedPage [0,Suc 0,Suc 0] = js ''450''"
  by (simp_all add: combinedPage_def page_ev text_ev)

lemma numbersPage_deposits:
  "findElementsByText numbersPage tagP (js ''Deposit'') Document = [[0,0,0,0,0]]"
  by (simp add: findElementsByText_def numbersPage_def page_ev query_ev text_ev)

lemma numbersPage_text:
  "textAt numbersPage [0,0,0,0,0] = js ''Deposit''"
  "textAt numbersPage [0,0,0,0] = js ''Deposit''"
  "textAt numbersPage [0,0,0] = js ''Deposit''"
  "textAt numbersPage [0,0] = js ''Deposit12.50''"
  "textAt numbersPage [0] = js ''Deposit12.50''"
  "textAt numbersPage [] = js ''Deposit12.50''"
  by (simp_all add: numbersPage_def page_ev textAt_def)

lemma plain_texts:
  "trim (js ''Deposit'') = js ''Deposit''" "trim (js ''Deposit12.50'') = js ''Deposit12.50''"
  "\<not> str_includes (js ''Deposit'') [euro]" "\<not> str_includes (js ''Deposit'') [dollar]"
  "\<not> str_includes (js ''Deposit'') [pound]"
  "\<not> str_includes (js ''Deposit12.50'') [euro]" "\<not> str_includes (js ''Deposit12.50'') [dollar]"
  "\<not> str_includes (js ''Deposit12.50'') [pound]"
  "str_includes (js ''Deposit12.50'') (js ''Deposit'')"
  "str_includes (js ''Deposit'') (js ''Deposit'')"
  "\<not> str_includes (js ''Deposit'') (js ''Return'')"
  "\<not> hasNumbers (js ''Deposit'')" "hasNumbers (js ''Deposit12.50'')"
  "\<not> hasNumbers_rd (js ''Deposit'')" "\<not> hasNumbers_rd (js ''Deposit12.50'')"
  by (simp_all add: js_def trim_def isWhiteSpace_def char_ev)

lemma numbersPage_predicate:
  "\<not> containerPredicate hasNumbers numbersPage [0,0,0,0,0]"
  "\<not> containerPredicate hasNumbers numbersPage [0,0,0,0]"
  "\<not> containerPredicate hasNumbers numbersPage [0,0,0]"
  "containerPredicate hasNumbers numbersPage [0,0]"
  by (simp_all add: containerPredicate_def elementContainsText_def numbersPage_text
       CURRENCY_SYMBOLS_def plain_texts)

lemma numbersPage_predicate_rd:
  "\<not> containerPredicate hasNumbers_rd numbersPage [0,0,0,0,0]"
  "\<not> containerPredicate hasNumbers_rd numbersPage [0,0,0,0]"
  "\<not> containerPredicate hasNumbers_rd numbersPage [0,0,0]"
  "\<not> containerPredicate hasNumbers_rd numbersPage [0,0]"
  "\<not> containerPredicate hasNumbers_rd numbersPage [0]"
  "\<not> containerPredicate hasNumbers_rd numbersPage []"
  by (simp_all add: containerPredicate_def elementContainsText_def numbersPage_text
       CURRENCY_SYMBOLS_def plain_texts)

lemma numbersPage_selectors:
  "querySelectorAll numbersPage CONTAINERS Document = []"
  "querySelectorAll numbersPage CONTAINERS_rd Document = []"
  by (simp_all add: numbersPage_def page_ev query_ev CONTAINERS_def CONTAINERS_rd_def
       classList_def getAttribute_def)

lemma closePage_buttons:
  "querySelector closePage [Compound [IdSel (js ''closeModalButton'')]] Document = None"
  "querySelector closePage [Compound [ClassSel (js ''LEGACY_MODAL_closeButton'')]] Document = None"
  "querySelector closePage
     [Compound [TypeSel (js ''button''), AttrEquals (js ''role'') (js ''button'')]] Document = None"
  "querySelector closePage [Compound [AttrEquals (js ''aria-label'') (js ''Close'')]] Document =
     Some [0,0,0]"
  by (simp_all add: closePage_def el_def tx_def query_ev classList_def getAttribute_def)

lemma closePage_tables:
  "native_querySelectorAll closePage [Compound [TypeSel (js ''table'')]] Document = Inr []"
  by (simp add: closePage_def el_def tx_def native_querySelectorAll_def validGroup_def)

lemma dollarPage_paragraphs: "paragraphsOf dollarPage [0,0] = [[0,0,0],[0,0,Suc 0],[0,0,2]]"
  by (simp add: dollarPage_def page_ev query_ev)

lemma dollarPage_texts:
  "trimmedText dollarPage [0,0,0] = js ''Deposit''"
  "trimmedText dollarPage [0,0,Suc 0] = [dollar]"
  "trimmedText dollarPage [0,0,2] = js ''300.00''"
  by (simp_all add: dollarPage_def page_ev text_ev dollar_def)

lemma dollarPage_amountAfter:
  "amountAfter dollarPage [[0,0,0],[0,0,Suc 0],[0,0,2]] [euro] = None"
  "amountAfter dollarPage [[0,0,0],[0,0,Suc 0],[0,0,2]] [dollar] = Some (js ''300.00'')"
  by (simp_all add: amountAfter_def dollarPage_texts testAmount_def js_def char_ev)

lemma combinedPage_amountAfter:
  "amountAfter combinedPage [[0,0,0],[0,0,Suc 0]] [euro] = None"
  "amountAfter combinedPage [[0,0,0],[0,0,Suc 0]] [dollar] = None"
  "amountAfter combinedPage [[0,0,0],[0,0,Suc 0]] [pound] = None"
  "amountAfter combinedPage [[0,Suc 0,0],[0,Suc 0,Suc 0]] [euro] = None"
  "amountAfter combinedPage [[0,Suc 0,0],[0,Suc 0,Suc 0]] [dollar] = None"
  "amountAfter combinedPage [[0,Suc 0,0],[0,Suc 0,Suc 0]] [pound] = None"
  by (simp_all add: amountAfter_def combinedPage_texts)

lemma combinedPage_find:
  "find (\<lambda>p. testCombined (trimmedText combinedPage p)) [[0,0,0],[0,0,Suc 0]] = Some [0,0,Suc 0]"
  "find (\<lambda>p. testCombined (trimmedText combinedPage p)) [[0,Suc 0,0],[0,Suc 0,Suc 0]] =
     Some [0,Suc 0,Suc 0]"
  by (simp_all add: combinedPage_texts amount_texts)

lemma batchPage_selected: "querySelectorAll batchPage CONTAINERS Document = [[Suc 0,0],[Suc 0,Suc 0],[Suc 0,2]]"
  by (simp add: batchPage_def entry_def el_def tx_def query_ev CONTAINERS_def classList_def
        getAttribute_def js_def isAsciiSpace_def)

lemma matchCombined_dollar300: "matchCombined (js ''$300'') = Some ([dollar], js ''300'')"
  using matchCombined_examples(1) by (simp add: dollar_300)

lemma batchPage_container_texts:
  "trim (textAt batchPage [Suc 0,0]) = js ''DepositPaid'' @ euro # js ''1,250.00''"
  "trim (textAt batchPage [Suc 0,Suc 0]) = js ''DepositPaid$300''"
  "trim (textAt batchPage [Suc 0,2]) = js ''Deposit450''"
  by (simp_all add: batchPage_def entry_def page_ev text_ev euro_def)

lemma batchPage_includes:
  "str_includes (js ''DepositPaid'' @ euro # js ''1,250.00'') (js ''Deposit'')"
  "str_includes (js ''DepositPaid$300'') (js ''Deposit'')"
  "str_includes (js ''Deposit450'') (js ''Deposit'')"
  "\<not> str_includes (js ''DepositPaid'' @ euro # js ''1,250.00'') (js ''Return'')"
  "\<not> str_includes (js ''DepositPaid$300'') (js ''Return'')"
  "\<not> str_includes (js ''Deposit450'') (js ''Return'')"
  by (simp_all add: js_def euro_def)

lemma batchPage_containers: "findDepositContainers batchPage = [[Suc 0,0],[Suc 0,Suc 0],[Suc 0,2]]"
  by (simp add: findDepositContainers_def depositContainers_def batchPage_selected
        elementContainsText_def batchPage_container_texts batchPage_includes)

lemma batchPage_paragraphs:
  "paragraphsOf batchPage [Suc 0,0] = [[Suc 0,0,0,0],[Suc 0,0,Suc 0],[Suc 0,0,2]]"
  "paragraphsOf batchPage [Suc 0,Suc 0] = [[Suc 0,Suc 0,0,0],[Suc 0,Suc 0,Suc 0]]"
  "paragraphsOf batchPage [Suc 0,2] = [[Suc 0,2,0],[Suc 0,2,Suc 0]]"
  by (simp_all add: batchPage_def entry_def page_ev query_ev)

lemma batchPage_texts:
  "trimmedText batchPage [Suc 0,0,0,0] = js ''Deposit''"
  "trimmedText batchPage [Suc 0,0,Suc 0] = [euro]"
  "trimmedText batchPage [Suc 0,0,2] = js ''1,250.00''"
  "trimmedText batchPage [Suc 0,Suc 0,0,0] = js ''Deposit''"
  "trimmedText batchPage [Suc 0,Suc 0,Suc 0] = js ''$300''"
  "trimmedText batchPage [Suc 0,2,0] = js ''Deposit''"
  "trimmedText batchPage [Suc 0,2,Suc 0] = js ''450''"
  by (simp_all add: batchPage_def entry_def page_ev text_ev euro_def)

lemma batchPage_small:
  "querySelector batchPage tagSmall (Within [Suc 0,0,0]) = Some [Suc 0,0,0,Suc 0]"
  "trimmedText batchPage [Suc 0,0,0,Suc 0] = js ''Paid''"
  "querySelector batchPage tagSmall (Within [Suc 0,Suc 0,0]) = Some [Suc 0,Suc 0,0,Suc 0]"
  "trimmedText batchPage [Suc 0,Suc 0,0,Suc 0] = js ''Paid''"
  "querySelector batchPage tagSmall (Within [Suc 0,2]) = None"
  by (simp_all add: batchPage_def entry_def page_ev text_ev query_ev)

lemma batchPage_loops:
  "standaloneLoop batchPage [[Suc 0,0,0,0],[Suc 0,0,Suc 0],[Suc 0,0,2]] CURRENCY_SYMBOLS [] =
     Inr ([euro], js ''1,250.00'')"
  "standaloneLoop batchPage [[Suc 0,Suc 0,0,0],[Suc 0,Suc 0,Suc 0]] CURRENCY_SYMBOLS [] = Inr ([], [])"
  "standaloneLoop batchPage [[Suc 0,2,0],[Suc 0,2,Suc 0]] CURRENCY_SYMBOLS [] = Inr ([], [])"
  by (simp_all add: CURRENCY_SYMBOLS_def batchPage_texts at_def amount_texts)

lemma batchPage_combined:
  "combinedFormat batchPage [[Suc 0,Suc 0,0,0],[Suc 0,Suc 0,Suc 0]] ([], []) = ([dollar], js ''300'')"
  "combinedFormat batchPage [[Suc 0,2,0],[Suc 0,2,Suc 0]] ([], []) = ([], js ''450'')"
  by (simp_all add: combinedFormat_def batchPage_texts amount_texts matchCombined_dollar300
        matchCombined_examples orElse_def)

lemma batchPage_status:
  "labelStatus batchPage [[Suc 0,0,0,0],[Suc 0,0,Suc 0],[Suc 0,0,2]] (js ''Deposit'') = js ''Paid''"
  "labelStatus batchPage [[Suc 0,Suc 0,0,0],[Suc 0,Suc 0,Suc 0]] (js ''Deposit'') = js ''Paid''"
  "labelStatus batchPage [[Suc 0,2,0],[Suc 0,2,Suc 0]] (js ''Deposit'') = []"
  by (simp_all add: labelStatus_def batchPage_texts parentElement_def batchPage_small)

lemma batchPage_records:
  "extractDepositInfo batchPage [Suc 0,0] 1 = Inr deposit1"
  "extractDepositInfo batchPage [Suc 0,Suc 0] 2 = Inr deposit2"
  "extractDepositInfo batchPage [Suc 0,2] 3 = Inr deposit3"
proof -
  have l1: "standaloneLoop batchPage (paragraphsOf batchPage [Suc 0,0]) CURRENCY_SYMBOLS [] =
              Inr ([euro], js ''1,250.00'')"
    and l2: "standaloneLoop batchPage (paragraphsOf batchPage [Suc 0,Suc 0]) CURRENCY_SYMBOLS [] = Inr ([], [])"
    and l3: "standaloneLoop batchPage (paragraphsOf batchPage [Suc 0,2]) CURRENCY_SYMBOLS [] = Inr ([], [])"
    by (simp_all add: batchPage_paragraphs batchPage_loops)
  have c1: "combinedFormat batchPage (paragraphsOf batchPage [Suc 0,0]) ([euro], js ''1,250.00'') =
              ([euro], js ''1,250.00'')"
    by (rule combinedFormat_keep) simp
  have c2: "combinedFormat batchPage (paragraphsOf batchPage [Suc 0,Suc 0]) ([], []) = ([dollar], js ''300'')"
    and c3: "combinedFormat batchPage (paragraphsOf batchPage [Suc 0,2]) ([], []) = ([], js ''450'')"
    by (simp_all add: batchPage_paragraphs batchPage_combined)
  show "extractDepositInfo batchPage [Suc 0,0] 1 = Inr deposit1"
    by (simp add: extractDepositInfo_eq[OF l1 c1] deposit1_def batchPage_paragraphs batchPage_texts
          batchPage_status elementContainsText_def batchPage_container_texts batchPage_includes)
  show "extractDepositInfo batchPage [Suc 0,Suc 0] 2 = Inr deposit2"
    by (simp add: extractDepositInfo_eq[OF l2 c2] deposit2_def batchPage_paragraphs batchPage_texts
          batchPage_status elementContainsText_def batchPage_container_texts batchPage_includes)
  show "extractDepositInfo batchPage [Suc 0,2] 3 = Inr deposit3"
    by (simp add: extractDepositInfo_eq[OF l3 c3] deposit3_def batchPage_paragraphs batchPage_texts
          batchPage_status elementContainsText_def batchPage_container_texts batchPage_includes)
qed

lemma batchPage_deposits: "findAllDeposits batchPage = Inr [deposit1, deposit2, deposit3]"
  using batchPage_records
  by (simp add: findAllDeposits_def batchPage_containers eval_nat_numeral)

lemma batchPage_document:
  "documentHead batchPage = Some [0]" "documentBody batchPage = Some [Suc 0]"
  by (simp_all add: batchPage_def documentHead_def documentBody_def page_ev)

lemma example_reads:
  "readDetails failingPage deposit1 = Inr modal1"
  "readDetails failingPage deposit2 = Inl (ErrorObject (Some (js ''boom'')))"
  "readDetails failingPage deposit3 = Inl (Nullish JsNull)"
  "readDetails silentPage deposit1 = Inr modal1"
  "readDetails silentPage deposit2 = Inl (ErrorObject (Some []))"
  "readDetails silentPage deposit3 = Inr modal1"
  by (simp_all add: failingPage_def silentPage_def deposit1_def deposit2_def deposit3_def)

lemma example_indexes:
  "index deposit1 = Suc 0" "index deposit2 = 2" "index deposit3 = 3"
  by (simp_all add: deposit1_def deposit2_def deposit3_def)

lemma example_nullMessage: "typeErrorMessage failingPage JsNull (js ''message'') = nullMessage"
  by (simp add: failingPage_def exampleTypeErrorMessage_def nullMessage_def js_def)

lemma example_details: "getDepositDetails failingPage deposit1 = Inr details1"
  by (simp add: getDepositDetails_def example_reads details1_def)

lemma example_cells:
  "join [comma] (map (csvCell \<circ> snd) (exportRow details1)) = exampleLine"
  by (simp add: details1_def fullDetails_def exportRow_def listInfoOf_def deposit1_def modal1_def
        quotedNote_def orDefault_def removeCommas_def doubleQuotes_def USER_def
        TIMESTAMP_current_def exampleLine_def js_def char_ev decimal_digit)

lemma example_texts: "map (cellText \<circ> snd) (exportRow details1) = exampleRecord"
  by (simp add: details1_def fullDetails_def exportRow_def listInfoOf_def deposit1_def modal1_def
        quotedNote_def orDefault_def removeCommas_def USER_def exampleRecord_def
        TIMESTAMP_current_def js_def char_ev decimal_digit)

lemma example_header: "join [comma] EXPORT_FIELDS = exampleHeader"
  by (simp add: EXPORT_FIELDS_def exampleHeader_def js_def comma_def)

lemma nonReturnablePage_selectors:
  "querySelectorAll nonReturnablePage CONTAINERS Document = []"
  "querySelectorAll nonReturnablePage CONTAINERS_rd Document = []"
  by (simp_all add: nonReturnablePage_def page_ev query_ev CONTAINERS_def CONTAINERS_rd_def
       classList_def getAttribute_def)

lemma nonReturnablePage_deposits:
  "findElementsByText nonReturnablePage tagP (js ''Deposit'') Document = [[Suc 0,0,0]]"
  by (simp add: findElementsByText_def nonReturnablePage_def page_ev query_ev text_ev)

lemma nonReturnablePage_text:
  "textAt nonReturnablePage [Suc 0,0,0] = js ''Deposit''"
  "textAt nonReturnablePage [Suc 0,0] = js ''DepositNon-Returnable$20''"
  by (simp_all add: nonReturnablePage_def page_ev textAt_def)

lemma nonReturnable_texts:
  "trim (js ''DepositNon-Returnable$20'') = js ''DepositNon-Returnable$20''"
  "str_includes (js ''DepositNon-Returnable$20'') (js ''Deposit'')"
  "str_includes (js ''DepositNon-Returnable$20'') [dollar]"
  "str_includes (js ''DepositNon-Returnable$20'') (js ''Return'')"
  by (simp_all add: js_def trim_def isWhiteSpace_def char_ev)

lemma nonReturnablePage_predicate:
  "\<not> containerPredicate hasNumbers nonReturnablePage [Suc 0,0,0]"
  "containerPredicate hasNumbers nonReturnablePage [Suc 0,0]"
  "\<not> containerPredicate hasNumbers_rd nonReturnablePage [Suc 0,0,0]"
  "containerPredicate hasNumbers_rd nonReturnablePage [Suc 0,0]"
  by (simp_all add: containerPredicate_def elementContainsText_def nonReturnablePage_text
       CURRENCY_SYMBOLS_def plain_texts nonReturnable_texts)

lemma nonReturnablePage_containers:
  "findDepositContainers nonReturnablePage = [[Suc 0,0]]"
  "findDepositContainers_rd nonReturnablePage = [[Suc 0,0]]"
  by (simp_all add: findDepositContainers_def findDepositContainers_rd_def depositContainers_def
        nonReturnablePage_selectors genericContainers_def nonReturnablePage_deposits
        findAncestor_def eval_nat_numeral nonReturnablePage_predicate parentElement_def)

lemma nonReturnablePage_paragraphs:
  "paragraphsOf nonReturnablePage [Suc 0,0] = [[Suc 0,0,0],[Suc 0,0,2]]"
  by (simp add: nonReturnablePage_def page_ev query_ev)

lemma nonReturnablePage_texts:
  "trimmedText nonReturnablePage [Suc 0,0,0] = js ''Deposit''"
  "trimmedText nonReturnablePage [Suc 0,0,2] = js ''$20''"
  "trimmedText nonReturnablePage [Suc 0,0,Suc 0] = js ''Non-Returnable''"
  by (simp_all add: nonReturnablePage_def page_ev text_ev)

lemma nonReturnablePage_small:
  "querySelector nonReturnablePage tagSmall (Within [Suc 0,0]) = Some [Suc 0,0,Suc 0]"
  by (simp add: nonReturnablePage_def page_ev query_ev)

lemma twenty_texts:
  "js ''$20'' \<noteq> [euro]" "js ''$20'' \<noteq> [dollar]" "js ''$20'' \<noteq> [pound]"
  "js ''$20'' \<noteq> js ''Return''" "js ''$20'' \<noteq> js ''Deposit''"
  "testCombined (js ''$20'')" "matchCombined (js ''$20'') = Some ([dollar], js ''20'')"
  by (simp_all add: testCombined_def matchCombined_def js_def char_ev isWhiteSpace_def)

lemma nonReturnablePage_amounts:
  "standaloneLoop nonReturnablePage [[Suc 0,0,0],[Suc 0,0,2]] CURRENCY_SYMBOLS [] = Inr ([], [])"
  "combinedFormat nonReturnablePage [[Suc 0,0,0],[Suc 0,0,2]] ([], []) = ([dollar], js ''20'')"
  by (simp_all add: CURRENCY_SYMBOLS_def nonReturnablePage_texts twenty_texts amount_texts
        combinedFormat_def orElse_def)

lemma nonReturnablePage_status:
  "labelStatus nonReturnablePage [[Suc 0,0,0],[Suc 0,0,2]] (js ''Deposit'') = js ''Non-Returnable''"
  "labelStatus nonReturnablePage [[Suc 0,0,0],[Suc 0,0,2]] (js ''Return'') = []"
  by (simp_all add: labelStatus_def nonReturnablePage_texts twenty_texts parentElement_def
        nonReturnablePage_small)

section \<open>The claims\<close>

subsection \<open>C1: the returned flag and the return status\<close>

text \<open>
  Claim C1 says that \<open>hasBeenReturned\<close> is true exactly when \<open>returnStatus\<close> is
  \<open>Invoiced\<close>.  return-detector.js, in its block marked \<open>FIXED RETURN DETECTION\<close>, does
  so (lemma \<open>return_detector_flag_iff_Invoiced\<close>).  script-demo.js sets the flag as soon
  as a "Return" label is present: for the entry of \<open>returnPage\<close>, whose return status is
  \<open>Pending invoice\<close>, its record has \<open>hasBeenReturned = true\<close>, while the record of
  return-detector.js for the same container has \<open>false\<close>.
\<close>

theorem script_demo_flags_pending_return:
  "extractDepositInfo returnPage [0, 0] 1 =
     Inr \<lparr> amount = js ''1,250.00'', currency = [euro], depositStatus = js ''Paid'',
           hasBeenReturned = True, returnStatus = js ''Pending invoice'',
           index = 1, type = js ''Deposit'', element = [0, 0] \<rparr> \<and>
   (\<exists>r. extractDepositInfo_rd serialize returnPage [0, 0] 1 = Inr r \<and>
        \<not> hasBeenReturned r \<and> returnStatus r = js ''Pending invoice'')"
proof -
  let ?ps = "[[0,0,0,0],[0,0,Suc 0],[0,0,2],[0,0,3,0]]"
  have loop: "standaloneLoop returnPage (paragraphsOf returnPage [0,0]) CURRENCY_SYMBOLS [] =
                Inr ([euro], js ''1,250.00'')"
    unfolding returnPage_paragraphs
    by (rule standaloneLoop_first) (simp_all add: CURRENCY_SYMBOLS_def returnPage_amountAfter)
  have comb: "combinedFormat returnPage (paragraphsOf returnPage [0,0]) ([euro], js ''1,250.00'') =
                ([euro], js ''1,250.00'')"
    by (rule combinedFormat_keep) simp
  obtain b st where ret: "returnDetection returnPage (paragraphsOf returnPage [0,0]) = Inr (b, st)"
    "b \<longleftrightarrow> st = js ''Invoiced''" "st = labelStatus returnPage (paragraphsOf returnPage [0,0]) (js ''Return'')"
    using returnDetection_result[of returnPage "paragraphsOf returnPage [0,0]"] by blast
  have st: "st = js ''Pending invoice''" "\<not> b"
    using ret(2,3) by (simp_all add: returnPage_paragraphs returnPage_status)
  show ?thesis
    by (simp add: extractDepositInfo_eq[OF loop comb] extractDepositInfo_rd_eq[OF loop comb ret(1)]
          returnPage_paragraphs returnPage_texts returnPage_status st)
qed

subsection \<open>C2: the generic search for containers\<close>

text \<open>
  Claim C2 describes the fallback of the container search; its example is a "Deposit"
  paragraph whose third ancestor holds "Deposit" and a number.  \<open>numbersPage\<close> is such a
  page: the fixed selectors match nothing, there is one "Deposit" paragraph, and its third
  ancestor, the \<open>div\<close> at \<open>[0, 0]\<close>, has the text \<open>Deposit12.50\<close>.  script-demo.js returns
  that ancestor as the only container.  return-detector.js returns no container: its
  numeric pattern is written with doubled backslashes and asks for literal backslashes in
  the text (lemma \<open>hasNumbers_rd_needs_backslash\<close>).
\<close>

theorem return_detector_misses_numeric_container:
  "querySelectorAll numbersPage CONTAINERS_rd Document = [] \<and>
   findElementsByText numbersPage tagP (js ''Deposit'') Document = [[0, 0, 0, 0, 0]] \<and>
   elementContainsText numbersPage [0, 0] (js ''Deposit'') \<and>
   hasNumbers (textAt numbersPage [0, 0]) \<and>
   findDepositContainers numbersPage = [[0, 0]] \<and>
   findDepositContainers_rd numbersPage = []"
proof -
  have demo: "findDepositContainers numbersPage = [[0, 0]]"
    using genericContainers_third[of numbersPage "[0,0,0,0,0]" hasNumbers]
    by (simp add: findDepositContainers_def depositContainers_def numbersPage_selectors
          numbersPage_deposits numbersPage_predicate)
  have rd: "findDepositContainers_rd numbersPage = []"
    by (simp add: findDepositContainers_rd_def depositContainers_def numbersPage_selectors
          genericContainers_def numbersPage_deposits findAncestor_def eval_nat_numeral
          numbersPage_predicate_rd parentElement_def)
  show ?thesis
    by (simp add: demo rd numbersPage_selectors numbersPage_deposits elementContainsText_def
          numbersPage_text plain_texts)
qed

subsection \<open>C3: a failing detail read does not end the batch\<close>

text \<open>
  Claim C3, as amended.  Take a page with a \<open>body\<close> on which \<open>findAllDeposits\<close> finds
  \<open>N \<ge> 1\<close> deposits, and a run that starts with a complete overlay, or with none on a page
  that has a \<open>head\<close>.  Then, whatever the detail reads throw, \<open>exportAllDepositData\<close>
  returns the success object with exactly \<open>N\<close> rows, in the order of the deposits.  The
  row of a deposit whose detail read succeeds has an empty \<open>errorMessage\<close>.  The row of a
  deposit whose detail read throws has as \<open>errorMessage\<close> the \<open>message\<close> of the thrown value
  (the empty string if it has none), and, if \<open>null\<close> or \<open>undefined\<close> was thrown, the message
  of the \<open>TypeError\<close> that reading its \<open>message\<close> raises.  So the failing row has a non-empty
  \<open>errorMessage\<close> exactly when that message is not empty, and the run goes on to the
  remaining records.
\<close>

theorem export_continues_after_failure:
  assumes "findAllDeposits doc = Inr deposits" and "deposits \<noteq> []"
    and "documentBody doc \<noteq> None"
    and "ov = CompleteOverlay \<or> (ov = NoOverlay \<and> documentHead doc \<noteq> None)"
  shows "\<exists>rows. exportAllDepositData pg ov doc =
                  Exported (length deposits) (generateFilename (js ''csv''))
                    (generateFilename (js ''json'')) rows (toCSV rows) \<and>
                length rows = length deposits \<and>
                (\<forall>i<length deposits.
                   property (rows ! i) (js ''index'') = JNumber (index (deposits ! i)) \<and>
                   property (rows ! i) (js ''errorMessage'') =
                     JString (case readDetails pg (deposits ! i) of
                                Inr modal \<Rightarrow> []
                              | Inl (Nullish v) \<Rightarrow> typeErrorMessage pg v (js ''message'')
                              | Inl (ErrorObject msg) \<Rightarrow>
                                  (case msg of Some m \<Rightarrow> m | None \<Rightarrow> [])))"
proof -
  let ?rows = "formatForExport (map (recordedDetails pg) deposits)"
  have run: "exportAllDepositData pg ov doc =
               Exported (length deposits) (generateFilename (js ''csv''))
                 (generateFilename (js ''json'')) ?rows (toCSV ?rows)"
    by (rule export_succeeds[OF assms])
  have len: "length ?rows = length deposits" by (simp add: formatForExport_def)
  have cells: "property (?rows ! i) (js ''index'') = JNumber (index (deposits ! i)) \<and>
               property (?rows ! i) (js ''errorMessage'') =
                 JString (case readDetails pg (deposits ! i) of
                            Inr modal \<Rightarrow> []
                          | Inl (Nullish v) \<Rightarrow> typeErrorMessage pg v (js ''message'')
                          | Inl (ErrorObject msg) \<Rightarrow>
                              (case msg of Some m \<Rightarrow> m | None \<Rightarrow> []))"
    if "i < length deposits" for i
    using that by (simp add: formatForExport_def index_row errorMessage_row)
  from run len cells show ?thesis by blast
qed

text \<open>Witness for C3: the three deposits found on \<open>batchPage\<close>, which has a head and a
  body; the detail read of the second throws an error with the message \<open>boom\<close> and that
  of the third throws \<open>null\<close>.  The first run exports three rows; the first has no
  \<open>errorMessage\<close>, the second has \<open>boom\<close> and the third the message of the \<open>TypeError\<close>.\<close>

theorem export_continues_after_failure_witness:
  "findAllDeposits batchPage = Inr [deposit1, deposit2, deposit3] \<and>
   [deposit1, deposit2, deposit3] \<noteq> [] \<and>
   documentBody batchPage \<noteq> None \<and> documentHead batchPage \<noteq> None \<and>
   readDetails failingPage deposit1 = Inr modal1 \<and>
   readDetails failingPage deposit2 = Inl (ErrorObject (Some (js ''boom''))) \<and>
   readDetails failingPage deposit3 = Inl (Nullish JsNull) \<and>
   (\<exists>rows. exportAllDepositData failingPage NoOverlay batchPage =
             Exported 3 (generateFilename (js ''csv'')) (generateFilename (js ''json''))
               rows (toCSV rows) \<and>
           length rows = 3 \<and>
           map (\<lambda>row. property row (js ''index'')) rows = [JNumber 1, JNumber 2, JNumber 3] \<and>
           map (\<lambda>row. property row (js ''errorMessage'')) rows =
             [JString [], JString (js ''boom''), JString nullMessage])"
proof -
  have ne: "[deposit1, deposit2, deposit3] \<noteq> []" by simp
  have body: "documentBody batchPage \<noteq> None" and head: "documentHead batchPage \<noteq> None"
    by (simp_all add: batchPage_document)
  have first: "NoOverlay = CompleteOverlay \<or> (NoOverlay = NoOverlay \<and> documentHead batchPage \<noteq> None)"
    using head by simp
  from export_continues_after_failure[OF batchPage_deposits ne body first, of failingPage]
  obtain rows where
    run: "exportAllDepositData failingPage NoOverlay batchPage =
            Exported (length [deposit1, deposit2, deposit3]) (generateFilename (js ''csv''))
              (generateFilename (js ''json'')) rows (toCSV rows)"
    and len: "length rows = length [deposit1, deposit2, deposit3]"
    and cells: "\<forall>i<length [deposit1, deposit2, deposit3].
                  property (rows ! i) (js ''index'') =
                    JNumber (index ([deposit1, deposit2, deposit3] ! i)) \<and>
                  property (rows ! i) (js ''errorMessage'') =
                    JString (case readDetails failingPage ([deposit1, deposit2, deposit3] ! i) of
                               Inr modal \<Rightarrow> []
                             | Inl (Nullish v) \<Rightarrow> typeErrorMessage failingPage v (js ''message'')
                             | Inl (ErrorObject msg) \<Rightarrow>
                                 (case msg of Some m \<Rightarrow> m | None \<Rightarrow> []))"
    by blast
  from len obtain a b c where abc: "rows = [a, b, c]"
    by (auto simp: length_Suc_conv numeral_3_eq_3)
  from cells[rule_format, of 0] cells[rule_format, of 1] cells[rule_format, of 2] have
    "map (\<lambda>row. property row (js ''index'')) rows = [JNumber 1, JNumber 2, JNumber 3] \<and>
     map (\<lambda>row. property row (js ''errorMessage'')) rows =
       [JString [], JString (js ''boom''), JString nullMessage]"
    unfolding abc
    by (simp add: example_reads example_nullMessage example_indexes)
  with run len have
    "\<exists>rows. exportAllDepositData failingPage NoOverlay batchPage =
             Exported 3 (generateFilename (js ''csv'')) (generateFilename (js ''json''))
               rows (toCSV rows) \<and>
           length rows = 3 \<and>
           map (\<lambda>row. property row (js ''index'')) rows = [JNumber 1, JNumber 2, JNumber 3] \<and>
           map (\<lambda>row. property row (js ''errorMessage'')) rows =
             [JString [], JString (js ''boom''), JString nullMessage]"
    by (intro exI[of _ rows]) simp
  with batchPage_deposits ne body head example_reads(1,2,3) show ?thesis by simp
qed

text \<open>Counterexample to C3 as stated: on \<open>batchPage\<close> the detail read of the second deposit
  throws an error whose message is empty (\<open>new Error()\<close>) and the other two reads succeed.
  The export has its three rows, and the row of the failing record has an empty
  \<open>errorMessage\<close>, like the others.\<close>

theorem failing_record_empty_errorMessage:
  "findAllDeposits batchPage = Inr [deposit1, deposit2, deposit3] \<and>
   readDetails silentPage deposit1 = Inr modal1 \<and>
   readDetails silentPage deposit2 = Inl (ErrorObject (Some [])) \<and>
   readDetails silentPage deposit3 = Inr modal1 \<and>
   (\<exists>rows. exportAllDepositData silentPage NoOverlay batchPage =
             Exported 3 (generateFilename (js ''csv'')) (generateFilename (js ''json''))
               rows (toCSV rows) \<and>
           map (\<lambda>row. property row (js ''errorMessage'')) rows =
             [JString [], JString [], JString []])"
proof -
  have first: "NoOverlay = CompleteOverlay \<or> (NoOverlay = NoOverlay \<and> documentHead batchPage \<noteq> None)"
    by (simp add: batchPage_document)
  have body: "documentBody batchPage \<noteq> None" by (simp add: batchPage_document)
  have run: "exportAllDepositData silentPage NoOverlay batchPage =
      Exported 3 (generateFilename (js ''csv'')) (generateFilename (js ''json''))
        (formatForExport (map (recordedDetails silentPage) [deposit1, deposit2, deposit3]))
        (toCSV (formatForExport (map (recordedDetails silentPage) [deposit1, deposit2, deposit3])))"
    using export_succeeds[OF batchPage_deposits _ body first, of silentPage] by simp
  have cells: "map (\<lambda>row. property row (js ''errorMessage''))
                 (formatForExport (map (recordedDetails silentPage) [deposit1, deposit2, deposit3])) =
               [JString [], JString [], JString []]"
    by (simp add: formatForExport_def errorMessage_row example_reads)
  have "\<exists>rows. exportAllDepositData silentPage NoOverlay batchPage =
             Exported 3 (generateFilename (js ''csv'')) (generateFilename (js ''json''))
               rows (toCSV rows) \<and>
           map (\<lambda>row. property row (js ''errorMessage'')) rows =
             [JString [], JString [], JString []]"
    by (rule exI[of _ "formatForExport (map (recordedDetails silentPage)
                         [deposit1, deposit2, deposit3])"]) (simp only: run cells simp_thms)
  with batchPage_deposits example_reads(4,5,6) show ?thesis by simp
qed

subsection \<open>C4: extraction never raises\<close>

text \<open>
  Claim C4 says that a container without an exact "Return" paragraph gives a false
  \<open>hasBeenReturned\<close>.  The container of \<open>nonReturnablePage\<close> is found by the container
  search of both files.  Its paragraphs are "Deposit" and \<open>$20\<close>, and the status beside
  "Deposit" is \<open>Non-Returnable\<close>; there is no "Return" paragraph.  return-detector.js
  returns a record with \<open>hasBeenReturned = false\<close>.  script-demo.js raises nothing either,
  but its record has \<open>hasBeenReturned = true\<close>, because the text of the container contains
  "Return": this is the presence test of claim C1 again.  The rest of the claim holds in
  both files (lemma \<open>extraction_returns_record\<close>).
\<close>

theorem script_demo_flags_entry_without_return_label:
  "findDepositContainers nonReturnablePage = [[1, 0]] \<and>
   findDepositContainers_rd nonReturnablePage = [[1, 0]] \<and>
   map (trimmedText nonReturnablePage) (paragraphsOf nonReturnablePage [1, 0]) =
     [js ''Deposit'', js ''$20''] \<and>
   extractDepositInfo nonReturnablePage [1, 0] 1 =
     Inr \<lparr> amount = js ''20'', currency = [dollar], depositStatus = js ''Non-Returnable'',
           hasBeenReturned = True, returnStatus = [],
           index = 1, type = js ''Deposit'', element = [1, 0] \<rparr> \<and>
   (\<exists>r. extractDepositInfo_rd serialize nonReturnablePage [1, 0] 1 = Inr r \<and>
        amount r = js ''20'' \<and> currency r = [dollar] \<and>
        depositStatus r = js ''Non-Returnable'' \<and>
        \<not> hasBeenReturned r \<and> returnStatus r = [])"
proof -
  have loop: "standaloneLoop nonReturnablePage (paragraphsOf nonReturnablePage [Suc 0,0])
                CURRENCY_SYMBOLS [] = Inr ([], [])"
    by (simp add: nonReturnablePage_paragraphs nonReturnablePage_amounts)
  have comb: "combinedFormat nonReturnablePage (paragraphsOf nonReturnablePage [Suc 0,0]) ([], []) =
                ([dollar], js ''20'')"
    by (simp add: nonReturnablePage_paragraphs nonReturnablePage_amounts)
  obtain b st where ret: "returnDetection nonReturnablePage (paragraphsOf nonReturnablePage [Suc 0,0]) =
                            Inr (b, st)"
    "b \<longleftrightarrow> st = js ''Invoiced''"
    "st = labelStatus nonReturnablePage (paragraphsOf nonReturnablePage [Suc 0,0]) (js ''Return'')"
    using returnDetection_result[of nonReturnablePage "paragraphsOf nonReturnablePage [Suc 0,0]"]
    by blast
  have st: "st = []" "\<not> b"
    using ret(2,3) by (simp_all add: nonReturnablePage_paragraphs nonReturnablePage_status)
  have demo: "extractDepositInfo nonReturnablePage [Suc 0, 0] 1 =
     Inr \<lparr> amount = js ''20'', currency = [dollar], depositStatus = js ''Non-Returnable'',
           hasBeenReturned = True, returnStatus = [],
           index = 1, type = js ''Deposit'', element = [Suc 0, 0] \<rparr>"
    by (simp add: extractDepositInfo_eq[OF loop comb] nonReturnablePage_paragraphs
          nonReturnablePage_texts nonReturnablePage_status twenty_texts elementContainsText_def
          nonReturnablePage_text nonReturnable_texts)
  have rd: "\<exists>r. extractDepositInfo_rd serialize nonReturnablePage [Suc 0, 0] 1 = Inr r \<and>
        amount r = js ''20'' \<and> currency r = [dollar] \<and>
        depositStatus r = js ''Non-Returnable'' \<and>
        \<not> hasBeenReturned r \<and> returnStatus r = []"
    by (simp add: extractDepositInfo_rd_eq[OF loop comb ret(1)] nonReturnablePage_paragraphs
          nonReturnablePage_status st)
  have texts: "map (trimmedText nonReturnablePage) (paragraphsOf nonReturnablePage [Suc 0, 0]) =
     [js ''Deposit'', js ''$20'']"
    by (simp add: nonReturnablePage_paragraphs nonReturnablePage_texts)
  from demo rd texts nonReturnablePage_containers show ?thesis by simp
qed

subsection \<open>C5: quoting in the CSV and reading it back\<close>

text \<open>
  Claim C5.  The text that \<open>toCSV\<close> writes for the rows of \<open>formatForExport\<close> is the line
  of the field names and one line for every row, with one cell for each field in the
  order of the names; the cell of a string field is a double quote, the string with each
  double quote doubled, and a double quote.  A reader of delimited text reads this text
  back as the record of the field names followed by one record for every row, whose
  fields are the texts of the row's values under these names: for a string field, the
  original string exactly, whatever double quotes, commas and line breaks it holds.  The
  same is true of \<open>toCSV\<close> for rows of any kind whose field names can stand in a header
  without quotes.
\<close>

theorem csv_round_trip:
  "toCSV (formatForExport (d # ds)) =
     join [comma] EXPORT_FIELDS @ [newline] @
     concat (map (\<lambda>x. csvLine EXPORT_FIELDS (exportRow x)) (d # ds)) \<and>
   csvLine EXPORT_FIELDS (exportRow d) =
     join [comma] (map (\<lambda>name. csvCell (property (exportRow d) name)) EXPORT_FIELDS) @
     [newline] \<and>
   (\<forall>name s. (name, JString s) \<in> set (exportRow d) \<longrightarrow>
      name \<in> set EXPORT_FIELDS \<and>
      csvCell (property (exportRow d) name) = [dquote] @ doubleQuotes s @ [dquote] \<and>
      cellText (property (exportRow d) name) = s) \<and>
   doubleQuotes s = concat (map (\<lambda>c. if c = dquote then [dquote, dquote] else [c]) s) \<and>
   readAll (toCSV (formatForExport (d # ds))) =
     Some (EXPORT_FIELDS #
           map (\<lambda>x. map (\<lambda>name. cellText (property (exportRow x) name)) EXPORT_FIELDS)
             (d # ds)) \<and>
   (\<forall>first others. list_all plainName (map fst first) \<and> map fst first \<noteq> [] \<longrightarrow>
      readAll (toCSV (first # others)) =
        Some (map fst first #
              map (\<lambda>item. map (\<lambda>header. cellText (property item header)) (map fst first))
                (first # others)))"
proof -
  have line: "csvLine EXPORT_FIELDS (exportRow d) =
     join [comma] (map (\<lambda>name. csvCell (property (exportRow d) name)) EXPORT_FIELDS) @
     [newline]"
    by (simp add: csvLine_def)
  have csv: "toCSV (formatForExport (d # ds)) =
     join [comma] EXPORT_FIELDS @ [newline] @
     concat (map (\<lambda>x. csvLine EXPORT_FIELDS (exportRow x)) (d # ds))"
    by (simp add: toCSV_def formatForExport_def keys_exportRow comp_def)
  have field: "name \<in> set EXPORT_FIELDS \<and>
      csvCell (property (exportRow d) name) = [dquote] @ doubleQuotes s @ [dquote] \<and>
      cellText (property (exportRow d) name) = s"
    if "(name, JString s) \<in> set (exportRow d)" for name s
  proof -
    from that have "name \<in> fst ` set (exportRow d)" by force
    then have "name \<in> set (map fst (exportRow d))" by simp
    then have "name \<in> set EXPORT_FIELDS" by (simp only: keys_exportRow)
    then show ?thesis using property_exportRow[OF that] by simp
  qed
  have general: "readAll (toCSV (first # others)) =
        Some (map fst first #
              map (\<lambda>item. map (\<lambda>header. cellText (property item header)) (map fst first))
                (first # others))"
    if "list_all plainName (map fst first) \<and> map fst first \<noteq> []" for first others
    using readAll_toCSV[of "first # others" first others] that by simp
  have all: "readAll (toCSV (formatForExport (d # ds))) =
     Some (EXPORT_FIELDS #
           map (\<lambda>x. map (\<lambda>name. cellText (property (exportRow x) name)) EXPORT_FIELDS)
             (d # ds))"
    using readAll_export[of d ds] by (simp add: texts_exportRow)
  have dq: "doubleQuotes s = concat (map (\<lambda>c. if c = dquote then [dquote, dquote] else [c]) s)"
    by (simp add: doubleQuotes_def)
  from csv line field dq all general show ?thesis by blast
qed

text \<open>Witness for C5: the export of the first example deposit with the example form
  values, whose note is \<open>He said "hi"\<close>.  The cell of the note is \<open>"He said ""hi"""\<close>,
  and the reader gets the note back, as the tenth field of the second record, from the
  text of the file.  The same for a file with the note as its only field.\<close>

theorem csv_round_trip_witness:
  \<open>(js ''note'', JString quotedNote) \<in> set (exportRow details1) \<and>
   csvCell (property (exportRow details1) (js ''note'')) = js ''"He said ""hi"""'' \<and>
   toCSV (formatForExport [details1]) = exampleHeader @ [newline] @ exampleLine @ [newline] \<and>
   readAll (exampleHeader @ [newline] @ exampleLine @ [newline]) =
     Some [EXPORT_FIELDS, exampleRecord] \<and>
   EXPORT_FIELDS ! 9 = js ''note'' \<and> exampleRecord ! 9 = quotedNote \<and>
   list_all plainName (map fst [(js ''note'', JString quotedNote)]) \<and>
   map fst [(js ''note'', JString quotedNote)] \<noteq> [] \<and>
   toCSV [[(js ''note'', JString quotedNote)]] =
     js ''note'' @ [newline] @ js ''"He said ""hi"""'' @ [newline] \<and>
   readAll (js ''note'' @ [newline] @ js ''"He said ""hi"""'' @ [newline]) =
     Some [[js ''note''], [quotedNote]]\<close>
proof -
  note main = csv_round_trip[of details1 "[]" quotedNote]
  note whole = main[THEN conjunct1]
  note line = main[THEN conjunct2, THEN conjunct1]
  note cells = main[THEN conjunct2, THEN conjunct2, THEN conjunct1]
  note reread = main[THEN conjunct2, THEN conjunct2, THEN conjunct2, THEN conjunct2, THEN conjunct1]
  note general = main[THEN conjunct2, THEN conjunct2, THEN conjunct2, THEN conjunct2,
                   THEN conjunct2]
  have note9: "(js ''note'', JString quotedNote) \<in> set (exportRow details1)"
    by (simp add: details1_def fullDetails_def exportRow_def modal1_def orDefault_def
          quotedNote_def js_def)
  have quoted: \<open>[dquote] @ doubleQuotes quotedNote @ [dquote] = js ''"He said ""hi"""''\<close>
    by (simp add: quotedNote_def doubleQuotes_def js_def dquote_def)
  from cells[rule_format, OF note9]
  have cell: \<open>csvCell (property (exportRow details1) (js ''note'')) = js ''"He said ""hi"""''\<close>
    unfolding quoted by simp
  have csv: "toCSV (formatForExport [details1]) =
      exampleHeader @ [newline] @ exampleLine @ [newline]"
    unfolding whole by (simp add: line example_header example_cells cells_exportRow)
  from reread have again: "readAll (exampleHeader @ [newline] @ exampleLine @ [newline]) =
      Some [EXPORT_FIELDS, exampleRecord]"
    unfolding csv by (simp add: example_texts texts_exportRow)
  have tenth: "EXPORT_FIELDS ! 9 = js ''note''" "exampleRecord ! 9 = quotedNote"
    by (simp_all add: exampleRecord_def EXPORT_FIELDS_def)
  have plain: "list_all plainName (map fst [(js ''note'', JString quotedNote)])"
    "map fst [(js ''note'', JString quotedNote)] \<noteq> []"
    by (simp_all add: plainName_def js_def comma_def newline_def dquote_def)
  have one: \<open>toCSV [[(js ''note'', JString quotedNote)]] =
      js ''note'' @ [newline] @ js ''"He said ""hi"""'' @ [newline]\<close>
    using quoted by (simp add: toCSV_def csvLine_def property_def)
  from general[rule_format, of "[(js ''note'', JString quotedNote)]" "[]"] plain
  have "readAll (toCSV [[(js ''note'', JString quotedNote)]]) =
      Some [[js ''note''], [quotedNote]]"
    by (simp add: property_def)
  then have small: \<open>readAll (js ''note'' @ [newline] @ js ''"He said ""hi"""'' @ [newline]) =
      Some [[js ''note''], [quotedNote]]\<close>
    unfolding one .
  from note9 cell csv again tenth plain one small show ?thesis by simp
qed

subsection \<open>C6: the exported amount has no commas\<close>

text \<open>
  Claim C6.  For every record handed to \<open>formatForExport\<close>, the \<open>amount\<close> of the row is the
  list amount with every comma removed (and empty without \<open>listInfo\<close>).  For a deposit
  that went through \<open>getDepositDetails\<close>, and for one whose record the \<open>catch\<close> of the export
  loop built, this is the extracted amount without its commas, while \<open>listInfo\<close> still
  holds the extracted string as it was; \<open>1,250.00\<close> becomes \<open>1250.00\<close>.  So the amounts in
  the rows of every export that succeeds are the extracted amounts of the deposits found
  on the page, in their order, without commas.
\<close>

theorem export_amount_without_commas:
  "property (exportRow d) (js ''amount'') =
     JString (case listInfo d of None \<Rightarrow> [] | Some li \<Rightarrow> removeCommas (amount li)) \<and>
   (\<forall>details. getDepositDetails pg deposit = Inr details \<longrightarrow>
      property (exportRow details) (js ''amount'') = JString (removeCommas (amount deposit)) \<and>
      map_option amount (listInfo details) = Some (amount deposit)) \<and>
   property (exportRow (partialDetails deposit msg)) (js ''amount'') =
     JString (removeCommas (amount deposit)) \<and>
   map_option amount (listInfo (partialDetails deposit msg)) = Some (amount deposit) \<and>
   (\<forall>n f1 f2 rows csv.
      exportAllDepositData pg ov doc = Exported n f1 f2 rows csv \<longrightarrow>
      (\<exists>deposits. findAllDeposits doc = Inr deposits \<and>
         map (\<lambda>row. property row (js ''amount'')) rows =
           map (\<lambda>d. JString (removeCommas (amount d))) deposits)) \<and>
   map (\<lambda>row. property row (js ''amount'')) (formatForExport ds) =
     map (\<lambda>d. JString (case listInfo d of None \<Rightarrow> [] | Some li \<Rightarrow> removeCommas (amount li))) ds \<and>
   removeCommas s = filter (\<lambda>c. c \<noteq> comma) s \<and>
   comma \<notin> set (removeCommas s) \<and>
   removeCommas (js ''1,250.00'') = js ''1250.00''"
proof -
  have a: "property (exportRow details) (js ''amount'') = JString (removeCommas (amount deposit)) \<and>
           map_option amount (listInfo details) = Some (amount deposit)"
    if "getDepositDetails pg deposit = Inr details" for details
    using listInfo_getDepositDetails[OF that] by (simp add: property_amount listInfoOf_def)
  have b: "property (exportRow (partialDetails deposit msg)) (js ''amount'') =
             JString (removeCommas (amount deposit))"
    "map_option amount (listInfo (partialDetails deposit msg)) = Some (amount deposit)"
    by (simp_all add: property_amount partialDetails_def listInfoOf_def)
  have c: "\<exists>deposits. findAllDeposits doc = Inr deposits \<and>
         map (\<lambda>row. property row (js ''amount'')) rows =
           map (\<lambda>d. JString (removeCommas (amount d))) deposits"
    if "exportAllDepositData pg ov doc = Exported n f1 f2 rows csv" for n f1 f2 rows csv
    using exported_rows[OF that] amount_rows by blast
  have d: "map (\<lambda>row. property row (js ''amount'')) (formatForExport ds) =
     map (\<lambda>d. JString (case listInfo d of None \<Rightarrow> [] | Some li \<Rightarrow> removeCommas (amount li))) ds"
    by (simp add: formatForExport_def property_amount)
  have e: "removeCommas (js ''1,250.00'') = js ''1250.00''"
    by (simp add: removeCommas_def js_def comma_def)
  from a b c d e show ?thesis
    by (simp add: property_amount removeCommas_no_comma) (simp add: removeCommas_def)
qed

text \<open>Witness for C6: the first example deposit, extracted as \<open>1,250.00\<close>, is exported as
  \<open>1250.00\<close>, and the export of \<open>batchPage\<close> has the amounts \<open>1250.00\<close>, \<open>300\<close> and \<open>450\<close>.\<close>

theorem export_amount_without_commas_witness:
  "amount deposit1 = js ''1,250.00'' \<and>
   getDepositDetails failingPage deposit1 = Inr details1 \<and>
   property (exportRow details1) (js ''amount'') = JString (js ''1250.00'') \<and>
   map_option amount (listInfo details1) = Some (js ''1,250.00'') \<and>
   findAllDeposits batchPage = Inr [deposit1, deposit2, deposit3] \<and>
   (\<exists>rows csv. exportAllDepositData failingPage NoOverlay batchPage =
        Exported 3 (generateFilename (js ''csv'')) (generateFilename (js ''json'')) rows csv \<and>
      map (\<lambda>row. property row (js ''amount'')) rows =
        [JString (js ''1250.00''), JString (js ''300''), JString (js ''450'')])"
proof -
  have a: "amount deposit1 = js ''1,250.00''" by (simp add: deposit1_def)
  note main = export_amount_without_commas[of details1 failingPage deposit1 None NoOverlay
                batchPage "[]" "[]"]
  note through = main[THEN conjunct2, THEN conjunct1]
  from through[rule_format, OF example_details] have
    row: "property (exportRow details1) (js ''amount'') = JString (removeCommas (amount deposit1))"
    and li: "map_option amount (listInfo details1) = Some (amount deposit1)" by simp_all
  from main have ex: "removeCommas (js ''1,250.00'') = js ''1250.00''" by simp
  have first: "NoOverlay = CompleteOverlay \<or> (NoOverlay = NoOverlay \<and> documentHead batchPage \<noteq> None)"
    by (simp add: batchPage_document)
  have body: "documentBody batchPage \<noteq> None" by (simp add: batchPage_document)
  from export_succeeds[OF batchPage_deposits _ body first, of failingPage] obtain rows csv where
    run: "exportAllDepositData failingPage NoOverlay batchPage =
            Exported 3 (generateFilename (js ''csv'')) (generateFilename (js ''json'')) rows csv"
    by simp
  note whole_run = main[THEN conjunct2, THEN conjunct2, THEN conjunct2, THEN conjunct2,
                     THEN conjunct1]
  from whole_run[rule_format, OF run] obtain deposits where
    found: "findAllDeposits batchPage = Inr deposits"
    and amounts: "map (\<lambda>row. property row (js ''amount'')) rows =
       map (\<lambda>d. JString (removeCommas (amount d))) deposits" by (elim exE conjE)
  from found batchPage_deposits have "deposits = [deposit1, deposit2, deposit3]" by simp
  with amounts have
    "map (\<lambda>row. property row (js ''amount'')) rows =
       [JString (js ''1250.00''), JString (js ''300''), JString (js ''450'')]"
    by (simp add: deposit1_def deposit2_def deposit3_def removeCommas_def js_def comma_def)
  with run have whole: "\<exists>rows csv. exportAllDepositData failingPage NoOverlay batchPage =
        Exported 3 (generateFilename (js ''csv'')) (generateFilename (js ''json'')) rows csv \<and>
      map (\<lambda>row. property row (js ''amount'')) rows =
        [JString (js ''1250.00''), JString (js ''300''), JString (js ''450'')]"
    by (intro exI[of _ rows] exI[of _ csv]) simp
  from a row li ex example_details batchPage_deposits whole show ?thesis by simp
qed

subsection \<open>C7: a currency symbol in a paragraph of its own\<close>

text \<open>
  Claim C7, as amended.  The symbols are tried in the order euro, dollar, pound, and for
  each symbol only the first paragraph whose trimmed text is exactly that symbol is looked
  at.  If \<open>s\<close> is the first symbol in this order for which that paragraph is immediately
  followed, in the list of the container's paragraphs, by a paragraph whose trimmed text
  \<open>t\<close> has a digit, a comma or a dot somewhere (the pattern \<open>[0-9,.]+\<close> is not anchored),
  then extraction returns \<open>s\<close> as \<open>currency\<close> and \<open>t\<close>, unchanged, as \<open>amount\<close>, in both
  files.
\<close>

theorem standalone_symbol_supplies_amount:
  assumes "s \<in> set CURRENCY_SYMBOLS"
    and "amountAfter doc (paragraphsOf doc container) s = Some t"
    and "\<forall>s'\<in>set (takeWhile (\<lambda>x. x \<noteq> s) CURRENCY_SYMBOLS).
           amountAfter doc (paragraphsOf doc container) s' = None"
  shows "(\<exists>r. extractDepositInfo doc container idx = Inr r \<and> currency r = s \<and> amount r = t) \<and>
         (\<exists>r. extractDepositInfo_rd serialize doc container idx = Inr r \<and>
              currency r = s \<and> amount r = t)"
proof -
  have loop: "standaloneLoop doc (paragraphsOf doc container) CURRENCY_SYMBOLS [] = Inr (s, t)"
    by (rule standaloneLoop_first[OF assms])
  have "t \<noteq> []" by (rule amountAfter_nonempty[OF assms(2)])
  then have comb: "combinedFormat doc (paragraphsOf doc container) (s, t) = (s, t)"
    by (rule combinedFormat_keep)
  show ?thesis by (rule amounts_both[OF loop comb])
qed

text \<open>Witness for C7: in \<open>dollarPage\<close> the paragraph \<open>$\<close> is followed by \<open>300.00\<close> and no
  euro paragraph comes with an amount; in \<open>returnPage\<close> the paragraph with the euro sign
  is followed by \<open>1,250.00\<close>.\<close>

theorem standalone_symbol_supplies_amount_witness:
  "[dollar] \<in> set CURRENCY_SYMBOLS \<and>
   takeWhile (\<lambda>x. x \<noteq> [dollar]) CURRENCY_SYMBOLS = [[euro]] \<and>
   amountAfter dollarPage (paragraphsOf dollarPage [0, 0]) [euro] = None \<and>
   amountAfter dollarPage (paragraphsOf dollarPage [0, 0]) [dollar] = Some (js ''300.00'') \<and>
   (\<exists>r. extractDepositInfo dollarPage [0, 0] 1 = Inr r \<and>
        currency r = [dollar] \<and> amount r = js ''300.00'') \<and>
   (\<exists>r. extractDepositInfo_rd (\<lambda>n. []) dollarPage [0, 0] 1 = Inr r \<and>
        currency r = [dollar] \<and> amount r = js ''300.00'') \<and>
   [euro] \<in> set CURRENCY_SYMBOLS \<and>
   takeWhile (\<lambda>x. x \<noteq> [euro]) CURRENCY_SYMBOLS = [] \<and>
   amountAfter returnPage (paragraphsOf returnPage [0, 0]) [euro] = Some (js ''1,250.00'') \<and>
   (\<exists>r. extractDepositInfo returnPage [0, 0] 1 = Inr r \<and>
        currency r = [euro] \<and> amount r = js ''1,250.00'')"
proof -
  have d1: "[dollar] \<in> set CURRENCY_SYMBOLS" and e1: "[euro] \<in> set CURRENCY_SYMBOLS"
    by (simp_all add: CURRENCY_SYMBOLS_def)
  have d2: "takeWhile (\<lambda>x. x \<noteq> [dollar]) CURRENCY_SYMBOLS = [[euro]]"
    and e2: "takeWhile (\<lambda>x. x \<noteq> [euro]) CURRENCY_SYMBOLS = []"
    by (simp_all add: CURRENCY_SYMBOLS_def euro_def dollar_def pound_def)
  have d3: "amountAfter dollarPage (paragraphsOf dollarPage [0, 0]) [euro] = None"
    and d4: "amountAfter dollarPage (paragraphsOf dollarPage [0, 0]) [dollar] = Some (js ''300.00'')"
    by (simp_all add: dollarPage_paragraphs dollarPage_amountAfter)
  have e4: "amountAfter returnPage (paragraphsOf returnPage [0, 0]) [euro] = Some (js ''1,250.00'')"
    by (simp add: returnPage_paragraphs returnPage_amountAfter)
  have d5: "\<forall>s'\<in>set (takeWhile (\<lambda>x. x \<noteq> [dollar]) CURRENCY_SYMBOLS).
              amountAfter dollarPage (paragraphsOf dollarPage [0, 0]) s' = None"
    by (simp add: d2 d3)
  have e5: "\<forall>s'\<in>set (takeWhile (\<lambda>x. x \<noteq> [euro]) CURRENCY_SYMBOLS).
              amountAfter returnPage (paragraphsOf returnPage [0, 0]) s' = None"
    by (simp add: e2)
  note dollar_case = standalone_symbol_supplies_amount[OF d1 d4 d5, of 1 "\<lambda>n. []"]
  note euro_case = standalone_symbol_supplies_amount[OF e1 e4 e5, of 1 "\<lambda>n. []"]
  from d1 d2 d3 d4 e1 e2 e4 dollar_case euro_case show ?thesis by simp
qed

text \<open>Counterexample to C7 as stated: the container of \<open>twoAmountsPage\<close> holds a paragraph
  with the euro sign (the fifth one) that is immediately followed by the paragraph
  \<open>500.00\<close>, yet the amount extracted is \<open>1,250.00\<close>, the text after the first paragraph
  with the euro sign.\<close>

theorem later_symbol_paragraph_is_ignored:
  "paragraphsOf twoAmountsPage [0, 0] =
     [[0, 0, 0, 0], [0, 0, 1], [0, 0, 2], [0, 0, 3, 0], [0, 0, 4], [0, 0, 5]] \<and>
   trimmedText twoAmountsPage [0, 0, 4] = [euro] \<and>
   [euro] \<in> set CURRENCY_SYMBOLS \<and>
   trimmedText twoAmountsPage [0, 0, 5] = js ''500.00'' \<and>
   testAmount (js ''500.00'') \<and>
   (\<exists>r. extractDepositInfo twoAmountsPage [0, 0] 1 = Inr r \<and>
        amount r = js ''1,250.00'' \<and> amount r \<noteq> js ''500.00'') \<and>
   (\<exists>r. extractDepositInfo_rd (\<lambda>n. []) twoAmountsPage [0, 0] 1 = Inr r \<and>
        amount r = js ''1,250.00'' \<and> amount r \<noteq> js ''500.00'')"
proof -
  have loop: "standaloneLoop twoAmountsPage (paragraphsOf twoAmountsPage [0,0]) CURRENCY_SYMBOLS [] =
                Inr ([euro], js ''1,250.00'')"
    unfolding twoAmountsPage_paragraphs
    by (rule standaloneLoop_first) (simp_all add: CURRENCY_SYMBOLS_def twoAmountsPage_amountAfter)
  have comb: "combinedFormat twoAmountsPage (paragraphsOf twoAmountsPage [0,0])
                ([euro], js ''1,250.00'') = ([euro], js ''1,250.00'')"
    by (rule combinedFormat_keep) simp
  have differ: "js ''1,250.00'' \<noteq> js ''500.00''" by simp
  from amounts_both[OF loop comb, of 1 "\<lambda>n. []"] obtain r r' where
    r: "extractDepositInfo twoAmountsPage [0, 0] 1 = Inr r" "amount r = js ''1,250.00''"
    and r': "extractDepositInfo_rd (\<lambda>n. []) twoAmountsPage [0, 0] 1 = Inr r'"
      "amount r' = js ''1,250.00''"
    by blast
  have facts: "paragraphsOf twoAmountsPage [0, 0] =
       [[0, 0, 0, 0], [0, 0, 1], [0, 0, 2], [0, 0, 3, 0], [0, 0, 4], [0, 0, 5]]"
    "trimmedText twoAmountsPage [0, 0, 4] = [euro]" "[euro] \<in> set CURRENCY_SYMBOLS"
    "trimmedText twoAmountsPage [0, 0, 5] = js ''500.00''" "testAmount (js ''500.00'')"
    by (simp_all add: twoAmountsPage_paragraphs twoAmountsPage_texts amount_texts
          CURRENCY_SYMBOLS_def)
  from facts r r' differ show ?thesis by auto
qed

subsection \<open>C8: the symbol and the number in one paragraph\<close>

text \<open>
  Claim C8.  Suppose no currency symbol in a paragraph of its own supplies an amount, and
  some paragraph of the container has a trimmed text that matches
  \<open>^[\<euro>$\<pounds>]?\s*[0-9,.]+$\<close>; let \<open>ap\<close> be the first such paragraph.  Then its text is an
  optional currency symbol, white space, and a non-empty run of digits, commas and dots,
  and extraction returns the symbol (or the empty string) as \<open>currency\<close> and the run as
  \<open>amount\<close>, in both files.  In particular the text \<open>$300\<close> gives the currency \<open>$\<close> and the
  amount \<open>300\<close>, and the text \<open>450\<close> gives the empty currency and the amount \<open>450\<close>.
\<close>

theorem combined_paragraph_is_split:
  assumes "\<forall>s\<in>set CURRENCY_SYMBOLS. amountAfter doc (paragraphsOf doc container) s = None"
    and "find (\<lambda>p. testCombined (trimmedText doc p)) (paragraphsOf doc container) = Some ap"
  shows "\<exists>sym sp num.
           trimmedText doc ap = sym @ sp @ num \<and>
           (sym = [] \<or> (\<exists>c. sym = [c] \<and> isCurrencyChar c)) \<and>
           list_all isWhiteSpace sp \<and> num \<noteq> [] \<and> list_all isAmountChar num \<and>
           matchCombined (trimmedText doc ap) = Some (sym, num) \<and>
           (\<exists>r. extractDepositInfo doc container idx = Inr r \<and>
                currency r = sym \<and> amount r = num) \<and>
           (\<exists>r. extractDepositInfo_rd serialize doc container idx = Inr r \<and>
                currency r = sym \<and> amount r = num) \<and>
           (trimmedText doc ap = [dollar] @ js ''300'' \<longrightarrow> sym = [dollar] \<and> num = js ''300'') \<and>
           (trimmedText doc ap = js ''450'' \<longrightarrow> sym = [] \<and> num = js ''450'')"
proof -
  from standaloneLoop_none[OF assms(1), of "[]"] obtain c where
    loop: "standaloneLoop doc (paragraphsOf doc container) CURRENCY_SYMBOLS [] = Inr (c, [])"
    by blast
  from combinedFormat_split[OF assms(2), of c] obtain g1 g2 where
    m: "matchCombined (trimmedText doc ap) = Some (g1, g2)"
    and comb: "combinedFormat doc (paragraphsOf doc container) (c, []) = (g1, g2)" by blast
  from matchCombined_shape[OF m] obtain sp where
    shape: "trimmedText doc ap = g1 @ sp @ g2" "g1 = [] \<or> (\<exists>c. g1 = [c] \<and> isCurrencyChar c)"
      "list_all isWhiteSpace sp" "g2 \<noteq> []" "list_all isAmountChar g2" by blast
  have ex1: "g1 = [dollar] \<and> g2 = js ''300''" if "trimmedText doc ap = [dollar] @ js ''300''"
    using m matchCombined_examples(1) unfolding that by simp
  have ex2: "g1 = [] \<and> g2 = js ''450''" if "trimmedText doc ap = js ''450''"
    using m matchCombined_examples(2) unfolding that by simp
  from amounts_both[OF loop comb] shape m ex1 ex2 show ?thesis by blast
qed

text \<open>Witness for C8: the two containers of \<open>combinedPage\<close>, with the paragraphs \<open>$300\<close>
  and \<open>450\<close>.\<close>

theorem combined_paragraph_is_split_witness:
  "amountAfter combinedPage (paragraphsOf combinedPage [0, 0]) [euro] = None \<and>
   amountAfter combinedPage (paragraphsOf combinedPage [0, 0]) [dollar] = None \<and>
   amountAfter combinedPage (paragraphsOf combinedPage [0, 0]) [pound] = None \<and>
   find (\<lambda>p. testCombined (trimmedText combinedPage p)) (paragraphsOf combinedPage [0, 0]) =
     Some [0, 0, 1] \<and>
   trimmedText combinedPage [0, 0, 1] = [dollar] @ js ''300'' \<and>
   (\<exists>r. extractDepositInfo combinedPage [0, 0] 1 = Inr r \<and>
        currency r = [dollar] \<and> amount r = js ''300'') \<and>
   (\<exists>r. extractDepositInfo_rd (\<lambda>n. []) combinedPage [0, 0] 1 = Inr r \<and>
        currency r = [dollar] \<and> amount r = js ''300'') \<and>
   amountAfter combinedPage (paragraphsOf combinedPage [0, 1]) [euro] = None \<and>
   amountAfter combinedPage (paragraphsOf combinedPage [0, 1]) [dollar] = None \<and>
   amountAfter combinedPage (paragraphsOf combinedPage [0, 1]) [pound] = None \<and>
   find (\<lambda>p. testCombined (trimmedText combinedPage p)) (paragraphsOf combinedPage [0, 1]) =
     Some [0, 1, 1] \<and>
   trimmedText combinedPage [0, 1, 1] = js ''450'' \<and>
   (\<exists>r. extractDepositInfo combinedPage [0, 1] 2 = Inr r \<and>
        currency r = [] \<and> amount r = js ''450'') \<and>
   (\<exists>r. extractDepositInfo_rd (\<lambda>n. []) combinedPage [0, 1] 2 = Inr r \<and>
        currency r = [] \<and> amount r = js ''450'')"
proof -
  have a: "\<forall>s\<in>set CURRENCY_SYMBOLS. amountAfter combinedPage (paragraphsOf combinedPage [0, 0]) s = None"
    by (simp add: CURRENCY_SYMBOLS_def combinedPage_paragraphs combinedPage_amountAfter)
  have b: "\<forall>s\<in>set CURRENCY_SYMBOLS. amountAfter combinedPage (paragraphsOf combinedPage [0, 1]) s = None"
    by (simp add: CURRENCY_SYMBOLS_def combinedPage_paragraphs combinedPage_amountAfter)
  have fa: "find (\<lambda>p. testCombined (trimmedText combinedPage p)) (paragraphsOf combinedPage [0, 0]) =
              Some [0, 0, 1]"
    using combinedPage_find(1) by (simp add: combinedPage_paragraphs)
  have fb: "find (\<lambda>p. testCombined (trimmedText combinedPage p)) (paragraphsOf combinedPage [0, 1]) =
              Some [0, 1, 1]"
    using combinedPage_find(2) by (simp add: combinedPage_paragraphs)
  have ta: "trimmedText combinedPage [0, 0, 1] = [dollar] @ js ''300''"
    and tb: "trimmedText combinedPage [0, 1, 1] = js ''450''"
    using combinedPage_texts dollar_300 by simp_all
  from combined_paragraph_is_split[OF a fa, of 1 "\<lambda>n. []"] obtain sym num where
    ha: "(\<exists>r. extractDepositInfo combinedPage [0, 0] 1 = Inr r \<and>
              currency r = sym \<and> amount r = num)"
        "(\<exists>r. extractDepositInfo_rd (\<lambda>n. []) combinedPage [0, 0] 1 = Inr r \<and>
              currency r = sym \<and> amount r = num)"
        "trimmedText combinedPage [0, 0, 1] = [dollar] @ js ''300'' \<longrightarrow>
           sym = [dollar] \<and> num = js ''300''"
    by (elim exE conjE) (rule that; blast)
  from ha(3) ta have "sym = [dollar]" "num = js ''300''" by simp_all
  with ha(1,2)
  have ra: "(\<exists>r. extractDepositInfo combinedPage [0, 0] 1 = Inr r \<and>
                currency r = [dollar] \<and> amount r = js ''300'') \<and>
            (\<exists>r. extractDepositInfo_rd (\<lambda>n. []) combinedPage [0, 0] 1 = Inr r \<and>
                currency r = [dollar] \<and> amount r = js ''300'')"
    by simp
  from combined_paragraph_is_split[OF b fb, of 2 "\<lambda>n. []"] obtain sym' num' where
    hb: "(\<exists>r. extractDepositInfo combinedPage [0, 1] 2 = Inr r \<and>
              currency r = sym' \<and> amount r = num')"
        "(\<exists>r. extractDepositInfo_rd (\<lambda>n. []) combinedPage [0, 1] 2 = Inr r \<and>
              currency r = sym' \<and> amount r = num')"
        "trimmedText combinedPage [0, 1, 1] = js ''450'' \<longrightarrow> sym' = [] \<and> num' = js ''450''"
    by (elim exE conjE) (rule that; blast)
  from hb(3) tb have "sym' = []" "num' = js ''450''" by simp_all
  with hb(1,2)
  have rb: "(\<exists>r. extractDepositInfo combinedPage [0, 1] 2 = Inr r \<and>
                currency r = [] \<and> amount r = js ''450'') \<and>
            (\<exists>r. extractDepositInfo_rd (\<lambda>n. []) combinedPage [0, 1] 2 = Inr r \<and>
                currency r = [] \<and> amount r = js ''450'')"
    by simp
  have sa: "amountAfter combinedPage (paragraphsOf combinedPage [0, 0]) [euro] = None"
     "amountAfter combinedPage (paragraphsOf combinedPage [0, 0]) [dollar] = None"
     "amountAfter combinedPage (paragraphsOf combinedPage [0, 0]) [pound] = None"
     "amountAfter combinedPage (paragraphsOf combinedPage [0, 1]) [euro] = None"
     "amountAfter combinedPage (paragraphsOf combinedPage [0, 1]) [dollar] = None"
     "amountAfter combinedPage (paragraphsOf combinedPage [0, 1]) [pound] = None"
    using a b by (simp_all add: CURRENCY_SYMBOLS_def)
  from sa fa fb ta tb ra rb show ?thesis by simp
qed

subsection \<open>C9: one set of fields for every row\<close>

text \<open>
  Claim C9.  Every row of \<open>formatForExport\<close> has the fourteen fields of \<open>EXPORT_FIELDS\<close>, in
  that order.  The CSV text of a non-empty export is therefore the line of these names
  followed by one line per record with one cell for each of the names, in the same order.
  A value that is \<open>undefined\<close> or \<open>null\<close>, and a property that the row does not have, give
  an empty cell; a boolean gives \<open>true\<close> or \<open>false\<close>.
\<close>

theorem export_rows_share_fixed_fields:
  "map fst (exportRow d) = EXPORT_FIELDS \<and>
   map (map fst) (formatForExport ds) = replicate (length ds) EXPORT_FIELDS \<and>
   toCSV (formatForExport (d # ds)) =
     join [comma] EXPORT_FIELDS @ [newline] @
     concat (map (\<lambda>x. join [comma] (map (csvCell \<circ> snd) (exportRow x)) @ [newline]) (d # ds)) \<and>
   csvCell JUndefined = [] \<and> csvCell JNull = [] \<and>
   (map_of item header = None \<longrightarrow> csvCell (property item header) = []) \<and>
   csvCell (JBoolean True) = js ''true'' \<and> csvCell (JBoolean False) = js ''false''"
proof -
  have fields: "map (map fst) (formatForExport ds) = replicate (length ds) EXPORT_FIELDS"
    by (induction ds) (simp_all add: formatForExport_def keys_exportRow)
  have line: "csvLine EXPORT_FIELDS (exportRow x) =
                join [comma] (map (csvCell \<circ> snd) (exportRow x)) @ [newline]" for x
    by (simp add: csvLine_def cells_exportRow)
  have csv: "toCSV (formatForExport (d # ds)) =
     join [comma] EXPORT_FIELDS @ [newline] @
     concat (map (\<lambda>x. join [comma] (map (csvCell \<circ> snd) (exportRow x)) @ [newline]) (d # ds))"
    by (simp add: toCSV_def formatForExport_def keys_exportRow line comp_def)
  show ?thesis using fields csv by (simp add: keys_exportRow property_def)
qed

text \<open>Witness for C9: the CSV file of the first example deposit with the example form
  values, and a property that a row does not have.\<close>

theorem export_rows_share_fixed_fields_witness:
  "map_of ([] :: jsobject) (js ''note'') = None \<and>
   csvCell (property [] (js ''note'')) = [] \<and>
   readDetails failingPage deposit1 = Inr modal1 \<and>
   getDepositDetails failingPage deposit1 = Inr details1 \<and>
   toCSV (formatForExport [details1]) =
     exampleHeader @ [newline] @ exampleLine @ [newline]"
proof -
  note main = export_rows_share_fixed_fields[of details1 "[]" "[]" "js ''note''"]
  from main have cell: "csvCell (property [] (js ''note'')) = []" by simp
  from main have csv: "toCSV (formatForExport [details1]) =
     join [comma] EXPORT_FIELDS @ [newline] @
     join [comma] (map (csvCell \<circ> snd) (exportRow details1)) @
     [newline]" by simp
  show ?thesis using cell csv example_reads(1) example_details
    by (simp add: example_header example_cells)
qed

subsection \<open>C10: a selector that does not parse\<close>

text \<open>
  Claim C10.  If the browser's query throws for a selector (its syntax is invalid), then
  \<open>DOMUtils.querySelector\<close> returns \<open>null\<close> and \<open>DOMUtils.querySelectorAll\<close> returns the empty
  list for it.  The container search with such a selector goes on with the generic
  search, exactly as with a selector that matches nothing, and \<open>closeModal\<close> goes on to
  the selectors after it as if it were not in the list.
\<close>

theorem invalid_selector_is_no_match:
  assumes "native_querySelectorAll doc g root = Inl e"
  shows "querySelector doc g root = None \<and> querySelectorAll doc g root = [] \<and>
         depositContainers g numbers doc = genericContainers numbers doc \<and>
         (\<forall>g'. native_querySelectorAll doc g' Document = Inr [] \<longrightarrow>
                depositContainers g numbers doc = depositContainers g' numbers doc) \<and>
         closeButton doc (before @ g # after) = closeButton doc (before @ after)"
proof -
  from assms have inv: "\<not> validGroup g" by (simp add: native_throws_iff)
  have a: "querySelector doc g root = None" by (rule invalid_querySelector[OF inv])
  have b: "querySelectorAll doc g root = []" by (rule invalid_querySelectorAll[OF inv])
  have c: "depositContainers g numbers doc = genericContainers numbers doc"
    by (rule depositContainers_no_match) (rule invalid_querySelectorAll[OF inv])
  have d: "closeButton doc (before @ g # after) = closeButton doc (before @ after)"
    by (rule closeButton_skip[OF inv])
  have e: "depositContainers g numbers doc = depositContainers g' numbers doc"
    if "native_querySelectorAll doc g' Document = Inr []" for g'
    using that c by (simp add: depositContainers_no_match querySelectorAll_def)
  from a b c d e show ?thesis by blast
qed

text \<open>Witness for C10: on \<open>closePage\<close> the selector \<open>button:contains("Close")\<close> of
  \<open>CLOSE_BUTTON\<close> throws in the browser; \<open>closeModal\<close> still reaches the last selector and
  finds the button.\<close>

theorem invalid_selector_is_no_match_witness:
  "native_querySelectorAll closePage [Unparsable] Document = Inl SyntaxError \<and>
   native_querySelectorAll closePage [Compound [TypeSel (js ''table'')]] Document = Inr [] \<and>
   querySelector closePage [Unparsable] Document = None \<and>
   querySelectorAll closePage [Unparsable] Document = [] \<and>
   depositContainers [Unparsable] hasNumbers closePage =
     depositContainers [Compound [TypeSel (js ''table'')]] hasNumbers closePage \<and>
   closeButton closePage CLOSE_BUTTON = Some [0, 0, 0] \<and>
   closeModal closePage"
proof -
  have t: "native_querySelectorAll closePage [Unparsable] Document = Inl SyntaxError"
    by (simp add: native_querySelectorAll_def validGroup_def)
  note main = invalid_selector_is_no_match[OF t, of hasNumbers "take 3 CLOSE_BUTTON"
                "drop 4 CLOSE_BUTTON"]
  have split: "take 3 CLOSE_BUTTON @ [Unparsable] # drop 4 CLOSE_BUTTON = CLOSE_BUTTON"
    by (simp add: CLOSE_BUTTON_def)
  have rest: "closeButton closePage (take 3 CLOSE_BUTTON @ drop 4 CLOSE_BUTTON) = Some [0, 0, 0]"
    by (simp add: CLOSE_BUTTON_def closePage_buttons)
  from main have q: "querySelector closePage [Unparsable] Document = None"
    and qa: "querySelectorAll closePage [Unparsable] Document = []" by blast+
  from main closePage_tables have same: "depositContainers [Unparsable] hasNumbers closePage =
     depositContainers [Compound [TypeSel (js ''table'')]] hasNumbers closePage" by blast
  from main have "closeButton closePage (take 3 CLOSE_BUTTON @ [Unparsable] # drop 4 CLOSE_BUTTON) =
     closeButton closePage (take 3 CLOSE_BUTTON @ drop 4 CLOSE_BUTTON)" by blast
  then have button: "closeButton closePage CLOSE_BUTTON = Some [0, 0, 0]"
    unfolding split rest .
  from t closePage_tables q qa same button show ?thesis by (simp add: closeModal_def)
qed

end
